theory Spec2Isabelle
  imports Main "HOL-Library.Word"
begin

section \<open>Property marshalling of nmcli: clients/common/nm-meta-setting-desc.c\<close>

text \<open>
  A shallow embedding of the parsers, setters, removers and getters of
  \<^verbatim>\<open>clients/common/nm-meta-setting-desc.c\<close>. C strings are \<open>string\<close>, a
  \<^verbatim>\<open>NULL\<close> string is \<open>None\<close>, a \<^verbatim>\<open>GError\<close> is a value of the datatype
  \<open>error\<close>, and a function that returns \<^verbatim>\<open>NULL\<close>/\<^verbatim>\<open>FALSE\<close> with the error set
  returns \<open>Inl\<close> of that error. The setting object that a setter mutates is passed in
  and returned.
\<close>

subsection \<open>Characters and strings (GLib, libc)\<close>

text \<open>
  \<^verbatim>\<open>g_ascii_isspace\<close> of GLib: space, tab, line feed, form feed and carriage return
  (the vertical tab is not a space for GLib).
\<close>

definition g_ascii_isspace :: "char \<Rightarrow> bool" where
  "g_ascii_isspace c =
     (c = CHR '' '' \<or> c = CHR 0x09 \<or> c = CHR 0x0A \<or> c = CHR 0x0C \<or> c = CHR 0x0D)"

text \<open>The \<^verbatim>\<open>ISSPACE\<close> of \<^verbatim>\<open>g_ascii_strtoll\<close>, which also skips a vertical tab.\<close>

definition strtol_isspace :: "char \<Rightarrow> bool" where
  "strtol_isspace c = (g_ascii_isspace c \<or> c = CHR 0x0B)"

definition g_ascii_isdigit :: "char \<Rightarrow> bool" where
  "g_ascii_isdigit c = (48 \<le> (of_char c :: nat) \<and> (of_char c :: nat) \<le> 57)"

definition digit_value :: "char \<Rightarrow> int" where
  "digit_value c = int (of_char c) - 48"

text \<open>\<^verbatim>\<open>g_strchug\<close>, \<^verbatim>\<open>g_strchomp\<close> and \<^verbatim>\<open>g_strstrip\<close>; \<^verbatim>\<open>nm_strstrip_avoid_copy\<close>
  returns the same text as \<^verbatim>\<open>g_strstrip\<close> for a string that is not \<^verbatim>\<open>NULL\<close>.\<close>

definition g_strchug :: "string \<Rightarrow> string" where
  "g_strchug s = dropWhile g_ascii_isspace s"

definition g_strchomp :: "string \<Rightarrow> string" where
  "g_strchomp s = rev (dropWhile g_ascii_isspace (rev s))"

definition g_strstrip :: "string \<Rightarrow> string" where
  "g_strstrip s = g_strchomp (g_strchug s)"

definition nm_strstrip_avoid_copy :: "string \<Rightarrow> string" where
  "nm_strstrip_avoid_copy s = g_strstrip s"

text \<open>
  \<^verbatim>\<open>strchr (s, c)\<close> followed by writing \<^verbatim>\<open>'\0'\<close> over the character found: the text
  before the first \<open>c\<close> and the text after it; \<open>None\<close> when \<open>c\<close> does not occur.
\<close>

definition strchr_cut :: "char \<Rightarrow> string \<Rightarrow> (string \<times> string) option" where
  "strchr_cut c s =
     (if c \<in> set s
      then Some (takeWhile (\<lambda>x. x \<noteq> c) s, tl (dropWhile (\<lambda>x. x \<noteq> c) s))
      else None)"

text \<open>
  Modelled from the spec: \<^verbatim>\<open>nm_utils_strsplit_set (str, delimiters, FALSE)\<close> of
  shared/nm-utils (not under src/). It splits at every delimiter character, never
  returns an empty token, and returns \<^verbatim>\<open>NULL\<close> (here \<open>None\<close>) when there is no token.
\<close>

fun strsplit_tokens :: "string \<Rightarrow> string \<Rightarrow> string \<Rightarrow> string list" where
  "strsplit_tokens delims cur [] = (if cur = [] then [] else [cur])"
| "strsplit_tokens delims cur (c # cs) =
     (if c \<in> set delims
      then (if cur = [] then strsplit_tokens delims [] cs
            else cur # strsplit_tokens delims [] cs)
      else strsplit_tokens delims (cur @ [c]) cs)"

definition nm_utils_strsplit_set :: "string \<Rightarrow> string \<Rightarrow> string list option" where
  "nm_utils_strsplit_set str delims =
     (case strsplit_tokens delims [] str of [] \<Rightarrow> None | t # ts \<Rightarrow> Some (t # ts))"

text \<open>
  \<^verbatim>\<open>g_strsplit_set (string, delimiters, -1)\<close> of GLib keeps empty tokens; the empty
  string gives the empty vector.
\<close>

fun g_split_fields :: "string \<Rightarrow> string \<Rightarrow> string \<Rightarrow> string list" where
  "g_split_fields delims cur [] = [cur]"
| "g_split_fields delims cur (c # cs) =
     (if c \<in> set delims then cur # g_split_fields delims [] cs
      else g_split_fields delims (cur @ [c]) cs)"

definition g_strsplit_set :: "string \<Rightarrow> string \<Rightarrow> string list" where
  "g_strsplit_set str delims = (if str = [] then [] else g_split_fields delims [] str)"

subsection \<open>Reading and printing integers\<close>

definition G_MAXINT64 :: int where "G_MAXINT64 = 2 ^ 63 - 1"
definition G_MININT64 :: int where "G_MININT64 = - (2 ^ 63)"
definition G_MAXUINT32 :: int where "G_MAXUINT32 = 2 ^ 32 - 1"
definition G_MAXINT32 :: int where "G_MAXINT32 = 2 ^ 31 - 1"

definition digits_value :: "string \<Rightarrow> int" where
  "digits_value ds = foldl (\<lambda>a c. 10 * a + digit_value c) 0 ds"

text \<open>
  \<^verbatim>\<open>g_ascii_strtoll (nptr, &endptr, 10)\<close> of GLib: optional white space, an optional
  sign, decimal digits. The result is \<open>None\<close> when \<^verbatim>\<open>errno\<close> is set (the number does
  not fit 64 bits), else the number read and the text left at \<^verbatim>\<open>endptr\<close>; with no
  digit nothing is converted: the number is 0 and \<^verbatim>\<open>endptr\<close> is \<^verbatim>\<open>nptr\<close>.
\<close>

definition g_ascii_strtoll :: "string \<Rightarrow> (int \<times> string) option" where
  "g_ascii_strtoll nptr =
     (let s = dropWhile strtol_isspace nptr;
          negative = (s \<noteq> [] \<and> hd s = CHR ''-'');
          s1 = (if s \<noteq> [] \<and> (hd s = CHR ''-'' \<or> hd s = CHR ''+'') then tl s else s);
          ds = takeWhile g_ascii_isdigit s1;
          rest = dropWhile g_ascii_isdigit s1;
          v = (if negative then - digits_value ds else digits_value ds)
      in if ds = [] then Some (0, nptr)
         else if v > G_MAXINT64 \<or> v < G_MININT64 then None
         else Some (v, rest))"

text \<open>
  Modelled from the spec: \<^verbatim>\<open>_nm_utils_ascii_str_to_int64 (str, 10, min, max, fallback)\<close>
  of shared/nm-utils (not under src/), at base 10, the base of every call modelled
  here: the integer that \<open>str\<close> spells, with white space allowed around it, when it
  lies in \<open>[min, max]\<close>; the fallback for any other text.
\<close>

definition nm_utils_ascii_str_to_int64 :: "string \<Rightarrow> int \<Rightarrow> int \<Rightarrow> int \<Rightarrow> int" where
  "nm_utils_ascii_str_to_int64 str min_v max_v fallback =
     (let s = dropWhile g_ascii_isspace str
      in if s = [] then fallback
         else (case g_ascii_strtoll s of
                 None \<Rightarrow> fallback
               | Some (v, rest) \<Rightarrow>
                   if dropWhile g_ascii_isspace rest \<noteq> [] then fallback
                   else if v > max_v \<or> v < min_v then fallback
                   else v))"

text \<open>\<^verbatim>\<open>printf ("%u")\<close> and \<^verbatim>\<open>printf ("%" G_GINT64_FORMAT)\<close>: decimal digits.\<close>

function string_of_nat :: "nat \<Rightarrow> string" where
  "string_of_nat n =
     (if n < 10 then [char_of (48 + n)]
      else string_of_nat (n div 10) @ [char_of (48 + n mod 10)])"
  by pat_completeness auto
termination
  by (relation "measure id") auto

declare string_of_nat.simps [simp del]

definition string_of_int :: "int \<Rightarrow> string" where
  "string_of_int i = (if i < 0 then CHR ''-'' # string_of_nat (nat (- i)) else string_of_nat (nat i))"


text \<open>The integer that a text spells, if it spells one that fits 64 bits.\<close>

definition int_of_text :: "string \<Rightarrow> int option" where
  "int_of_text str =
     (let s = dropWhile g_ascii_isspace str
      in if s = [] then None
         else (case g_ascii_strtoll s of
                 None \<Rightarrow> None
               | Some (v, rest) \<Rightarrow>
                   if dropWhile g_ascii_isspace rest \<noteq> [] then None else Some v))"


subsection \<open>Conversions of C, and \<^verbatim>\<open>errno\<close>\<close>

text \<open>The conversion of a 64-bit integer to \<^verbatim>\<open>int\<close> and to \<^verbatim>\<open>guint\<close>, both of 32 bits,
  and the two values of \<^verbatim>\<open>errno\<close> that the number parsers of shared/nm-utils set.\<close>

definition int_cast :: "int \<Rightarrow> int" where
  "int_cast v = (v + 2 ^ 31) mod 2 ^ 32 - 2 ^ 31"

definition guint_cast :: "int \<Rightarrow> nat" where
  "guint_cast v = nat (v mod 2 ^ 32)"

datatype errno = EINVAL | ERANGE

text \<open>\<^verbatim>\<open>g_ascii_strcasecmp (a, b) == 0\<close> of GLib: the two strings are equal once the
  letters \<^verbatim>\<open>A\<close> to \<^verbatim>\<open>Z\<close> are read as lower case.\<close>

definition g_ascii_tolower :: "char \<Rightarrow> char" where
  "g_ascii_tolower c =
     (if 65 \<le> (of_char c :: nat) \<and> (of_char c :: nat) \<le> 90
      then char_of ((of_char c :: nat) + 32) else c)"

definition g_ascii_strcasecmp_eq :: "string \<Rightarrow> string \<Rightarrow> bool" where
  "g_ascii_strcasecmp_eq a b = (map g_ascii_tolower a = map g_ascii_tolower b)"

subsection \<open>Errors\<close>

text \<open>One constructor for every message that the modelled functions set, with the
  texts that the C code formats into the message. \<open>ReturnValIfReached\<close> stands for a
  \<^verbatim>\<open>FALSE\<close> returned through \<^verbatim>\<open>g_return_val_if_reached\<close>, with no \<^verbatim>\<open>GError\<close>, and
  \<open>NullDereference\<close> for reading through a \<^verbatim>\<open>NULL\<close> pointer. The reasons of
  the link-watcher parser are: properties should be specified as key=value; missing
  key value; unknown key; value is not a valid number [0, MAXINT]; value is not a
  valid number [-1, 4094].\<close>

datatype watcher_reason =
    NotKeyValue | MissingKeyValue | UnknownKey | NotANumberUpToMaxInt | NotAVlanId

datatype family = AF_INET | AF_INET6

datatype error =
    InvalidPrefix string nat
  | InvalidIPAddress string
  | RouteNotValid string
  | NextHopMustBeFirst string
  | MetricMustBeBeforeAttributes string
  | InvalidRouteOption string string
  | InvalidRouteAttribute string string
  | RouteSyntax
  | InvalidRoute string
  | WatcherNotValid string
  | WatcherTokenNotValid string watcher_reason
  | WatcherNameMissing
  | WatcherUnknownName string
  | WatcherInvalid string
  | DcbMustContain8
  | DcbNotANumber string nat
  | DcbNotANumberOrOther string nat nat
  | DcbPercentTotal
  | CanNotChangeConnectionType
  | StringNotValid string
  | OptionNotValid string
  | OptionValueNotValid string string
  | NotAValidMAC string
  | ReturnValIfReached
  | NullDereference
  | NotAValidUUID string
  | InvalidIPvAddress family string
  | NotAValidMACAddress string
  | InvalidPriorityMap string
  | NotValidMaster string
  | EthtoolNotValid string
  | AssertionFailed
  | OutOfRange string int int
  | NotAValidNumber string
  | NotAValidEthernetMAC string
  | InvalidOptionFlags string string
  | InvalidOptionEnum string string
  | NotAValidNumberOrOutOfRange string
  | FlagsNotValid nat string
  | NotValid string
  | NotAValidHexString
  | NotAValidHexCharacter string
  | NotAValidDcbFlag string
  | SimOperatorIdNotMCCMNC
  | NotAValidPKey string
  | InvalidGateway string
  | NotAValidChannelOf13 string
  | SriovVfSyntax error
  | QdiscSyntax error
  | TfilterSyntax error
  | TxHashNotValid string
  | SubchannelsNotValid string
  | NotAValidChannel string
  | NotAValidChannelNumber nat
  | WepKeyNotCompatible string string

subsection \<open>Addresses (libc, libnm-core)\<close>

definition MAX_PREFIX :: "family \<Rightarrow> nat" where
  "MAX_PREFIX fam = (if fam = AF_INET then 32 else 128)"

text \<open>
  The functions of libc and libnm-core that the parsers call and that are not under
  src/ are taken as parameters: \<open>inet_pton_ok fam s\<close> says that
  \<^verbatim>\<open>inet_pton (fam, s, buf)\<close> returns 1, \<open>inet_ntop_form fam s\<close> is the text that
  \<^verbatim>\<open>inet_ntop\<close> prints for the address \<open>s\<close>, \<open>is_unspecified fam s\<close> says that \<open>s\<close>
  is the all-zero address, and the two attribute functions are
  \<^verbatim>\<open>nm_utils_parse_variant_attributes\<close> (the attributes of a token, in the order in
  which the parser visits them) and \<^verbatim>\<open>nm_ip_route_attribute_validate\<close> (the message
  when an attribute is refused), with the \<^verbatim>\<open>GVariant\<close> of an attribute kept as its
  text.
\<close>

record libnm =
  inet_pton_ok :: "family \<Rightarrow> string \<Rightarrow> bool"
  inet_ntop_form :: "family \<Rightarrow> string \<Rightarrow> string"
  is_unspecified :: "family \<Rightarrow> string \<Rightarrow> bool"
  parse_variant_attributes :: "string \<Rightarrow> string + (string \<times> string) list"
  ip_route_attribute_validate :: "string \<Rightarrow> string \<Rightarrow> family \<Rightarrow> string option"

definition nm_utils_ipaddr_valid :: "libnm \<Rightarrow> family \<Rightarrow> string \<Rightarrow> bool" where
  "nm_utils_ipaddr_valid L fam ip = inet_pton_ok L fam ip"

record NMIPAddress =
  addr_family :: family
  address :: string
  prefix :: nat

text \<open>
  Modelled from the spec: \<^verbatim>\<open>nm_ip_address_new (family, addr, prefix, &error)\<close> of
  libnm-core (not under src/): it refuses a text that is not an address of the
  family and a prefix above the family's maximum, each with a message of its own,
  and stores the address in its printed form.
\<close>

definition nm_ip_address_new :: "libnm \<Rightarrow> family \<Rightarrow> string \<Rightarrow> nat \<Rightarrow> string + NMIPAddress" where
  "nm_ip_address_new L fam addr plen =
     (if \<not> inet_pton_ok L fam addr then Inl (''Invalid IP address '' @ addr)
      else if plen > MAX_PREFIX fam then Inl (''Invalid address prefix '' @ string_of_nat plen)
      else Inr \<lparr>addr_family = fam, address = inet_ntop_form L fam addr, prefix = plen\<rparr>)"

record NMIPRoute =
  route_family :: family
  dest :: string
  route_prefix :: nat
  next_hop :: "string option"
  metric :: int
  attributes :: "(string \<times> string) list"

text \<open>
  Modelled from the spec: \<^verbatim>\<open>nm_ip_route_new (family, dest, prefix, next_hop, metric,
  &error)\<close> of libnm-core (not under src/): destination and next hop must be
  addresses of the family, the prefix at most the family's maximum, the metric -1
  (unset) or a 32-bit unsigned number; an all-zero next hop is stored as unset.
\<close>

definition nm_ip_route_new ::
  "libnm \<Rightarrow> family \<Rightarrow> string \<Rightarrow> nat \<Rightarrow> string option \<Rightarrow> int \<Rightarrow> string + NMIPRoute" where
  "nm_ip_route_new L fam dst plen nh m =
     (if \<not> inet_pton_ok L fam dst then Inl (''Invalid IP address '' @ dst)
      else if plen > MAX_PREFIX fam then Inl (''Invalid address prefix '' @ string_of_nat plen)
      else if (case nh of None \<Rightarrow> False | Some h \<Rightarrow> \<not> inet_pton_ok L fam h)
           then Inl (''Invalid IP address '' @ the nh)
      else if m < - 1 \<or> m > G_MAXUINT32 then Inl (''Invalid route metric '' @ string_of_int m)
      else Inr \<lparr>route_family = fam, dest = inet_ntop_form L fam dst, route_prefix = plen,
                next_hop = (case nh of
                              None \<Rightarrow> None
                            | Some h \<Rightarrow> if is_unspecified L fam h then None
                                        else Some (inet_ntop_form L fam h)),
                metric = m, attributes = []\<rparr>)"

text \<open>\<^verbatim>\<open>g_hash_table_insert\<close> on a table keyed by strings, and
  \<^verbatim>\<open>nm_ip_route_set_attribute\<close>: the value of a key that is present is replaced.\<close>

fun attr_insert :: "string \<Rightarrow> string \<Rightarrow> (string \<times> string) list \<Rightarrow> (string \<times> string) list" where
  "attr_insert k v [] = [(k, v)]"
| "attr_insert k v ((k', v') # kvs) =
     (if k = k' then (k, v) # kvs else (k', v') # attr_insert k v kvs)"

subsection \<open>An instance of the library parameters\<close>

text \<open>
  \<^verbatim>\<open>inet_pton\<close> as the GNU C library implements it: \<^verbatim>\<open>inet_pton4\<close> reads four
  decimal fields of at most 255 with no leading zero; \<^verbatim>\<open>inet_pton6\<close> reads up to
  eight groups of at most four hexadecimal digits, one \<^verbatim>\<open>::\<close>, and an optional
  dotted-quad tail.
\<close>

fun inet_pton4_loop :: "string \<Rightarrow> bool \<Rightarrow> nat \<Rightarrow> nat \<Rightarrow> bool" where
  "inet_pton4_loop [] saw_digit octets cur = (\<not> octets < 4)"
| "inet_pton4_loop (ch # src) saw_digit octets cur =
     (if g_ascii_isdigit ch then
        (let new = cur * 10 + nat (digit_value ch)
         in if saw_digit \<and> cur = 0 then False
            else if new > 255 then False
            else if \<not> saw_digit
                 then (if octets + 1 > 4 then False else inet_pton4_loop src True (octets + 1) new)
                 else inet_pton4_loop src True octets new)
      else if ch = CHR ''.'' \<and> saw_digit then
        (if octets = 4 then False else inet_pton4_loop src False octets 0)
      else False)"

definition inet_pton4 :: "string \<Rightarrow> bool" where
  "inet_pton4 src = inet_pton4_loop src False 0 0"

definition g_ascii_isxdigit :: "char \<Rightarrow> bool" where
  "g_ascii_isxdigit c =
     (g_ascii_isdigit c \<or> (97 \<le> (of_char c :: nat) \<and> (of_char c :: nat) \<le> 102)
      \<or> (65 \<le> (of_char c :: nat) \<and> (of_char c :: nat) \<le> 70))"

definition inet_pton6_end :: "nat \<Rightarrow> bool \<Rightarrow> bool" where
  "inet_pton6_end tp colonp = (if colonp then tp \<noteq> 8 else tp = 8)"

fun inet_pton6_loop :: "string \<Rightarrow> string \<Rightarrow> nat \<Rightarrow> nat \<Rightarrow> bool \<Rightarrow> bool" where
  "inet_pton6_loop [] curtok xdigits_seen tp colonp =
     (if xdigits_seen > 0
      then (if tp + 1 > 8 then False else inet_pton6_end (tp + 1) colonp)
      else inet_pton6_end tp colonp)"
| "inet_pton6_loop (ch # src) curtok xdigits_seen tp colonp =
     (if g_ascii_isxdigit ch then
        (if xdigits_seen = 4 then False
         else inet_pton6_loop src curtok (xdigits_seen + 1) tp colonp)
      else if ch = CHR '':'' then
        (if xdigits_seen = 0
         then (if colonp then False else inet_pton6_loop src src 0 tp True)
         else if src = [] then False
         else if tp + 1 > 8 then False
         else inet_pton6_loop src src 0 (tp + 1) colonp)
      else if ch = CHR ''.'' \<and> tp + 2 \<le> 8 \<and> inet_pton4 curtok then
        inet_pton6_end (tp + 2) colonp
      else False)"

definition inet_pton6 :: "string \<Rightarrow> bool" where
  "inet_pton6 src =
     (case src of
        [] \<Rightarrow> False
      | ch # rest \<Rightarrow>
          if ch = CHR '':''
          then (case rest of
                  [] \<Rightarrow> False
                | ch2 # _ \<Rightarrow> if ch2 \<noteq> CHR '':'' then False
                             else inet_pton6_loop rest rest 0 0 False)
          else inet_pton6_loop src src 0 0 False)"

definition inet_pton :: "family \<Rightarrow> string \<Rightarrow> bool" where
  "inet_pton fam src = (case fam of AF_INET \<Rightarrow> inet_pton4 src | AF_INET6 \<Rightarrow> inet_pton6 src)"

text \<open>
  The instance: \<^verbatim>\<open>inet_pton\<close> as above; the printed form of an address is its text
  (as it is for every IPv4 text that \<^verbatim>\<open>inet_pton\<close> accepts, and for the IPv6 texts
  used below); an attribute token \<open>key=value\<close> is one attribute, and every
  attribute is valid.
\<close>

definition libnm_glibc :: libnm where
  "libnm_glibc =
     \<lparr>inet_pton_ok = inet_pton,
      inet_ntop_form = (\<lambda>fam s. s),
      is_unspecified = (\<lambda>fam s. s = ''0.0.0.0'' \<or> s = ''::''),
      parse_variant_attributes = (\<lambda>tok.
         case strchr_cut CHR ''='' tok of
           None \<Rightarrow> Inl ''missing key-value separator''
         | Some (k, v) \<Rightarrow> Inr [(k, v)]),
      ip_route_attribute_validate = (\<lambda>k v fam. None)\<rparr>"

subsection \<open>\<^verbatim>\<open>_parse_ip_address\<close>\<close>

definition parse_ip_address :: "libnm \<Rightarrow> family \<Rightarrow> string \<Rightarrow> error + NMIPAddress" where
  "parse_ip_address L fam addr_text =
     (let ip_str = g_strstrip addr_text
      in case strchr_cut CHR ''/'' ip_str of
           None \<Rightarrow>
             (case nm_ip_address_new L fam ip_str (MAX_PREFIX fam) of
                Inl msg \<Rightarrow> Inl (InvalidIPAddress msg)
              | Inr a \<Rightarrow> Inr a)
         | Some (ip, plen) \<Rightarrow>
             (let p = nm_utils_ascii_str_to_int64 plen 1 (int (MAX_PREFIX fam)) (- 1)
              in if p = - 1 then Inl (InvalidPrefix plen (MAX_PREFIX fam))
                 else (case nm_ip_address_new L fam ip (nat p) of
                         Inl msg \<Rightarrow> Inl (InvalidIPAddress msg)
                       | Inr a \<Rightarrow> Inr a)))"

subsection \<open>\<^verbatim>\<open>_parse_ip_route\<close>\<close>

text \<open>
  The loop over the tokens after the destination keeps \<^verbatim>\<open>next_hop\<close>, \<^verbatim>\<open>metric\<close>
  and \<^verbatim>\<open>attrs\<close> (\<open>None\<close> while the hash table is \<^verbatim>\<open>NULL\<close>). The inner loop validates
  the attributes of one token and inserts them into \<^verbatim>\<open>attrs\<close>.
\<close>

fun route_attrs_merge ::
  "libnm \<Rightarrow> family \<Rightarrow> (string \<times> string) list \<Rightarrow> (string \<times> string) list
     \<Rightarrow> error + (string \<times> string) list" where
  "route_attrs_merge L fam [] attrs = Inr attrs"
| "route_attrs_merge L fam ((iter_key, iter_value) # tmp_attrs) attrs =
     (case ip_route_attribute_validate L iter_key iter_value fam of
        Some msg \<Rightarrow> Inl (InvalidRouteAttribute iter_key msg)
      | None \<Rightarrow> route_attrs_merge L fam tmp_attrs (attr_insert iter_key iter_value attrs))"

type_synonym route_state = "string option \<times> int \<times> (string \<times> string) list option"

fun parse_ip_route_loop ::
  "libnm \<Rightarrow> family \<Rightarrow> string list \<Rightarrow> route_state \<Rightarrow> error + route_state" where
  "parse_ip_route_loop L fam [] st = Inr st"
| "parse_ip_route_loop L fam (tok # routev) (nh, m, attrs) =
     (if nm_utils_ipaddr_valid L fam tok then
        (if m \<noteq> - 1 \<or> attrs \<noteq> None then Inl (NextHopMustBeFirst tok)
         else parse_ip_route_loop L fam routev (Some tok, m, attrs))
      else if nm_utils_ascii_str_to_int64 tok 0 G_MAXUINT32 (- 1) \<noteq> - 1 then
        (if attrs \<noteq> None then Inl (MetricMustBeBeforeAttributes tok)
         else parse_ip_route_loop L fam routev
                (nh, nm_utils_ascii_str_to_int64 tok 0 G_MAXUINT32 (- 1), attrs))
      else if CHR ''='' \<in> set tok then
        (case parse_variant_attributes L tok of
           Inl msg \<Rightarrow> Inl (InvalidRouteOption tok msg)
         | Inr tmp_attrs \<Rightarrow>
             (case route_attrs_merge L fam tmp_attrs (case attrs of None \<Rightarrow> [] | Some a \<Rightarrow> a) of
                Inl e \<Rightarrow> Inl e
              | Inr attrs' \<Rightarrow> parse_ip_route_loop L fam routev (nh, m, Some attrs')))
      else Inl RouteSyntax)"

definition parse_ip_route :: "libnm \<Rightarrow> family \<Rightarrow> string \<Rightarrow> error + NMIPRoute" where
  "parse_ip_route L fam str =
     (case nm_utils_strsplit_set (nm_strstrip_avoid_copy str) [CHR '' '', CHR 0x09] of
        Some (dest0 # routev) \<Rightarrow>
          (let (dst, plen) = (case strchr_cut CHR ''/'' dest0 of
                                None \<Rightarrow> (dest0, None)
                              | Some (d, p) \<Rightarrow> (d, Some p));
               pfx = (case plen of
                        None \<Rightarrow> int (MAX_PREFIX fam)
                      | Some p \<Rightarrow> nm_utils_ascii_str_to_int64 p 1 (int (MAX_PREFIX fam)) (- 1))
           in if pfx = - 1 then Inl (InvalidPrefix (case plen of None \<Rightarrow> [] | Some p \<Rightarrow> p) (MAX_PREFIX fam))
              else (case parse_ip_route_loop L fam routev (None, - 1, None) of
                      Inl e \<Rightarrow> Inl e
                    | Inr (nh, m, attrs) \<Rightarrow>
                        (case nm_ip_route_new L fam dst (nat pfx) nh m of
                           Inl msg \<Rightarrow> Inl (InvalidRoute msg)
                         | Inr route \<Rightarrow>
                             Inr (route\<lparr>attributes :=
                                    (case attrs of None \<Rightarrow> [] | Some a \<Rightarrow> a)\<rparr>))))
      | _ \<Rightarrow> Inl (RouteNotValid str))"

subsection \<open>Settings as GObjects\<close>

text \<open>
  A setting is a GObject: its class gives every property a \<^verbatim>\<open>GParamSpec\<close> (the value
  type and the default value), and the object holds a value for every property.
  \<open>GEnumType\<close> and \<open>GFlagsType\<close> are the types registered for a C enumeration and a
  C flags type; the other constructors of \<open>gtype\<close> are fundamental types.
  \<^verbatim>\<open>g_object_set_property\<close> is modelled as storing the value.
\<close>

datatype gtype =
    G_TYPE_BOOLEAN | G_TYPE_INT | G_TYPE_UINT | G_TYPE_INT64 | G_TYPE_UINT64
  | G_TYPE_STRING | G_TYPE_STRV | G_TYPE_HASH_TABLE | G_TYPE_PTR_ARRAY | G_TYPE_BYTES
  | GEnumType string | GFlagsType string

datatype boxed = BoxedAddress NMIPAddress | BoxedRoute NMIPRoute

datatype gvalue =
    GBoolean bool | GInt int | GUInt nat | GInt64 int | GUInt64 nat
  | GString "string option" | GStrv "string list option"
  | GHashTable "(string \<times> string) list option" | GPtrArray "boxed list option"
  | GBytes "nat list option"
  | GEnum int | GFlags nat

record GParamSpec =
  value_type :: gtype
  default_value :: gvalue

record NMSetting =
  pspecs :: "string \<Rightarrow> GParamSpec option"
  props :: "string \<Rightarrow> gvalue"

text \<open>\<^verbatim>\<open>g_value_init\<close>: the zero value of the type.\<close>

fun g_value_init :: "gtype \<Rightarrow> gvalue" where
  "g_value_init G_TYPE_BOOLEAN = GBoolean False"
| "g_value_init G_TYPE_INT = GInt 0"
| "g_value_init G_TYPE_UINT = GUInt 0"
| "g_value_init G_TYPE_INT64 = GInt64 0"
| "g_value_init G_TYPE_UINT64 = GUInt64 0"
| "g_value_init G_TYPE_STRING = GString None"
| "g_value_init G_TYPE_STRV = GStrv None"
| "g_value_init G_TYPE_HASH_TABLE = GHashTable None"
| "g_value_init G_TYPE_PTR_ARRAY = GPtrArray None"
| "g_value_init G_TYPE_BYTES = GBytes None"
| "g_value_init (GEnumType n) = GEnum 0"
| "g_value_init (GFlagsType n) = GFlags 0"

definition g_object_class_find_property :: "NMSetting \<Rightarrow> string \<Rightarrow> GParamSpec option" where
  "g_object_class_find_property setting property_name = pspecs setting property_name"

definition g_object_get_property :: "NMSetting \<Rightarrow> string \<Rightarrow> gvalue" where
  "g_object_get_property setting property_name = props setting property_name"

definition g_object_set_property :: "NMSetting \<Rightarrow> string \<Rightarrow> gvalue \<Rightarrow> NMSetting" where
  "g_object_set_property setting property_name v =
     setting\<lparr>props := (props setting)(property_name := v)\<rparr>"

text \<open>\<^verbatim>\<open>g_param_value_defaults\<close> compares a value with the default of the
  \<^verbatim>\<open>GParamSpec\<close>; it changes nothing.\<close>

definition g_param_value_defaults :: "GParamSpec \<Rightarrow> gvalue \<Rightarrow> bool" where
  "g_param_value_defaults pspec v = (v = default_value pspec)"

text \<open>
  \<^verbatim>\<open>_gobject_property_is_default\<close> and \<^verbatim>\<open>_gobject_property_reset_default\<close>. The reset
  initialises a \<^verbatim>\<open>GValue\<close> of the property's type, calls \<^verbatim>\<open>g_param_value_defaults\<close>
  on it without using the result, and sets the property to that value. A setter
  returns the error it set (\<open>None\<close> for \<^verbatim>\<open>TRUE\<close>) and the setting as the call leaves
  it, which is the setting that the caller sees also when the call fails.
\<close>

type_synonym set_result = "error option \<times> NMSetting"

definition gobject_property_is_default :: "NMSetting \<Rightarrow> string \<Rightarrow> bool" where
  "gobject_property_is_default setting prop_name =
     (case g_object_class_find_property setting prop_name of
        None \<Rightarrow> False
      | Some pspec \<Rightarrow>
          (let v = g_object_get_property setting prop_name
           in if value_type pspec = G_TYPE_STRV
              then (case v of GStrv None \<Rightarrow> True | GStrv (Some strv) \<Rightarrow> strv = [] | _ \<Rightarrow> False)
              else if value_type pspec = G_TYPE_HASH_TABLE
              then (case v of GHashTable None \<Rightarrow> True | GHashTable (Some ht) \<Rightarrow> ht = []
                    | _ \<Rightarrow> False)
              else g_param_value_defaults pspec v))"

definition gobject_property_reset_default :: "NMSetting \<Rightarrow> string \<Rightarrow> set_result" where
  "gobject_property_reset_default setting prop_name =
     (case g_object_class_find_property setting prop_name of
        None \<Rightarrow> (Some ReturnValIfReached, setting)
      | Some pspec \<Rightarrow>
          (let v = g_value_init (value_type pspec);
               unused = g_param_value_defaults pspec v
           in (None, g_object_set_property setting prop_name v)))"

subsection \<open>\<^verbatim>\<open>_set_fcn_gobject_string\<close>\<close>

text \<open>
  \<^verbatim>\<open>nmc_string_is_valid (input, allowed, &error)\<close> of clients/common/nm-client-utils.c
  is not under src/; the setters take it as the parameter \<open>is_valid\<close>: the allowed
  value that the input names, or the error.
\<close>

type_synonym string_is_valid = "string \<Rightarrow> string list \<Rightarrow> error + string"

record gobject_string_typ_data =
  validate_fcn :: "(string \<Rightarrow> error + string) option"
  string_values_static :: "string list option"

definition set_fcn_gobject_string ::
  "string_is_valid \<Rightarrow> gobject_string_typ_data option \<Rightarrow> string \<Rightarrow> NMSetting \<Rightarrow> string option
     \<Rightarrow> set_result" where
  "set_fcn_gobject_string is_valid typ_data property_name setting val =
     (case val of
        None \<Rightarrow> gobject_property_reset_default setting property_name
      | Some v \<Rightarrow>
          (let checked =
                 (case typ_data of
                    None \<Rightarrow> Inr v
                  | Some td \<Rightarrow>
                      (case validate_fcn td of
                         Some f \<Rightarrow> f v
                       | None \<Rightarrow>
                           (case string_values_static td of
                              Some allowed \<Rightarrow> is_valid v allowed
                            | None \<Rightarrow> Inr v)))
           in case checked of
                Inl e \<Rightarrow> (Some e, setting)
              | Inr v' \<Rightarrow> (None, g_object_set_property setting property_name (GString (Some v')))))"

subsection \<open>\<^verbatim>\<open>_set_fcn_multilist\<close> and \<^verbatim>\<open>_remove_fcn_multilist\<close>\<close>

text \<open>The function pointers of \<^verbatim>\<open>subtype.multilist\<close> and \<^verbatim>\<open>values_static\<close> of the
  property's \<^verbatim>\<open>property_typ_data\<close>.\<close>

record multilist_typ_data =
  values_static :: "string list option"
  get_num_fcn :: "NMSetting \<Rightarrow> nat"
  add_fcn :: "NMSetting \<Rightarrow> string \<Rightarrow> NMSetting"
  remove_by_idx_fcn :: "NMSetting \<Rightarrow> nat \<Rightarrow> NMSetting"
  remove_by_value_fcn :: "NMSetting \<Rightarrow> string \<Rightarrow> NMSetting"

fun set_fcn_multilist_loop ::
  "string_is_valid \<Rightarrow> multilist_typ_data \<Rightarrow> string list \<Rightarrow> NMSetting \<Rightarrow> set_result" where
  "set_fcn_multilist_loop is_valid td [] setting = (None, setting)"
| "set_fcn_multilist_loop is_valid td (item # strv) setting =
     (case values_static td of
        Some allowed \<Rightarrow>
          (case is_valid item allowed of
             Inl e \<Rightarrow> (Some e, setting)
           | Inr item' \<Rightarrow> set_fcn_multilist_loop is_valid td strv (add_fcn td setting item'))
      | None \<Rightarrow> set_fcn_multilist_loop is_valid td strv (add_fcn td setting item))"

definition set_fcn_multilist ::
  "string_is_valid \<Rightarrow> multilist_typ_data \<Rightarrow> string \<Rightarrow> NMSetting \<Rightarrow> string option \<Rightarrow> set_result" where
  "set_fcn_multilist is_valid td property_name setting val =
     (case val of
        None \<Rightarrow> gobject_property_reset_default setting property_name
      | Some v \<Rightarrow>
          (case nm_utils_strsplit_set v [CHR '' '', CHR 0x09, CHR '',''] of
             None \<Rightarrow> (None, setting)
           | Some strv \<Rightarrow> set_fcn_multilist_loop is_valid td strv setting))"

definition remove_fcn_multilist ::
  "string_is_valid \<Rightarrow> multilist_typ_data \<Rightarrow> NMSetting \<Rightarrow> string \<Rightarrow> set_result" where
  "remove_fcn_multilist is_valid td setting val =
     (let idx = nm_utils_ascii_str_to_int64 val 0 G_MAXINT64 (- 1)
      in if idx \<noteq> - 1 then
           (let num = get_num_fcn td setting
            in if idx < int num then (None, remove_by_idx_fcn td setting (nat idx))
               else (None, setting))
         else
           (let v = nm_strstrip_avoid_copy val
            in case values_static td of
                 Some allowed \<Rightarrow>
                   (case is_valid v allowed of
                      Inl e \<Rightarrow> (Some e, setting)
                    | Inr v' \<Rightarrow> (None, remove_by_value_fcn td setting v'))
               | None \<Rightarrow> (None, remove_by_value_fcn td setting v)))"

subsection \<open>The macros \<^verbatim>\<open>_DEFINE_REMOVER_INDEX_OR_VALUE\<close> and its two uses\<close>

definition remover_index_or_value ::
  "(NMSetting \<Rightarrow> nat) \<Rightarrow> (NMSetting \<Rightarrow> nat \<Rightarrow> NMSetting) \<Rightarrow> (NMSetting \<Rightarrow> string \<Rightarrow> set_result)
     \<Rightarrow> NMSetting \<Rightarrow> string \<Rightarrow> set_result" where
  "remover_index_or_value num_func rem_func_idx rem_func_cmd setting val =
     (let idx = nm_utils_ascii_str_to_int64 val 0 G_MAXINT64 (- 1)
      in if idx \<noteq> - 1 then
           (let num = int (num_func setting)
            in if idx < num then (None, rem_func_idx setting (nat idx)) else (None, setting))
         else rem_func_cmd setting val)"

definition remover_index_or_value_validating ::
  "(NMSetting \<Rightarrow> nat) \<Rightarrow> (NMSetting \<Rightarrow> nat \<Rightarrow> NMSetting) \<Rightarrow> (NMSetting \<Rightarrow> string \<Rightarrow> set_result)
     \<Rightarrow> NMSetting \<Rightarrow> string \<Rightarrow> set_result" where
  "remover_index_or_value_validating num_func rem_func_idx rem_func_val =
     remover_index_or_value num_func rem_func_idx
       (\<lambda>setting val. rem_func_val setting (nm_strstrip_avoid_copy val))"

definition remover_index_or_value_direct ::
  "string_is_valid \<Rightarrow> string list option \<Rightarrow> (NMSetting \<Rightarrow> nat) \<Rightarrow> (NMSetting \<Rightarrow> nat \<Rightarrow> NMSetting)
     \<Rightarrow> (NMSetting \<Rightarrow> string \<Rightarrow> NMSetting) \<Rightarrow> NMSetting \<Rightarrow> string \<Rightarrow> set_result" where
  "remover_index_or_value_direct is_valid vals_static num_func rem_func_idx rem_func_val =
     remover_index_or_value num_func rem_func_idx
       (\<lambda>setting val.
          let v = nm_strstrip_avoid_copy val
          in case vals_static of
               Some allowed \<Rightarrow>
                 (case is_valid v allowed of
                    Inl e \<Rightarrow> (Some e, setting)
                  | Inr v' \<Rightarrow> (None, rem_func_val setting v'))
             | None \<Rightarrow> (None, rem_func_val setting v))"

subsection \<open>The macros \<^verbatim>\<open>DEFINE_SETTER_OPTIONS\<close> and \<^verbatim>\<open>DEFINE_SETTER_MAC_BLACKLIST\<close>\<close>

fun setter_options_loop ::
  "string_is_valid \<Rightarrow> (NMSetting \<Rightarrow> string \<Rightarrow> string \<Rightarrow> NMSetting)
     \<Rightarrow> (NMSetting \<Rightarrow> string list) option \<Rightarrow> (string \<Rightarrow> string \<Rightarrow> error + string) option
     \<Rightarrow> string list \<Rightarrow> NMSetting \<Rightarrow> set_result" where
  "setter_options_loop is_valid add_func valid_func1 valid_func2 [] setting = (None, setting)"
| "setter_options_loop is_valid add_func valid_func1 valid_func2 (iter # strv) setting =
     (let left0 = g_strstrip iter
      in case strchr_cut CHR ''='' left0 of
           None \<Rightarrow> (Some (OptionNotValid left0), setting)
         | Some (l, right) \<Rightarrow>
             (let left = g_strchomp l;
                  name_checked = (case valid_func1 of
                                    Some f \<Rightarrow> is_valid left (f setting)
                                  | None \<Rightarrow> Inr left)
              in case name_checked of
                   Inl e \<Rightarrow> (Some e, setting)
                 | Inr opt_name \<Rightarrow>
                     (let opt_val0 = g_strchug right;
                          val_checked = (case valid_func2 of
                                           Some f \<Rightarrow> f left opt_val0
                                         | None \<Rightarrow> Inr opt_val0)
                      in case val_checked of
                           Inl e \<Rightarrow> (Some e, setting)
                         | Inr opt_val \<Rightarrow>
                             setter_options_loop is_valid add_func valid_func1 valid_func2 strv
                               (add_func setting opt_name opt_val))))"

definition setter_options ::
  "string_is_valid \<Rightarrow> (NMSetting \<Rightarrow> string \<Rightarrow> string \<Rightarrow> NMSetting)
     \<Rightarrow> (NMSetting \<Rightarrow> string list) option \<Rightarrow> (string \<Rightarrow> string \<Rightarrow> error + string) option
     \<Rightarrow> string \<Rightarrow> NMSetting \<Rightarrow> string option \<Rightarrow> set_result" where
  "setter_options is_valid add_func valid_func1 valid_func2 property_name setting val =
     (case val of
        None \<Rightarrow> gobject_property_reset_default setting property_name
      | Some v \<Rightarrow>
          (case nm_utils_strsplit_set v [CHR '',''] of
             None \<Rightarrow> (None, setting)
           | Some strv \<Rightarrow>
               setter_options_loop is_valid add_func valid_func1 valid_func2 strv setting))"

text \<open>\<^verbatim>\<open>nm_utils_hwaddr_aton (asc, buf, ETH_ALEN)\<close> of libnm-core is the parameter
  \<open>hwaddr_ok\<close>. This setter checks every item in a first loop and adds the items in a
  second one.\<close>

definition setter_mac_blacklist ::
  "(string \<Rightarrow> bool) \<Rightarrow> (NMSetting \<Rightarrow> string \<Rightarrow> NMSetting) \<Rightarrow> string \<Rightarrow> NMSetting
     \<Rightarrow> string option \<Rightarrow> set_result" where
  "setter_mac_blacklist hwaddr_ok add_func property_name setting val =
     (case val of
        None \<Rightarrow> gobject_property_reset_default setting property_name
      | Some v \<Rightarrow>
          (case nm_utils_strsplit_set v [CHR '' '', CHR 0x09, CHR '',''] of
             None \<Rightarrow> (None, setting)
           | Some strv \<Rightarrow>
               (case find (\<lambda>item. \<not> hwaddr_ok item) strv of
                  Some bad \<Rightarrow> (Some (NotAValidMAC bad), setting)
                | None \<Rightarrow> (None, foldl add_func setting strv))))"

subsection \<open>Address and route lists of an IP setting\<close>

text \<open>
  Modelled from the spec: the list functions of \<^verbatim>\<open>NMSettingIPConfig\<close> in libnm-core
  (not under src/). The addresses and the routes are the values of the properties
  \<^verbatim>\<open>addresses\<close> and \<^verbatim>\<open>routes\<close>; adding appends an element that is not in the list
  yet, clearing empties the list.
\<close>

definition NM_SETTING_IP_CONFIG_ADDRESSES :: string where
  "NM_SETTING_IP_CONFIG_ADDRESSES = ''addresses''"

definition NM_SETTING_IP_CONFIG_ROUTES :: string where
  "NM_SETTING_IP_CONFIG_ROUTES = ''routes''"

definition ptr_array_elements :: "NMSetting \<Rightarrow> string \<Rightarrow> boxed list" where
  "ptr_array_elements setting property_name =
     (case props setting property_name of GPtrArray (Some xs) \<Rightarrow> xs | _ \<Rightarrow> [])"

definition ptr_array_add :: "NMSetting \<Rightarrow> string \<Rightarrow> boxed \<Rightarrow> NMSetting" where
  "ptr_array_add setting property_name x =
     (let xs = ptr_array_elements setting property_name
      in if x \<in> set xs then setting
         else g_object_set_property setting property_name (GPtrArray (Some (xs @ [x]))))"

definition nm_setting_ip_config_add_address :: "NMSetting \<Rightarrow> NMIPAddress \<Rightarrow> NMSetting" where
  "nm_setting_ip_config_add_address setting addr =
     ptr_array_add setting NM_SETTING_IP_CONFIG_ADDRESSES (BoxedAddress addr)"

definition nm_setting_ip_config_add_route :: "NMSetting \<Rightarrow> NMIPRoute \<Rightarrow> NMSetting" where
  "nm_setting_ip_config_add_route setting route =
     ptr_array_add setting NM_SETTING_IP_CONFIG_ROUTES (BoxedRoute route)"

definition nm_setting_ip_config_clear_routes :: "NMSetting \<Rightarrow> NMSetting" where
  "nm_setting_ip_config_clear_routes setting =
     g_object_set_property setting NM_SETTING_IP_CONFIG_ROUTES (GPtrArray (Some []))"

text \<open>
  \<^verbatim>\<open>_set_fcn_ip4_config_addresses\<close>, \<^verbatim>\<open>_set_fcn_ip6_config_addresses\<close>,
  \<^verbatim>\<open>_set_fcn_ip4_config_routes\<close> and \<^verbatim>\<open>_set_fcn_ip6_config_routes\<close> run the same loop
  body: parse one item, return at an error, add the item. The IPv4 setters read
  \<^verbatim>\<open>*iter\<close> without testing \<^verbatim>\<open>strv\<close>, which is \<^verbatim>\<open>NULL\<close> for a text with no token.
\<close>

fun ip_config_addresses_loop ::
  "libnm \<Rightarrow> family \<Rightarrow> string list \<Rightarrow> NMSetting \<Rightarrow> set_result" where
  "ip_config_addresses_loop L fam [] setting = (None, setting)"
| "ip_config_addresses_loop L fam (iter # strv) setting =
     (case parse_ip_address L fam iter of
        Inl e \<Rightarrow> (Some e, setting)
      | Inr addr \<Rightarrow>
          ip_config_addresses_loop L fam strv (nm_setting_ip_config_add_address setting addr))"

definition set_fcn_ip4_config_addresses ::
  "libnm \<Rightarrow> string \<Rightarrow> NMSetting \<Rightarrow> string option \<Rightarrow> set_result" where
  "set_fcn_ip4_config_addresses L property_name setting val =
     (case val of
        None \<Rightarrow> gobject_property_reset_default setting property_name
      | Some v \<Rightarrow>
          (case nm_utils_strsplit_set v [CHR '',''] of
             None \<Rightarrow> (Some NullDereference, setting)
           | Some strv \<Rightarrow> ip_config_addresses_loop L AF_INET strv setting))"

definition set_fcn_ip6_config_addresses ::
  "libnm \<Rightarrow> string \<Rightarrow> NMSetting \<Rightarrow> string option \<Rightarrow> set_result" where
  "set_fcn_ip6_config_addresses L property_name setting val =
     (case val of
        None \<Rightarrow> gobject_property_reset_default setting property_name
      | Some v \<Rightarrow>
          (case nm_utils_strsplit_set v [CHR '',''] of
             None \<Rightarrow> (None, setting)
           | Some strv \<Rightarrow> ip_config_addresses_loop L AF_INET6 strv setting))"

fun ip_config_routes_loop ::
  "libnm \<Rightarrow> family \<Rightarrow> string list \<Rightarrow> NMSetting \<Rightarrow> set_result" where
  "ip_config_routes_loop L fam [] setting = (None, setting)"
| "ip_config_routes_loop L fam (iter # strv) setting =
     (case parse_ip_route L fam iter of
        Inl e \<Rightarrow> (Some e, setting)
      | Inr route \<Rightarrow>
          ip_config_routes_loop L fam strv (nm_setting_ip_config_add_route setting route))"

definition set_fcn_ip4_config_routes ::
  "libnm \<Rightarrow> string \<Rightarrow> NMSetting \<Rightarrow> string option \<Rightarrow> set_result" where
  "set_fcn_ip4_config_routes L property_name setting val =
     (case val of
        None \<Rightarrow> (None, nm_setting_ip_config_clear_routes setting)
      | Some v \<Rightarrow>
          (case nm_utils_strsplit_set v [CHR '',''] of
             None \<Rightarrow> (Some NullDereference, setting)
           | Some strv \<Rightarrow> ip_config_routes_loop L AF_INET strv setting))"

definition set_fcn_ip6_config_routes ::
  "libnm \<Rightarrow> string \<Rightarrow> NMSetting \<Rightarrow> string option \<Rightarrow> set_result" where
  "set_fcn_ip6_config_routes L property_name setting val =
     (case val of
        None \<Rightarrow> gobject_property_reset_default setting property_name
      | Some v \<Rightarrow>
          (case nm_utils_strsplit_set v [CHR '',''] of
             None \<Rightarrow> (None, setting)
           | Some strv \<Rightarrow> ip_config_routes_loop L AF_INET6 strv setting))"

subsection \<open>\<^verbatim>\<open>dcb_parse_uint_array\<close> and \<^verbatim>\<open>_set_fcn_dcb\<close>\<close>

fun dcb_parse_items :: "nat \<Rightarrow> nat \<Rightarrow> string list \<Rightarrow> error + nat list" where
  "dcb_parse_items max_v other [] = Inr []"
| "dcb_parse_items max_v other (iter # items) =
     (let item = g_strstrip iter;
          num = nm_utils_ascii_str_to_int64 item 0 (int (if other \<noteq> 0 then other else max_v)) (- 1)
      in if num = - 1 \<or> (other \<noteq> 0 \<and> num > int max_v \<and> num \<noteq> int other)
         then (if other \<noteq> 0 then Inl (DcbNotANumberOrOther item max_v other)
               else Inl (DcbNotANumber item max_v))
         else (case dcb_parse_items max_v other items of
                 Inl e \<Rightarrow> Inl e
               | Inr out_array \<Rightarrow> Inr (nat num # out_array)))"

definition dcb_parse_uint_array :: "string \<Rightarrow> nat \<Rightarrow> nat \<Rightarrow> error + nat list" where
  "dcb_parse_uint_array val max_v other =
     (let items = g_strsplit_set val [CHR '','']
      in if length items \<noteq> 8 then Inl DcbMustContain8
         else dcb_parse_items max_v other items)"

text \<open>The loop that adds the percentages, in \<^verbatim>\<open>guint\<close> arithmetic, with its
  \<^verbatim>\<open>break\<close>.\<close>

fun dcb_percent_sum :: "nat list \<Rightarrow> nat \<Rightarrow> nat" where
  "dcb_percent_sum [] acc = acc"
| "dcb_percent_sum (n # nums) acc =
     (let acc' = (acc + n) mod 2 ^ 32
      in if n > 100 \<or> acc' > 100 then acc' else dcb_percent_sum nums acc')"

record dcb_typ_data =
  dcb_max :: nat
  dcb_other :: nat
  dcb_is_percent :: bool
  dcb_set_fcn :: "NMSetting \<Rightarrow> nat \<Rightarrow> nat \<Rightarrow> NMSetting"

text \<open>\<^verbatim>\<open>for (i = 0; i < 8; i++) set_fcn (setting, i, nums[i])\<close>.\<close>

fun dcb_set_all :: "(NMSetting \<Rightarrow> nat \<Rightarrow> nat \<Rightarrow> NMSetting) \<Rightarrow> nat \<Rightarrow> nat list \<Rightarrow> NMSetting \<Rightarrow> NMSetting" where
  "dcb_set_all f i [] setting = setting"
| "dcb_set_all f i (n # nums) setting = dcb_set_all f (Suc i) nums (f setting i n)"

text \<open>
  \<^verbatim>\<open>dcb_check_feature_enabled\<close> sends a warning to the environment when the flags
  property lacks \<^verbatim>\<open>NM_SETTING_DCB_FLAG_ENABLE\<close>; the warnings of a call are returned
  beside its result.
  Modelled from the spec: \<^verbatim>\<open>NM_SETTING_DCB_FLAG_ENABLE\<close> and
  \<^verbatim>\<open>NM_SETTING_DCB_PRIORITY_GROUP_FLAGS\<close> of libnm-core (not under src/); the warning
  text gives the flag's value as 1.
\<close>

definition NM_SETTING_DCB_PRIORITY_GROUP_FLAGS :: string where
  "NM_SETTING_DCB_PRIORITY_GROUP_FLAGS = ''priority-group-flags''"

definition flags_of_property :: "NMSetting \<Rightarrow> string \<Rightarrow> nat" where
  "flags_of_property setting flags_prop =
     (case props setting flags_prop of GFlags f \<Rightarrow> f | GUInt f \<Rightarrow> f | _ \<Rightarrow> 0)"

definition dcb_check_feature_enabled :: "NMSetting \<Rightarrow> string \<Rightarrow> string list" where
  "dcb_check_feature_enabled s_dcb flags_prop =
     (if odd (flags_of_property s_dcb flags_prop) then []
      else [''changes will have no effect until '' @ [CHR 0x27] @ flags_prop @ [CHR 0x27]
            @ '' includes 1 (enabled)''])"

definition set_fcn_dcb ::
  "dcb_typ_data \<Rightarrow> string \<Rightarrow> NMSetting \<Rightarrow> string option \<Rightarrow> set_result \<times> string list" where
  "set_fcn_dcb td property_name setting val =
     (case val of
        None \<Rightarrow> (gobject_property_reset_default setting property_name, [])
      | Some v \<Rightarrow>
          (case dcb_parse_uint_array v (dcb_max td) (dcb_other td) of
             Inl e \<Rightarrow> ((Some e, setting), [])
           | Inr nums \<Rightarrow>
               if dcb_is_percent td \<and> dcb_percent_sum nums 0 \<noteq> 100
               then ((Some DcbPercentTotal, setting), [])
               else (let setting' = dcb_set_all (dcb_set_fcn td) 0 nums setting
                     in ((None, setting'),
                         dcb_check_feature_enabled setting' NM_SETTING_DCB_PRIORITY_GROUP_FLAGS))))"

subsection \<open>\<^verbatim>\<open>_set_fcn_connection_type\<close>\<close>

text \<open>
  Modelled from the spec: \<^verbatim>\<open>NM_SETTING_CONNECTION_UUID\<close> and
  \<^verbatim>\<open>nm_setting_connection_get_uuid\<close> of libnm-core (not under src/): the persistent
  identifier of the connection, \<^verbatim>\<open>NULL\<close> while it has none.
  \<^verbatim>\<open>nm_utils_uuid_generate ()\<close> draws a random identifier; the identifier that the
  call draws is the parameter \<open>uuid\<close>.
\<close>

definition NM_SETTING_CONNECTION_UUID :: string where
  "NM_SETTING_CONNECTION_UUID = ''uuid''"

definition nm_setting_connection_get_uuid :: "NMSetting \<Rightarrow> string option" where
  "nm_setting_connection_get_uuid setting =
     (case props setting NM_SETTING_CONNECTION_UUID of GString u \<Rightarrow> u | _ \<Rightarrow> None)"

definition set_fcn_connection_type ::
  "string \<Rightarrow> string \<Rightarrow> NMSetting \<Rightarrow> string option \<Rightarrow> set_result" where
  "set_fcn_connection_type uuid property_name setting val =
     (if nm_setting_connection_get_uuid setting \<noteq> None
      then (Some CanNotChangeConnectionType, setting)
      else (case val of
              None \<Rightarrow> (None, g_object_set_property setting property_name (GString None))
            | Some v \<Rightarrow>
                (let setting' = g_object_set_property setting NM_SETTING_CONNECTION_UUID
                                  (GString (Some uuid))
                 in (None, g_object_set_property setting' property_name (GString (Some v))))))"

unbundle bit_operations_syntax

subsection \<open>The setters of the other property types\<close>

text \<open>
  Every function of the source with the parameters \<^verbatim>\<open>ARGS_SET_FCN\<close> is a setter of the
  property table; there are 49 of them, the macros \<^verbatim>\<open>DEFINE_SETTER_OPTIONS\<close>,
  \<^verbatim>\<open>DEFINE_SETTER_MAC_BLACKLIST\<close>, \<^verbatim>\<open>DEFINE_SETTER_CERT\<close> and \<^verbatim>\<open>DEFINE_SETTER_PRIV_KEY\<close>
  counted once each. The functions of GLib, libnm-core, shared/nm-utils and
  clients/common/nm-client-utils.c that they call are not under src/ and are
  parameters of the models, named as in the source; a function that sets a
  \<^verbatim>\<open>GError\<close> returns the error here.

  \<^verbatim>\<open>g_object_set (setting, name, number, NULL)\<close> stores the number as the type of the
  property says. The tokens of a split that may return \<^verbatim>\<open>NULL\<close> are the empty list
  then. \<^verbatim>\<open>_nm_utils_ascii_str_to_int64 (str, base, min, max, fallback)\<close> with a base
  other than 10 is the parameter \<open>ascii_str_to_int64\<close>, which returns the number or the
  \<^verbatim>\<open>errno\<close> that the function sets; the function returns the fallback with an
  \<^verbatim>\<open>errno\<close>.
\<close>

definition g_object_set_number :: "NMSetting \<Rightarrow> string \<Rightarrow> int \<Rightarrow> NMSetting" where
  "g_object_set_number setting property_name n =
     (case g_object_class_find_property setting property_name of
        None \<Rightarrow> setting
      | Some pspec \<Rightarrow>
          (case value_type pspec of
             G_TYPE_BOOLEAN \<Rightarrow> g_object_set_property setting property_name (GBoolean (n \<noteq> 0))
           | G_TYPE_INT \<Rightarrow> g_object_set_property setting property_name (GInt (int_cast n))
           | G_TYPE_UINT \<Rightarrow> g_object_set_property setting property_name (GUInt (guint_cast n))
           | G_TYPE_INT64 \<Rightarrow> g_object_set_property setting property_name (GInt64 n)
           | G_TYPE_UINT64 \<Rightarrow>
               g_object_set_property setting property_name (GUInt64 (nat (n mod 2 ^ 64)))
           | GEnumType t \<Rightarrow> g_object_set_property setting property_name (GEnum (int_cast n))
           | GFlagsType t \<Rightarrow> g_object_set_property setting property_name (GFlags (guint_cast n))
           | _ \<Rightarrow> setting))"

definition strv_tokens :: "string list option \<Rightarrow> string list" where
  "strv_tokens strv = (case strv of None \<Rightarrow> [] | Some tokens \<Rightarrow> tokens)"

type_synonym str_to_int64 = "string \<Rightarrow> nat \<Rightarrow> int \<Rightarrow> int \<Rightarrow> errno + int"

definition str_to_int64_fallback ::
  "str_to_int64 \<Rightarrow> string \<Rightarrow> nat \<Rightarrow> int \<Rightarrow> int \<Rightarrow> int \<Rightarrow> int" where
  "str_to_int64_fallback ascii_str_to_int64 str base min_v max_v fallback =
     (case ascii_str_to_int64 str base min_v max_v of Inl e \<Rightarrow> fallback | Inr n \<Rightarrow> n)"

definition set_fcn_gobject_bool ::
  "(string \<Rightarrow> error + bool) \<Rightarrow> string \<Rightarrow> NMSetting \<Rightarrow> string option \<Rightarrow> set_result" where
  "set_fcn_gobject_bool nmc_string_to_bool property_name setting val =
     (case val of
        None \<Rightarrow> gobject_property_reset_default setting property_name
      | Some v \<Rightarrow>
          (case nmc_string_to_bool v of
             Inl e \<Rightarrow> (Some e, setting)
           | Inr val_bool \<Rightarrow>
               (None, g_object_set_property setting property_name (GBoolean val_bool))))"

text \<open>
  \<^verbatim>\<open>_set_fcn_gobject_int\<close>. The union \<^verbatim>\<open>NMMetaSignUnsignInt64\<close> is a word of 64 bits,
  read signed as \<^verbatim>\<open>i64\<close> and unsigned as \<^verbatim>\<open>u64\<close>. \<open>param_spec_range\<close> gives the
  \<^verbatim>\<open>minimum\<close> and \<^verbatim>\<open>maximum\<close> of the \<^verbatim>\<open>GParamSpec\<close> of a number property, and
  \<^verbatim>\<open>nm_g_object_set_property\<close> returns the changed object, or nothing when it
  refuses the value.
\<close>

record gobject_int_typ_data =
  int_value_infos :: "(string \<times> 64 word) list option"
  int_base :: nat
  int_min :: "64 word"
  int_max :: "64 word"

type_synonym object_set_property = "NMSetting \<Rightarrow> string \<Rightarrow> gvalue \<Rightarrow> NMSetting option"

definition gobject_int_store ::
  "object_set_property \<Rightarrow> GParamSpec \<Rightarrow> string \<Rightarrow> NMSetting \<Rightarrow> 64 word \<Rightarrow> set_result" where
  "gobject_int_store nm_g_object_set_property pspec property_name setting v =
     (let gval =
            (case value_type pspec of
               G_TYPE_INT \<Rightarrow> Some (GInt (int_cast (sint v)))
             | G_TYPE_UINT \<Rightarrow> Some (GUInt (guint_cast (uint v)))
             | G_TYPE_INT64 \<Rightarrow> Some (GInt64 (sint v))
             | G_TYPE_UINT64 \<Rightarrow> Some (GUInt64 (unat v))
             | _ \<Rightarrow> None)
      in case gval of
           None \<Rightarrow> (Some ReturnValIfReached, setting)
         | Some g \<Rightarrow>
             (case nm_g_object_set_property setting property_name g of
                None \<Rightarrow> (Some ReturnValIfReached, setting)
              | Some setting' \<Rightarrow> (None, setting')))"

definition set_fcn_gobject_int ::
  "(GParamSpec \<Rightarrow> 64 word \<times> 64 word) \<Rightarrow> str_to_int64 \<Rightarrow> str_to_int64 \<Rightarrow> object_set_property
     \<Rightarrow> gobject_int_typ_data option \<Rightarrow> string \<Rightarrow> NMSetting \<Rightarrow> string option \<Rightarrow> set_result" where
  "set_fcn_gobject_int param_spec_range ascii_str_to_int64 ascii_str_to_uint64
       nm_g_object_set_property typ_data property_name setting val =
     (case val of
        None \<Rightarrow> gobject_property_reset_default setting property_name
      | Some v \<Rightarrow>
          (case g_object_class_find_property setting property_name of
             None \<Rightarrow> (Some ReturnValIfReached, setting)
           | Some pspec \<Rightarrow>
               (let is_uint64 =
                      (value_type pspec = G_TYPE_UINT \<or> value_type pspec = G_TYPE_UINT64);
                    from_nick =
                      (case typ_data of
                         None \<Rightarrow> None
                       | Some td \<Rightarrow>
                           (case int_value_infos td of
                              None \<Rightarrow> None
                            | Some infos \<Rightarrow>
                                map_option snd
                                  (find (\<lambda>info. fst info = nm_strstrip_avoid_copy v) infos)))
                in case from_nick of
                     Some w \<Rightarrow>
                       gobject_int_store nm_g_object_set_property pspec property_name setting w
                   | None \<Rightarrow>
                       (let base =
                              (case typ_data of
                                 None \<Rightarrow> 10
                               | Some td \<Rightarrow> if int_base td > 0 then int_base td else 10);
                            typ_minmax =
                              (case typ_data of
                                 None \<Rightarrow> None
                               | Some td \<Rightarrow>
                                   if (is_uint64
                                       \<and> (uint (int_min td) \<noteq> 0 \<or> uint (int_max td) \<noteq> 0))
                                      \<or> (\<not> is_uint64
                                         \<and> (sint (int_min td) \<noteq> 0 \<or> sint (int_max td) \<noteq> 0))
                                   then Some (int_min td, int_max td)
                                   else None);
                            minmax =
                              (case typ_minmax of
                                 Some mm \<Rightarrow> Some mm
                               | None \<Rightarrow>
                                   if value_type pspec
                                        \<in> set [G_TYPE_INT, G_TYPE_UINT, G_TYPE_INT64, G_TYPE_UINT64]
                                   then Some (param_spec_range pspec)
                                   else None)
                        in case minmax of
                             None \<Rightarrow> (Some ReturnValIfReached, setting)
                           | Some (mn, mx) \<Rightarrow>
                               if is_uint64 then
                                 (case ascii_str_to_uint64 v base (uint mn) (uint mx) of
                                    Inl e \<Rightarrow>
                                      if e = ERANGE
                                      then (Some (OutOfRange v (uint mn) (uint mx)), setting)
                                      else (Some (NotAValidNumber v), setting)
                                  | Inr n \<Rightarrow>
                                      gobject_int_store nm_g_object_set_property pspec
                                        property_name setting (word_of_int n))
                               else
                                 (case ascii_str_to_int64 v base (sint mn) (sint mx) of
                                    Inl e \<Rightarrow>
                                      if e = ERANGE
                                      then (Some (OutOfRange v (sint mn) (sint mx)), setting)
                                      else (Some (NotAValidNumber v), setting)
                                  | Inr n \<Rightarrow>
                                      gobject_int_store nm_g_object_set_property pspec
                                        property_name setting (word_of_int n))))))"

definition set_fcn_gobject_mtu ::
  "object_set_property \<Rightarrow> string \<Rightarrow> NMSetting \<Rightarrow> string option \<Rightarrow> set_result" where
  "set_fcn_gobject_mtu nm_g_object_set_property property_name setting val =
     (case val of
        None \<Rightarrow> gobject_property_reset_default setting property_name
      | Some v0 \<Rightarrow>
          (let v = (if v0 = ''auto'' then ''0'' else v0)
           in case g_object_class_find_property setting property_name of
                None \<Rightarrow> (Some ReturnValIfReached, setting)
              | Some pspec \<Rightarrow>
                  if value_type pspec \<noteq> G_TYPE_UINT then (Some ReturnValIfReached, setting)
                  else
                    (let n = nm_utils_ascii_str_to_int64 v 0 G_MAXUINT32 (- 1)
                     in if n < 0 then (Some (OutOfRange v 0 G_MAXUINT32), setting)
                        else
                          (case nm_g_object_set_property setting property_name
                                  (GUInt (guint_cast n)) of
                             None \<Rightarrow> (Some ReturnValIfReached, setting)
                           | Some setting' \<Rightarrow> (None, setting')))))"

text \<open>
  \<^verbatim>\<open>_set_fcn_gobject_mac\<close>. \<^verbatim>\<open>INFINIBAND_ALEN\<close> and \<^verbatim>\<open>ETH_ALEN\<close> are the address lengths
  of the system headers; \<^verbatim>\<open>NM_CLONED_MAC_IS_SPECIAL\<close> is a macro of libnm-core and a
  parameter.
\<close>

datatype NMMetaPropertyTypeMacMode =
    NM_META_PROPERTY_TYPE_MAC_MODE_DEFAULT
  | NM_META_PROPERTY_TYPE_MAC_MODE_CLONED
  | NM_META_PROPERTY_TYPE_MAC_MODE_INFINIBAND
  | NM_META_PROPERTY_TYPE_MAC_MODE_WPAN

definition INFINIBAND_ALEN :: nat where "INFINIBAND_ALEN = 20"
definition ETH_ALEN :: nat where "ETH_ALEN = 6"
definition IEEE802154_ADDR_LEN :: nat where "IEEE802154_ADDR_LEN = 8"

definition set_fcn_gobject_mac ::
  "(string \<Rightarrow> nat \<Rightarrow> bool) \<Rightarrow> (string \<Rightarrow> bool) \<Rightarrow> NMMetaPropertyTypeMacMode option \<Rightarrow> string
     \<Rightarrow> NMSetting \<Rightarrow> string option \<Rightarrow> set_result" where
  "set_fcn_gobject_mac nm_utils_hwaddr_valid cloned_mac_is_special typ_data property_name
       setting val =
     (case val of
        None \<Rightarrow> gobject_property_reset_default setting property_name
      | Some v \<Rightarrow>
          (let mode = (case typ_data of
                         Some m \<Rightarrow> m
                       | None \<Rightarrow> NM_META_PROPERTY_TYPE_MAC_MODE_DEFAULT);
               valid =
                 (if mode = NM_META_PROPERTY_TYPE_MAC_MODE_INFINIBAND
                  then nm_utils_hwaddr_valid v INFINIBAND_ALEN
                  else if mode = NM_META_PROPERTY_TYPE_MAC_MODE_WPAN
                  then nm_utils_hwaddr_valid v IEEE802154_ADDR_LEN
                  else nm_utils_hwaddr_valid v ETH_ALEN
                       \<or> (mode = NM_META_PROPERTY_TYPE_MAC_MODE_CLONED
                          \<and> cloned_mac_is_special v))
           in if \<not> valid then (Some (NotAValidEthernetMAC v), setting)
              else (None, g_object_set_property setting property_name (GString (Some v)))))"

text \<open>
  \<^verbatim>\<open>flag_values_to_string\<close>, \<^verbatim>\<open>validate_flags\<close> and \<^verbatim>\<open>_set_fcn_gobject_flags\<close>.
  \<^verbatim>\<open>g_param_value_validate\<close> says whether the value had to be changed to fit the
  \<^verbatim>\<open>GParamSpec\<close>; \<open>flags_class_values\<close> gives the values of the flags class of the
  \<^verbatim>\<open>GParamSpec\<close>. \<^verbatim>\<open>g_assert\<close> on a missing \<^verbatim>\<open>GParamSpec\<close> ends the program, which is
  the error \<open>AssertionFailed\<close>.
\<close>

definition flag_values_to_string :: "nat list \<Rightarrow> string" where
  "flag_values_to_string array =
     (let str = concat (map (\<lambda>v. string_of_nat v @ '', '') array)
      in if str \<noteq> [] then take (length str - 2) str else str)"

definition validate_flags ::
  "(GParamSpec \<Rightarrow> gvalue \<Rightarrow> bool) \<Rightarrow> (GParamSpec \<Rightarrow> nat list) \<Rightarrow> NMSetting \<Rightarrow> string \<Rightarrow> nat
     \<Rightarrow> error option" where
  "validate_flags g_param_value_validate flags_class_values setting prop v =
     (case g_object_class_find_property setting prop of
        None \<Rightarrow> Some AssertionFailed
      | Some pspec \<Rightarrow>
          if g_param_value_validate pspec (GFlags v)
          then Some (FlagsNotValid v (flag_values_to_string (flags_class_values pspec)))
          else None)"

definition set_fcn_gobject_flags ::
  "(string \<Rightarrow> bool \<Rightarrow> nat \<Rightarrow> nat \<Rightarrow> nat option) \<Rightarrow> (GParamSpec \<Rightarrow> gvalue \<Rightarrow> bool)
     \<Rightarrow> (GParamSpec \<Rightarrow> nat list) \<Rightarrow> string \<Rightarrow> NMSetting \<Rightarrow> string option \<Rightarrow> set_result" where
  "set_fcn_gobject_flags nmc_string_to_uint g_param_value_validate flags_class_values
       property_name setting val =
     (case val of
        None \<Rightarrow> gobject_property_reset_default setting property_name
      | Some v \<Rightarrow>
          (case nmc_string_to_uint v True 0 (nat G_MAXUINT32) of
             None \<Rightarrow> (Some (NotAValidNumberOrOutOfRange v), setting)
           | Some val_int \<Rightarrow>
               (case validate_flags g_param_value_validate flags_class_values setting
                       property_name (guint_cast (int val_int)) of
                  Some e \<Rightarrow> (Some e, setting)
                | None \<Rightarrow>
                    (None, g_object_set_number setting property_name
                             (int (guint_cast (int val_int)))))))"

definition set_fcn_gobject_ssid ::
  "string \<Rightarrow> NMSetting \<Rightarrow> string option \<Rightarrow> set_result" where
  "set_fcn_gobject_ssid property_name setting val =
     (case val of
        None \<Rightarrow> gobject_property_reset_default setting property_name
      | Some v \<Rightarrow>
          if length v > 32 then (Some (NotValid v), setting)
          else (None, g_object_set_property setting property_name
                        (GBytes (Some (map of_char v)))))"

definition set_fcn_gobject_ifname ::
  "(string \<Rightarrow> error option) \<Rightarrow> string \<Rightarrow> NMSetting \<Rightarrow> string option \<Rightarrow> set_result" where
  "set_fcn_gobject_ifname nm_utils_is_valid_iface_name property_name setting val =
     (case val of
        None \<Rightarrow> gobject_property_reset_default setting property_name
      | Some v \<Rightarrow>
          (case nm_utils_is_valid_iface_name v of
             Some e \<Rightarrow> (Some e, setting)
           | None \<Rightarrow> (None, g_object_set_property setting property_name (GString (Some v)))))"

definition set_fcn_vpn_service_type ::
  "(string \<Rightarrow> string option) \<Rightarrow> string \<Rightarrow> NMSetting \<Rightarrow> string option \<Rightarrow> set_result" where
  "set_fcn_vpn_service_type find_service_type property_name setting val =
     (case val of
        None \<Rightarrow> gobject_property_reset_default setting property_name
      | Some v \<Rightarrow>
          (let service_name = find_service_type v
           in (None, g_object_set_property setting property_name
                       (GString (Some (case service_name of Some n \<Rightarrow> n | None \<Rightarrow> v))))))"

text \<open>\<^verbatim>\<open>_set_fcn_gobject_bytes\<close>; \<open>legacy_format\<close> is \<open>None\<close> for a property without
  \<^verbatim>\<open>property_typ_data\<close>.\<close>

fun bytes_legacy_loop :: "str_to_int64 \<Rightarrow> string list \<Rightarrow> nat list \<Rightarrow> error + nat list" where
  "bytes_legacy_loop ascii_str_to_int64 [] array = Inr array"
| "bytes_legacy_loop ascii_str_to_int64 (iter # strv) array =
     (let v = str_to_int64_fallback ascii_str_to_int64 iter 16 0 255 (- 1)
      in if v = - 1 then Inl (NotAValidHexCharacter iter)
         else bytes_legacy_loop ascii_str_to_int64 strv (array @ [nat v]))"

definition set_fcn_gobject_bytes ::
  "(string \<Rightarrow> nat list option) \<Rightarrow> str_to_int64 \<Rightarrow> bool option \<Rightarrow> string \<Rightarrow> NMSetting
     \<Rightarrow> string option \<Rightarrow> set_result" where
  "set_fcn_gobject_bytes nm_utils_hexstr2bin ascii_str_to_int64 legacy_format property_name
       setting val =
     (case val of
        None \<Rightarrow> gobject_property_reset_default setting property_name
      | Some v \<Rightarrow>
          (case nm_utils_hexstr2bin (nm_strstrip_avoid_copy v) of
             Some bytes \<Rightarrow>
               (None, g_object_set_property setting property_name (GBytes (Some bytes)))
           | None \<Rightarrow>
               if legacy_format = None \<or> legacy_format = Some False then
                 (if v \<noteq> [] then (Some NotAValidHexString, setting)
                  else (None, g_object_set_property setting property_name (GBytes None)))
               else
                 (case bytes_legacy_loop ascii_str_to_int64
                         (strv_tokens (nm_utils_strsplit_set v [CHR '' '', CHR 0x09])) [] of
                    Inl e \<Rightarrow> (Some e, setting)
                  | Inr array \<Rightarrow>
                      (None, g_object_set_property setting property_name
                               (GBytes (Some array))))))"

subsection \<open>The setters of certificates and keys\<close>

text \<open>
  The macros \<^verbatim>\<open>DEFINE_SETTER_CERT\<close> and \<^verbatim>\<open>DEFINE_SETTER_PRIV_KEY\<close>. The two scheme
  prefixes \<^verbatim>\<open>NM_SETTING_802_1X_CERT_SCHEME_PREFIX_PKCS11\<close> and
  \<^verbatim>\<open>NM_SETTING_802_1X_CERT_SCHEME_PREFIX_PATH\<close> of libnm-core are parameters, as are
  the function \<open>set_func\<close> of the macro call, \<^verbatim>\<open>nm_str_skip_leading_spaces\<close> and
  \<^verbatim>\<open>nm_utils_is_separator\<close>. The private-key setter ends the path at the first blank
  by writing a null character there and then skips separators from that very
  character on; the password is the text of the C string that starts where the
  skipping stops.
\<close>

datatype NMSetting8021xCKScheme =
    NM_SETTING_802_1X_CK_SCHEME_PATH | NM_SETTING_802_1X_CK_SCHEME_PKCS11

definition strncmp_prefix :: "string \<Rightarrow> string \<Rightarrow> bool" where
  "strncmp_prefix str pre = (take (length pre) str = pre)"

definition setter_cert ::
  "string \<Rightarrow> string \<Rightarrow> (NMSetting \<Rightarrow> string \<Rightarrow> NMSetting8021xCKScheme \<Rightarrow> error + NMSetting)
     \<Rightarrow> string \<Rightarrow> NMSetting \<Rightarrow> string option \<Rightarrow> set_result" where
  "setter_cert prefix_pkcs11 prefix_path set_func property_name setting val =
     (case val of
        None \<Rightarrow> gobject_property_reset_default setting property_name
      | Some v0 \<Rightarrow>
          (let v = nm_strstrip_avoid_copy v0;
               scheme = (if strncmp_prefix v prefix_pkcs11 then NM_SETTING_802_1X_CK_SCHEME_PKCS11
                         else NM_SETTING_802_1X_CK_SCHEME_PATH);
               v' = (if \<not> strncmp_prefix v prefix_pkcs11 \<and> strncmp_prefix v prefix_path
                     then drop (length prefix_path) v else v)
           in case set_func setting v' scheme of
                Inl e \<Rightarrow> (Some e, setting)
              | Inr setting' \<Rightarrow> (None, setting')))"

definition setter_priv_key ::
  "string \<Rightarrow> string \<Rightarrow> (string \<Rightarrow> string) \<Rightarrow> (char \<Rightarrow> bool) \<Rightarrow> (NMSetting \<Rightarrow> string option)
     \<Rightarrow> (NMSetting \<Rightarrow> string \<Rightarrow> string option \<Rightarrow> NMSetting8021xCKScheme \<Rightarrow> error + NMSetting)
     \<Rightarrow> string \<Rightarrow> NMSetting \<Rightarrow> string option \<Rightarrow> set_result" where
  "setter_priv_key prefix_pkcs11 prefix_path nm_str_skip_leading_spaces nm_utils_is_separator
       pwd_func set_func property_name setting val =
     (case val of
        None \<Rightarrow> gobject_property_reset_default setting property_name
      | Some v0 \<Rightarrow>
          (let v = nm_str_skip_leading_spaces v0;
               scheme = (if strncmp_prefix v prefix_pkcs11 then NM_SETTING_802_1X_CK_SCHEME_PKCS11
                         else NM_SETTING_802_1X_CK_SCHEME_PATH);
               v' = (if \<not> strncmp_prefix v prefix_pkcs11 \<and> strncmp_prefix v prefix_path
                     then drop (length prefix_path) v else v);
               not_blank = (\<lambda>c. c \<noteq> CHR '' '' \<and> c \<noteq> CHR 0x09);
               path = takeWhile not_blank v';
               rest = dropWhile not_blank v';
               password =
                 (if rest \<noteq> [] then
                    (if nm_utils_is_separator (CHR 0x00)
                     then Some (dropWhile nm_utils_is_separator (tl rest))
                     else Some [])
                  else pwd_func setting)
           in case set_func setting path password scheme of
                Inl e \<Rightarrow> (Some e, setting)
              | Inr setting' \<Rightarrow> (None, setting')))"

subsection \<open>The setters of the connection setting\<close>

text \<open>\<^verbatim>\<open>permissions_valid\<close>, \<^verbatim>\<open>verify_string_list\<close> and
  \<^verbatim>\<open>_set_fcn_connection_permissions\<close>; \<^verbatim>\<open>PERM_USER_PREFIX\<close> is defined in the source.\<close>

definition PERM_USER_PREFIX :: string where
  "PERM_USER_PREFIX = ''user:''"

definition permissions_valid :: "string \<Rightarrow> bool" where
  "permissions_valid perm =
     (if perm = [] then False
      else if strncmp_prefix perm PERM_USER_PREFIX
      then \<not> (length perm \<le> length PERM_USER_PREFIX
              \<or> CHR '':'' \<in> set (drop (length PERM_USER_PREFIX) perm))
      else CHR '':'' \<notin> set perm)"

definition verify_string_list ::
  "string list option \<Rightarrow> string \<Rightarrow> (string \<Rightarrow> bool) option \<Rightarrow> error option" where
  "verify_string_list strv prop validate_func =
     (case validate_func of
        None \<Rightarrow> None
      | Some f \<Rightarrow>
          (case find (\<lambda>iter. iter \<noteq> [] \<and> \<not> f iter) (strv_tokens strv) of
             Some bad \<Rightarrow> Some (NotValid bad)
           | None \<Rightarrow> None))"

definition set_fcn_connection_permissions ::
  "(NMSetting \<Rightarrow> string \<Rightarrow> string \<Rightarrow> NMSetting) \<Rightarrow> string \<Rightarrow> NMSetting \<Rightarrow> string option
     \<Rightarrow> set_result" where
  "set_fcn_connection_permissions nm_setting_connection_add_permission property_name setting
       val =
     (case val of
        None \<Rightarrow> gobject_property_reset_default setting property_name
      | Some v \<Rightarrow>
          (let strv = nm_utils_strsplit_set v [CHR '' '', CHR 0x09, CHR '','']
           in case verify_string_list strv property_name (Some permissions_valid) of
                Some e \<Rightarrow> (Some e, setting)
              | None \<Rightarrow>
                  (None,
                   foldl (\<lambda>s user0.
                            nm_setting_connection_add_permission s ''user''
                              (if strncmp_prefix user0 PERM_USER_PREFIX
                               then drop (length PERM_USER_PREFIX) user0 else user0))
                     setting (strv_tokens strv))))"

text \<open>
  \<^verbatim>\<open>_set_fcn_connection_master\<close>: the null value and the empty text both store
  \<^verbatim>\<open>NULL\<close>.
\<close>

definition set_fcn_connection_master ::
  "(string \<Rightarrow> error option) \<Rightarrow> (string \<Rightarrow> bool) \<Rightarrow> string \<Rightarrow> NMSetting \<Rightarrow> string option
     \<Rightarrow> set_result" where
  "set_fcn_connection_master nm_utils_is_valid_iface_name nm_utils_is_uuid property_name
       setting val =
     (case val of
        None \<Rightarrow> (None, g_object_set_property setting property_name (GString None))
      | Some v \<Rightarrow>
          if v = [] then (None, g_object_set_property setting property_name (GString None))
          else if nm_utils_is_valid_iface_name v \<noteq> None \<and> \<not> nm_utils_is_uuid v
          then (Some (NotValidMaster v), setting)
          else (None, g_object_set_property setting property_name (GString (Some v))))"

definition set_fcn_connection_secondaries ::
  "(NMSetting \<Rightarrow> string \<Rightarrow> NMSetting) \<Rightarrow> string \<Rightarrow> NMSetting \<Rightarrow> string option \<Rightarrow> set_result" where
  "set_fcn_connection_secondaries nm_setting_connection_add_secondary property_name setting
       val =
     (case val of
        None \<Rightarrow> gobject_property_reset_default setting property_name
      | Some v \<Rightarrow>
          (None,
           foldl nm_setting_connection_add_secondary setting
             (strv_tokens (nm_utils_strsplit_set v [CHR '' '', CHR 0x09, CHR '','']))))"

datatype NMTernary = NM_TERNARY_DEFAULT | NM_TERNARY_FALSE | NM_TERNARY_TRUE

text \<open>\<^verbatim>\<open>_set_fcn_connection_metered\<close>; \<open>metered_value\<close> gives the numbers of the constants
  of the enumeration \<^verbatim>\<open>NMMetered\<close> of libnm-core.\<close>

datatype NMMetered = NM_METERED_UNKNOWN | NM_METERED_YES | NM_METERED_NO

definition set_fcn_connection_metered ::
  "(string \<Rightarrow> error + NMTernary) \<Rightarrow> (NMMetered \<Rightarrow> int) \<Rightarrow> string \<Rightarrow> NMSetting \<Rightarrow> string option
     \<Rightarrow> set_result" where
  "set_fcn_connection_metered nmc_string_to_ternary metered_value property_name setting val =
     (case val of
        None \<Rightarrow> gobject_property_reset_default setting property_name
      | Some v \<Rightarrow>
          (case nmc_string_to_ternary v of
             Inl e \<Rightarrow> (Some e, setting)
           | Inr ts_val \<Rightarrow>
               (let metered = (case ts_val of
                                 NM_TERNARY_TRUE \<Rightarrow> NM_METERED_YES
                               | NM_TERNARY_FALSE \<Rightarrow> NM_METERED_NO
                               | NM_TERNARY_DEFAULT \<Rightarrow> NM_METERED_UNKNOWN)
                in (None, g_object_set_number setting property_name (metered_value metered)))))"

subsection \<open>The other setters of the DCB setting\<close>

text \<open>
  \<^verbatim>\<open>_set_fcn_dcb_flags\<close> and \<^verbatim>\<open>_set_fcn_dcb_bool\<close>. The numbers of
  \<^verbatim>\<open>NM_SETTING_DCB_FLAG_ENABLE\<close>, \<^verbatim>\<open>NM_SETTING_DCB_FLAG_ADVERTISE\<close> and
  \<^verbatim>\<open>NM_SETTING_DCB_FLAG_WILLING\<close> of libnm-core are the parameters \<open>enable\<close>,
  \<open>advertise\<close> and \<open>willing\<close>.
  Modelled from the spec: \<^verbatim>\<open>NM_SETTING_DCB_PRIORITY_FLOW_CONTROL_FLAGS\<close> of libnm-core
  (not under src/), the name of the flags property of the priority flow control.
\<close>

fun dcb_flags_loop ::
  "str_to_int64 \<Rightarrow> nat \<Rightarrow> nat \<Rightarrow> nat \<Rightarrow> string list \<Rightarrow> nat \<Rightarrow> error + nat" where
  "dcb_flags_loop ascii_str_to_int64 enable advertise willing [] flags = Inr flags"
| "dcb_flags_loop ascii_str_to_int64 enable advertise willing (iter # strv) flags =
     (let t = str_to_int64_fallback ascii_str_to_int64 iter 0 0
                (int (enable OR advertise OR willing)) (- 1)
      in if g_ascii_strcasecmp_eq iter ''enable'' \<or> g_ascii_strcasecmp_eq iter ''enabled''
            \<or> t = int enable
         then dcb_flags_loop ascii_str_to_int64 enable advertise willing strv (flags OR enable)
         else if g_ascii_strcasecmp_eq iter ''advertise'' \<or> t = int advertise
         then dcb_flags_loop ascii_str_to_int64 enable advertise willing strv
                (flags OR advertise)
         else if g_ascii_strcasecmp_eq iter ''willing'' \<or> t = int willing
         then dcb_flags_loop ascii_str_to_int64 enable advertise willing strv (flags OR willing)
         else if g_ascii_strcasecmp_eq iter ''disable''
                 \<or> g_ascii_strcasecmp_eq iter ''disabled'' \<or> t = 0
         then dcb_flags_loop ascii_str_to_int64 enable advertise willing strv flags
         else Inl (NotAValidDcbFlag iter))"

definition set_fcn_dcb_flags ::
  "str_to_int64 \<Rightarrow> nat \<Rightarrow> nat \<Rightarrow> nat \<Rightarrow> (GParamSpec \<Rightarrow> gvalue \<Rightarrow> bool) \<Rightarrow> (GParamSpec \<Rightarrow> nat list)
     \<Rightarrow> string \<Rightarrow> NMSetting \<Rightarrow> string option \<Rightarrow> set_result" where
  "set_fcn_dcb_flags ascii_str_to_int64 enable advertise willing g_param_value_validate
       flags_class_values property_name setting val =
     (case val of
        None \<Rightarrow> gobject_property_reset_default setting property_name
      | Some v \<Rightarrow>
          (let t = str_to_int64_fallback ascii_str_to_int64 v 0 0
                     (int (enable OR advertise OR willing)) (- 1);
               parsed =
                 (if t \<noteq> - 1 then Inr (guint_cast t)
                  else dcb_flags_loop ascii_str_to_int64 enable advertise willing
                         (strv_tokens (nm_utils_strsplit_set v [CHR '' '', CHR 0x09, CHR '','']))
                         0)
           in case parsed of
                Inl e \<Rightarrow> (Some e, setting)
              | Inr flags \<Rightarrow>
                  (case validate_flags g_param_value_validate flags_class_values setting
                          property_name flags of
                     Some e \<Rightarrow> (Some e, setting)
                   | None \<Rightarrow> (None, g_object_set_number setting property_name (int flags)))))"

definition NM_SETTING_DCB_PRIORITY_FLOW_CONTROL_FLAGS :: string where
  "NM_SETTING_DCB_PRIORITY_FLOW_CONTROL_FLAGS = ''priority-flow-control-flags''"

record dcb_bool_typ_data =
  dcb_bool_set_fcn :: "NMSetting \<Rightarrow> nat \<Rightarrow> bool \<Rightarrow> NMSetting"
  with_flow_control_flags :: bool

definition set_fcn_dcb_bool ::
  "dcb_bool_typ_data \<Rightarrow> string \<Rightarrow> NMSetting \<Rightarrow> string option \<Rightarrow> set_result \<times> string list" where
  "set_fcn_dcb_bool td property_name setting val =
     (case val of
        None \<Rightarrow> (gobject_property_reset_default setting property_name, [])
      | Some v \<Rightarrow>
          (case dcb_parse_uint_array v 1 0 of
             Inl e \<Rightarrow> ((Some e, setting), [])
           | Inr nums \<Rightarrow>
               (let setting' =
                      dcb_set_all (\<lambda>s i n. dcb_bool_set_fcn td s i (n \<noteq> 0)) 0 nums setting
                in ((None, setting'),
                    dcb_check_feature_enabled setting'
                      (if with_flow_control_flags td
                       then NM_SETTING_DCB_PRIORITY_FLOW_CONTROL_FLAGS
                       else NM_SETTING_DCB_PRIORITY_GROUP_FLAGS)))))"

subsection \<open>The setters of the GSM, InfiniBand and IP settings\<close>

text \<open>
  Modelled from the spec: \<^verbatim>\<open>NM_SETTING_GSM_SIM_OPERATOR_ID\<close>,
  \<^verbatim>\<open>NM_SETTING_IP4_CONFIG_METHOD_MANUAL\<close> and \<^verbatim>\<open>NM_SETTING_IP6_CONFIG_METHOD_MANUAL\<close> of
  libnm-core (not under src/): the name of the property, and the method that the
  source comment calls \<^verbatim>\<open>manual\<close>. \<^verbatim>\<open>matches\<close> of clients/common/nm-client-utils.c is a
  parameter.
\<close>

definition NM_SETTING_GSM_SIM_OPERATOR_ID :: string where
  "NM_SETTING_GSM_SIM_OPERATOR_ID = ''sim-operator-id''"

definition set_fcn_gsm_sim_operator_id ::
  "string \<Rightarrow> NMSetting \<Rightarrow> string option \<Rightarrow> set_result" where
  "set_fcn_gsm_sim_operator_id property_name setting val =
     (case val of
        None \<Rightarrow> gobject_property_reset_default setting property_name
      | Some v \<Rightarrow>
          if length v \<noteq> 5 \<and> length v \<noteq> 6 then (Some SimOperatorIdNotMCCMNC, setting)
          else if \<not> list_all g_ascii_isdigit v then (Some SimOperatorIdNotMCCMNC, setting)
          else (None, g_object_set_property setting NM_SETTING_GSM_SIM_OPERATOR_ID
                        (GString (Some v))))"

definition G_MAXUINT16 :: int where "G_MAXUINT16 = 2 ^ 16 - 1"

definition set_fcn_infiniband_p_key ::
  "str_to_int64 \<Rightarrow> string \<Rightarrow> NMSetting \<Rightarrow> string option \<Rightarrow> set_result" where
  "set_fcn_infiniband_p_key ascii_str_to_int64 property_name setting val =
     (case val of
        None \<Rightarrow> gobject_property_reset_default setting property_name
      | Some v \<Rightarrow>
          (let p_key = (if v = ''default'' then - 1
                        else str_to_int64_fallback ascii_str_to_int64 v 0 (- 1) G_MAXUINT16
                               (- 2))
           in if v \<noteq> ''default'' \<and> p_key = - 2 then (Some (NotAValidPKey v), setting)
              else (None, g_object_set_number setting property_name (int_cast p_key))))"

definition NM_SETTING_IP4_CONFIG_METHOD_MANUAL :: string where
  "NM_SETTING_IP4_CONFIG_METHOD_MANUAL = ''manual''"

definition NM_SETTING_IP6_CONFIG_METHOD_MANUAL :: string where
  "NM_SETTING_IP6_CONFIG_METHOD_MANUAL = ''manual''"

definition set_fcn_ip_config_method ::
  "(string \<Rightarrow> string \<Rightarrow> bool) \<Rightarrow> (NMSetting \<Rightarrow> family) \<Rightarrow> string_is_valid \<Rightarrow> string list \<Rightarrow> string
     \<Rightarrow> NMSetting \<Rightarrow> string option \<Rightarrow> set_result" where
  "set_fcn_ip_config_method matches get_addr_family is_valid vals_static property_name setting
       val =
     (case val of
        None \<Rightarrow> gobject_property_reset_default setting property_name
      | Some v0 \<Rightarrow>
          (let v = (if length v0 > 1 \<and> matches v0 ''static''
                    then (if get_addr_family setting = AF_INET
                          then NM_SETTING_IP4_CONFIG_METHOD_MANUAL
                          else NM_SETTING_IP6_CONFIG_METHOD_MANUAL)
                    else v0)
           in case is_valid v vals_static of
                Inl e \<Rightarrow> (Some e, setting)
              | Inr v' \<Rightarrow>
                  (None, g_object_set_property setting property_name (GString (Some v')))))"

fun ip_config_dns_loop ::
  "(family \<Rightarrow> string \<Rightarrow> bool) \<Rightarrow> (NMSetting \<Rightarrow> string \<Rightarrow> NMSetting) \<Rightarrow> family \<Rightarrow> string list
     \<Rightarrow> NMSetting \<Rightarrow> set_result" where
  "ip_config_dns_loop nm_utils_parse_inaddr add_dns addr_fam [] setting = (None, setting)"
| "ip_config_dns_loop nm_utils_parse_inaddr add_dns addr_fam (iter # strv) setting =
     (let addr = g_strstrip iter
      in if \<not> nm_utils_parse_inaddr addr_fam addr
         then (Some (InvalidIPvAddress addr_fam addr), setting)
         else ip_config_dns_loop nm_utils_parse_inaddr add_dns addr_fam strv
                (add_dns setting addr))"

definition set_fcn_ip_config_dns ::
  "(NMSetting \<Rightarrow> family) \<Rightarrow> (family \<Rightarrow> string \<Rightarrow> bool) \<Rightarrow> (NMSetting \<Rightarrow> string \<Rightarrow> NMSetting)
     \<Rightarrow> string \<Rightarrow> NMSetting \<Rightarrow> string option \<Rightarrow> set_result" where
  "set_fcn_ip_config_dns get_addr_family nm_utils_parse_inaddr add_dns property_name setting
       val =
     (case val of
        None \<Rightarrow> gobject_property_reset_default setting property_name
      | Some v \<Rightarrow>
          (case nm_utils_strsplit_set v [CHR '' '', CHR 0x09, CHR '',''] of
             None \<Rightarrow> (None, setting)
           | Some strv \<Rightarrow>
               ip_config_dns_loop nm_utils_parse_inaddr add_dns (get_addr_family setting) strv
                 setting))"

text \<open>\<^verbatim>\<open>nmc_util_is_domain\<close> of the source accepts every text.\<close>

definition nmc_util_is_domain :: "string \<Rightarrow> bool" where
  "nmc_util_is_domain domain = True"

definition set_fcn_ip_config_dns_search ::
  "(NMSetting \<Rightarrow> string \<Rightarrow> NMSetting) \<Rightarrow> string \<Rightarrow> NMSetting \<Rightarrow> string option \<Rightarrow> set_result" where
  "set_fcn_ip_config_dns_search add_dns_search property_name setting val =
     (case val of
        None \<Rightarrow> gobject_property_reset_default setting property_name
      | Some v \<Rightarrow>
          (let strv = nm_utils_strsplit_set v [CHR '' '', CHR 0x09, CHR '','']
           in case verify_string_list strv property_name (Some nmc_util_is_domain) of
                Some e \<Rightarrow> (Some e, setting)
              | None \<Rightarrow> (None, foldl add_dns_search setting (strv_tokens strv))))"

definition set_fcn_ip_config_dns_options ::
  "(NMSetting \<Rightarrow> string \<Rightarrow> NMSetting) \<Rightarrow> (NMSetting \<Rightarrow> string \<Rightarrow> NMSetting) \<Rightarrow> string \<Rightarrow> NMSetting
     \<Rightarrow> string option \<Rightarrow> set_result" where
  "set_fcn_ip_config_dns_options remove_dns_option_by_value add_dns_option property_name
       setting val =
     (case val of
        None \<Rightarrow> gobject_property_reset_default setting property_name
      | Some v \<Rightarrow>
          (None,
           foldl (\<lambda>s item. add_dns_option (remove_dns_option_by_value s item) item) setting
             (strv_tokens (nm_utils_strsplit_set v [CHR '' '', CHR 0x09, CHR '','']))))"

definition set_fcn_ip4_config_gateway ::
  "libnm \<Rightarrow> string \<Rightarrow> NMSetting \<Rightarrow> string option \<Rightarrow> set_result" where
  "set_fcn_ip4_config_gateway L property_name setting val =
     (case val of
        None \<Rightarrow> gobject_property_reset_default setting property_name
      | Some v0 \<Rightarrow>
          (let v = nm_strstrip_avoid_copy v0
           in if \<not> nm_utils_ipaddr_valid L AF_INET v then (Some (InvalidGateway v), setting)
              else (None, g_object_set_property setting property_name (GString (Some v)))))"

definition set_fcn_ip6_config_gateway ::
  "libnm \<Rightarrow> string \<Rightarrow> NMSetting \<Rightarrow> string option \<Rightarrow> set_result" where
  "set_fcn_ip6_config_gateway L property_name setting val =
     (case val of
        None \<Rightarrow> gobject_property_reset_default setting property_name
      | Some v0 \<Rightarrow>
          (let v = nm_strstrip_avoid_copy v0
           in if \<not> nm_utils_ipaddr_valid L AF_INET6 v then (Some (InvalidGateway v), setting)
              else (None, g_object_set_property setting property_name (GString (Some v)))))"

subsection \<open>The setters of lists of parsed items\<close>

text \<open>
  The setters of the SR-IOV VFs, of the traffic-control qdiscs and filters and of the
  team link watchers split the text and, item by item, parse the item and add it;
  the first item that does not parse ends the call with its error. The parsers
  \<^verbatim>\<open>nm_utils_sriov_vf_from_str\<close>, \<^verbatim>\<open>nm_utils_tc_qdisc_from_str\<close> and
  \<^verbatim>\<open>nm_utils_tc_tfilter_from_str\<close> are parameters; their error is put into a longer
  message. \<^verbatim>\<open>nm_utils_strsplit_set\<close> with escaping and \<^verbatim>\<open>_nm_utils_unescape_spaces\<close>
  are parameters too.
\<close>

fun parse_add_loop ::
  "(string \<Rightarrow> error + 'a) \<Rightarrow> (NMSetting \<Rightarrow> 'a \<Rightarrow> NMSetting) \<Rightarrow> string list \<Rightarrow> NMSetting
     \<Rightarrow> set_result" where
  "parse_add_loop parse add [] setting = (None, setting)"
| "parse_add_loop parse add (iter # strv) setting =
     (case parse iter of
        Inl e \<Rightarrow> (Some e, setting)
      | Inr item \<Rightarrow> parse_add_loop parse add strv (add setting item))"

definition set_fcn_match_interface_name ::
  "(string \<Rightarrow> string \<Rightarrow> string list option) \<Rightarrow> (string \<Rightarrow> string) \<Rightarrow> (NMSetting \<Rightarrow> string \<Rightarrow> NMSetting)
     \<Rightarrow> string \<Rightarrow> NMSetting \<Rightarrow> string option \<Rightarrow> set_result" where
  "set_fcn_match_interface_name strsplit_set_escaped nm_utils_unescape_spaces
       add_interface_name property_name setting val =
     (case val of
        None \<Rightarrow> gobject_property_reset_default setting property_name
      | Some v \<Rightarrow>
          (None,
           foldl (\<lambda>s item. add_interface_name s (nm_utils_unescape_spaces item)) setting
             (strv_tokens (strsplit_set_escaped v [CHR '' '', CHR 0x09]))))"

definition set_fcn_olpc_mesh_channel ::
  "(string \<Rightarrow> bool \<Rightarrow> nat \<Rightarrow> nat \<Rightarrow> nat option) \<Rightarrow> string \<Rightarrow> NMSetting \<Rightarrow> string option
     \<Rightarrow> set_result" where
  "set_fcn_olpc_mesh_channel nmc_string_to_uint property_name setting val =
     (case val of
        None \<Rightarrow> gobject_property_reset_default setting property_name
      | Some v \<Rightarrow>
          (case nmc_string_to_uint v True 1 13 of
             None \<Rightarrow> (Some (NotAValidChannelOf13 v), setting)
           | Some chan_int \<Rightarrow> (None, g_object_set_number setting property_name (int chan_int))))"

definition set_fcn_sriov_vfs ::
  "(string \<Rightarrow> error + 'vf) \<Rightarrow> (NMSetting \<Rightarrow> 'vf \<Rightarrow> NMSetting) \<Rightarrow> string \<Rightarrow> NMSetting
     \<Rightarrow> string option \<Rightarrow> set_result" where
  "set_fcn_sriov_vfs nm_utils_sriov_vf_from_str add_vf property_name setting val =
     (case val of
        None \<Rightarrow> gobject_property_reset_default setting property_name
      | Some v \<Rightarrow>
          parse_add_loop
            (\<lambda>iter. case nm_utils_sriov_vf_from_str iter of
                      Inl local \<Rightarrow> Inl (SriovVfSyntax local)
                    | Inr vf \<Rightarrow> Inr vf)
            add_vf (strv_tokens (nm_utils_strsplit_set v [CHR '',''])) setting)"

definition set_fcn_tc_config_qdiscs ::
  "(string \<Rightarrow> error + 'q) \<Rightarrow> (NMSetting \<Rightarrow> 'q \<Rightarrow> NMSetting) \<Rightarrow> string \<Rightarrow> NMSetting
     \<Rightarrow> string option \<Rightarrow> set_result" where
  "set_fcn_tc_config_qdiscs nm_utils_tc_qdisc_from_str add_qdisc property_name setting val =
     (case val of
        None \<Rightarrow> gobject_property_reset_default setting property_name
      | Some v \<Rightarrow>
          parse_add_loop
            (\<lambda>iter. case nm_utils_tc_qdisc_from_str iter of
                      Inl local \<Rightarrow> Inl (QdiscSyntax local)
                    | Inr qdisc \<Rightarrow> Inr qdisc)
            add_qdisc (strv_tokens (nm_utils_strsplit_set v [CHR '',''])) setting)"

definition set_fcn_tc_config_tfilters ::
  "(string \<Rightarrow> error + 'f) \<Rightarrow> (NMSetting \<Rightarrow> 'f \<Rightarrow> NMSetting) \<Rightarrow> string \<Rightarrow> NMSetting
     \<Rightarrow> string option \<Rightarrow> set_result" where
  "set_fcn_tc_config_tfilters nm_utils_tc_tfilter_from_str add_tfilter property_name setting
       val =
     (case val of
        None \<Rightarrow> gobject_property_reset_default setting property_name
      | Some v \<Rightarrow>
          parse_add_loop
            (\<lambda>iter. case nm_utils_tc_tfilter_from_str iter of
                      Inl local \<Rightarrow> Inl (TfilterSyntax local)
                    | Inr tfilter \<Rightarrow> Inr tfilter)
            add_tfilter (strv_tokens (nm_utils_strsplit_set v [CHR '',''])) setting)"

text \<open>
  \<^verbatim>\<open>_is_valid_team_runner_tx_hash_element\<close> and \<^verbatim>\<open>_set_fcn_team_runner_tx_hash\<close>. The
  setter checks every item, then removes the element at index 0 for as long as the
  list has elements, then adds the items. With the list functions of libnm-core as
  parameters the removing loop need not end, and the result of the setter is \<open>None\<close>
  when it does not.
\<close>

definition is_valid_team_runner_tx_hash_element :: "string \<Rightarrow> error option" where
  "is_valid_team_runner_tx_hash_element tx_hash_element =
     (if tx_hash_element
           \<in> set [''eth'', ''vlan'', ''ipv4'', ''ipv6'', ''ip'', ''l3'', ''tcp'', ''udp'',
                  ''sctp'', ''l4'']
      then None
      else Some (TxHashNotValid tx_hash_element))"

partial_function (option) remove_all_runner_tx_hash ::
  "(NMSetting \<Rightarrow> nat) \<Rightarrow> (NMSetting \<Rightarrow> nat \<Rightarrow> NMSetting) \<Rightarrow> NMSetting \<Rightarrow> NMSetting option" where
  "remove_all_runner_tx_hash get_num remove_idx setting =
     (if get_num setting \<noteq> 0
      then remove_all_runner_tx_hash get_num remove_idx (remove_idx setting 0)
      else Some setting)"

definition set_fcn_team_runner_tx_hash ::
  "(NMSetting \<Rightarrow> nat) \<Rightarrow> (NMSetting \<Rightarrow> nat \<Rightarrow> NMSetting) \<Rightarrow> (NMSetting \<Rightarrow> string \<Rightarrow> NMSetting)
     \<Rightarrow> string \<Rightarrow> NMSetting \<Rightarrow> string option \<Rightarrow> set_result option" where
  "set_fcn_team_runner_tx_hash get_num remove_idx add_tx_hash property_name setting val =
     (case val of
        None \<Rightarrow> Some (gobject_property_reset_default setting property_name)
      | Some v \<Rightarrow>
          (let strv = strv_tokens (nm_utils_strsplit_set v [CHR '' '', CHR 0x09, CHR '',''])
           in case find (\<lambda>iter. is_valid_team_runner_tx_hash_element iter \<noteq> None) strv of
                Some bad \<Rightarrow> Some (is_valid_team_runner_tx_hash_element bad, setting)
              | None \<Rightarrow>
                  (case remove_all_runner_tx_hash get_num remove_idx setting of
                     None \<Rightarrow> None
                   | Some emptied \<Rightarrow> Some (None, foldl add_tx_hash emptied strv))))"

subsection \<open>The setters of the wired and wireless settings\<close>

definition set_fcn_wired_s390_subchannels ::
  "string \<Rightarrow> NMSetting \<Rightarrow> string option \<Rightarrow> set_result" where
  "set_fcn_wired_s390_subchannels property_name setting val =
     (case val of
        None \<Rightarrow> gobject_property_reset_default setting property_name
      | Some v \<Rightarrow>
          (let strv = nm_utils_strsplit_set v [CHR '' '', CHR '','', CHR 0x09];
               len = length (strv_tokens strv)
           in if len \<noteq> 2 \<and> len \<noteq> 3 then (Some (SubchannelsNotValid v), setting)
              else (None, g_object_set_property setting property_name (GStrv strv))))"

definition set_fcn_wireless_channel ::
  "(string \<Rightarrow> bool \<Rightarrow> nat \<Rightarrow> nat \<Rightarrow> nat option) \<Rightarrow> (nat \<Rightarrow> string \<Rightarrow> bool) \<Rightarrow> string \<Rightarrow> NMSetting
     \<Rightarrow> string option \<Rightarrow> set_result" where
  "set_fcn_wireless_channel nmc_string_to_uint nm_utils_wifi_is_channel_valid property_name
       setting val =
     (case val of
        None \<Rightarrow> gobject_property_reset_default setting property_name
      | Some v \<Rightarrow>
          (case nmc_string_to_uint v False 0 0 of
             None \<Rightarrow> (Some (NotAValidChannel v), setting)
           | Some chan_int \<Rightarrow>
               if \<not> nm_utils_wifi_is_channel_valid chan_int ''a''
                  \<and> \<not> nm_utils_wifi_is_channel_valid chan_int ''bg''
               then (Some (NotAValidChannelNumber chan_int), setting)
               else (None, g_object_set_number setting property_name (int chan_int))))"

text \<open>
  \<^verbatim>\<open>wep_key_type_to_string\<close> and \<^verbatim>\<open>_set_fcn_wireless_wep_key\<close>. The setter asserts that
  no error is pending and then stores \<^verbatim>\<open>NULL\<close> for the null value. The messages that
  it sends to the environment are returned beside its result. The functions of
  libnm-core on the setting and \<open>wep_key_type_value\<close>, the numbers of the constants
  of \<^verbatim>\<open>NMWepKeyType\<close>, are the fields of \<open>libnm_wep\<close>.
  Modelled from the spec: \<^verbatim>\<open>NM_SETTING_WIRELESS_SECURITY_WEP_KEY_TYPE\<close> and
  \<^verbatim>\<open>NM_SETTING_WIRELESS_SECURITY_WEP_TX_KEYIDX\<close> of libnm-core (not under src/), the
  names of the two properties.
\<close>

datatype NMWepKeyType =
    NM_WEP_KEY_TYPE_UNKNOWN | NM_WEP_KEY_TYPE_KEY | NM_WEP_KEY_TYPE_PASSPHRASE

record libnm_wep =
  get_wep_key_type :: "NMSetting \<Rightarrow> NMWepKeyType"
  nm_utils_wep_key_valid :: "string \<Rightarrow> NMWepKeyType \<Rightarrow> bool"
  get_wep_tx_keyidx :: "NMSetting \<Rightarrow> nat"
  wep_key_type_value :: "NMWepKeyType \<Rightarrow> int"

definition NM_SETTING_WIRELESS_SECURITY_WEP_KEY_TYPE :: string where
  "NM_SETTING_WIRELESS_SECURITY_WEP_KEY_TYPE = ''wep-key-type''"

definition NM_SETTING_WIRELESS_SECURITY_WEP_TX_KEYIDX :: string where
  "NM_SETTING_WIRELESS_SECURITY_WEP_TX_KEYIDX = ''wep-tx-keyidx''"

definition wep_key_type_to_string :: "libnm_wep \<Rightarrow> NMWepKeyType \<Rightarrow> string" where
  "wep_key_type_to_string W t =
     string_of_int (wep_key_type_value W t)
     @ (case t of
          NM_WEP_KEY_TYPE_KEY \<Rightarrow> '' (key)''
        | NM_WEP_KEY_TYPE_PASSPHRASE \<Rightarrow> '' (passphrase)''
        | NM_WEP_KEY_TYPE_UNKNOWN \<Rightarrow> '' (unknown)'')"

definition set_fcn_wireless_wep_key ::
  "libnm_wep \<Rightarrow> string \<Rightarrow> NMSetting \<Rightarrow> string option \<Rightarrow> set_result \<times> string list" where
  "set_fcn_wireless_wep_key W property_name setting val =
     (case val of
        None \<Rightarrow> ((None, g_object_set_property setting property_name (GString None)), [])
      | Some v \<Rightarrow>
          (let type = get_wep_key_type W setting;
               guessed0 =
                 (if nm_utils_wep_key_valid W v NM_WEP_KEY_TYPE_KEY then NM_WEP_KEY_TYPE_KEY
                  else if nm_utils_wep_key_valid W v NM_WEP_KEY_TYPE_PASSPHRASE
                  then NM_WEP_KEY_TYPE_PASSPHRASE
                  else NM_WEP_KEY_TYPE_UNKNOWN)
           in if guessed0 = NM_WEP_KEY_TYPE_UNKNOWN then ((Some (NotValid v), setting), [])
              else if type \<noteq> NM_WEP_KEY_TYPE_UNKNOWN \<and> type \<noteq> guessed0
                      \<and> \<not> nm_utils_wep_key_valid W v type
              then ((Some (WepKeyNotCompatible v (wep_key_type_to_string W type)), setting), [])
              else
                (let guessed_type =
                       (if type \<noteq> NM_WEP_KEY_TYPE_UNKNOWN \<and> type \<noteq> guessed0 then type
                        else guessed0);
                     prev_idx = get_wep_tx_keyidx W setting;
                     idx = guint_cast (int (of_char (last property_name) :: nat) - 48);
                     warnings =
                       [''WEP key is guessed to be of '' @ [CHR 0x27]
                        @ wep_key_type_to_string W guessed_type @ [CHR 0x27]]
                       @ (if idx \<noteq> prev_idx
                          then [''WEP key index set to '' @ [CHR 0x27]
                                @ string_of_int (int_cast (int idx)) @ [CHR 0x27]]
                          else []);
                     s1 = g_object_set_property setting property_name (GString (Some v));
                     s2 = g_object_set_number s1 NM_SETTING_WIRELESS_SECURITY_WEP_KEY_TYPE
                            (wep_key_type_value W guessed_type);
                     s3 = (if idx \<noteq> prev_idx
                           then g_object_set_number s2 NM_SETTING_WIRELESS_SECURITY_WEP_TX_KEYIDX
                                  (int idx)
                           else s2)
                 in ((None, s3), warnings))))"

text \<open>
  \<^verbatim>\<open>_set_fcn_ethtool\<close>: the null value sets the feature of the property to
  \<^verbatim>\<open>NM_TERNARY_DEFAULT\<close>. \<^verbatim>\<open>nm_setting_ethtool_set_feature\<close> of libnm-core and the name
  \<^verbatim>\<open>nm_ethtool_data[ethtool_id]->optname\<close> of the feature are parameters.
\<close>

definition set_fcn_ethtool ::
  "(NMSetting \<Rightarrow> string \<Rightarrow> NMTernary \<Rightarrow> NMSetting) \<Rightarrow> string \<Rightarrow> NMSetting \<Rightarrow> string option
     \<Rightarrow> set_result" where
  "set_fcn_ethtool nm_setting_ethtool_set_feature optname setting val =
     (let parsed =
            (case val of
               None \<Rightarrow> Inr NM_TERNARY_DEFAULT
             | Some v0 \<Rightarrow>
                 (let v = nm_strstrip_avoid_copy v0
                  in if v \<in> set [''1'', ''yes'', ''true'', ''on''] then Inr NM_TERNARY_TRUE
                     else if v \<in> set [''0'', ''no'', ''false'', ''off''] then Inr NM_TERNARY_FALSE
                     else if v \<in> set [[], ''ignore'', ''default''] then Inr NM_TERNARY_DEFAULT
                     else Inl (EthtoolNotValid v)))
      in case parsed of
           Inl e \<Rightarrow> (Some e, setting)
         | Inr t \<Rightarrow> (None, nm_setting_ethtool_set_feature setting optname t))"

subsection \<open>\<^verbatim>\<open>_parse_team_link_watcher\<close>\<close>

text \<open>
  The local variables of the parser, and its loop over the tokens. The flags of an
  \<^verbatim>\<open>arp_ping\<close> watcher are kept as the set of the flags that are on, so that
  \<^verbatim>\<open>flags |= F\<close> is \<open>insert F flags\<close>.
\<close>

datatype NMTeamLinkWatcherArpPingFlags =
    NM_TEAM_LINK_WATCHER_ARP_PING_FLAG_VALIDATE_ACTIVE
  | NM_TEAM_LINK_WATCHER_ARP_PING_FLAG_VALIDATE_INACTIVE
  | NM_TEAM_LINK_WATCHER_ARP_PING_FLAG_SEND_ALWAYS

record watcher_vars =
  w_name :: "string option"
  val1 :: int
  val2 :: int
  val3 :: int
  val4 :: int
  target_host :: "string option"
  source_host :: "string option"
  w_flags :: "NMTeamLinkWatcherArpPingFlags set"

definition watcher_vars_init :: watcher_vars where
  "watcher_vars_init =
     \<lparr>w_name = None, val1 = 0, val2 = 0, val3 = 3, val4 = - 1,
      target_host = None, source_host = None, w_flags = {}\<rparr>"

definition watcher_assign :: "watcher_vars \<Rightarrow> string \<Rightarrow> string \<Rightarrow> string \<Rightarrow> error + watcher_vars" where
  "watcher_assign w tok key v =
     (if key = ''name'' then Inr (w\<lparr>w_name := Some v\<rparr>)
      else if key = ''delay-up'' \<or> key = ''init-wait''
        then Inr (w\<lparr>val1 := nm_utils_ascii_str_to_int64 v 0 G_MAXINT32 (- 1)\<rparr>)
      else if key = ''delay-down'' \<or> key = ''interval''
        then Inr (w\<lparr>val2 := nm_utils_ascii_str_to_int64 v 0 G_MAXINT32 (- 1)\<rparr>)
      else if key = ''missed-max''
        then Inr (w\<lparr>val3 := nm_utils_ascii_str_to_int64 v 0 G_MAXINT32 (- 1)\<rparr>)
      else if key = ''vlanid''
        then Inr (w\<lparr>val4 := nm_utils_ascii_str_to_int64 v (- 1) 4094 (- 2)\<rparr>)
      else if key = ''target-host'' then Inr (w\<lparr>target_host := Some v\<rparr>)
      else if key = ''source-host'' then Inr (w\<lparr>source_host := Some v\<rparr>)
      else if key = ''validate-active''
        then (if v = ''true''
              then Inr (w\<lparr>w_flags := insert NM_TEAM_LINK_WATCHER_ARP_PING_FLAG_VALIDATE_ACTIVE (w_flags w)\<rparr>)
              else Inr w)
      else if key = ''validate-inactive''
        then (if v = ''true''
              then Inr (w\<lparr>w_flags := insert NM_TEAM_LINK_WATCHER_ARP_PING_FLAG_VALIDATE_INACTIVE (w_flags w)\<rparr>)
              else Inr w)
      else if key = ''send-always''
        then (if v = ''true''
              then Inr (w\<lparr>w_flags := insert NM_TEAM_LINK_WATCHER_ARP_PING_FLAG_SEND_ALWAYS (w_flags w)\<rparr>)
              else Inr w)
      else Inl (WatcherTokenNotValid tok UnknownKey))"

definition watcher_token :: "watcher_vars \<Rightarrow> string \<Rightarrow> error + watcher_vars" where
  "watcher_token w tok =
     (case nm_utils_strsplit_set tok [CHR ''=''] of
        None \<Rightarrow> Inl (WatcherTokenNotValid tok NotKeyValue)
      | Some pair \<Rightarrow>
          (case pair of
             [key, v] \<Rightarrow>
               (case watcher_assign w tok key v of
                  Inl e \<Rightarrow> Inl e
                | Inr w' \<Rightarrow>
                    if val1 w' < 0 \<or> val2 w' < 0 \<or> val3 w' < 0
                    then Inl (WatcherTokenNotValid tok NotANumberUpToMaxInt)
                    else if val4 w' < - 1
                    then Inl (WatcherTokenNotValid tok NotAVlanId)
                    else Inr w')
           | [key] \<Rightarrow> Inl (WatcherTokenNotValid tok MissingKeyValue)
           | _ \<Rightarrow> Inl (WatcherTokenNotValid tok NotKeyValue)))"

text \<open>What the two range checks at the end of the loop body establish.\<close>

definition watcher_vars_ok :: "watcher_vars \<Rightarrow> bool" where
  "watcher_vars_ok w = (0 \<le> val1 w \<and> 0 \<le> val2 w \<and> 0 \<le> val3 w \<and> - 1 \<le> val4 w)"

fun watcher_loop :: "string list \<Rightarrow> watcher_vars \<Rightarrow> error + watcher_vars" where
  "watcher_loop [] w = Inr w"
| "watcher_loop (tok # watcherv) w =
     (case watcher_token w tok of
        Inl e \<Rightarrow> Inl e
      | Inr w' \<Rightarrow> watcher_loop watcherv w')"

text \<open>
  The three constructors of libnm-core (\<^verbatim>\<open>nm_team_link_watcher_new_ethtool\<close>,
  \<^verbatim>\<open>nm_team_link_watcher_new_nsna_ping\<close>, \<^verbatim>\<open>nm_team_link_watcher_new_arp_ping2\<close>) are
  not under src/ and are parameters; each returns the watcher or the message of its
  error.
  Modelled from the spec: the watcher names \<^verbatim>\<open>NM_TEAM_LINK_WATCHER_ETHTOOL\<close>,
  \<^verbatim>\<open>NM_TEAM_LINK_WATCHER_NSNA_PING\<close> and \<^verbatim>\<open>NM_TEAM_LINK_WATCHER_ARP_PING\<close> of libnm-core.
\<close>

record 'w team_link_watcher_new =
  new_ethtool :: "int \<Rightarrow> int \<Rightarrow> string + 'w"
  new_nsna_ping :: "int \<Rightarrow> int \<Rightarrow> int \<Rightarrow> string option \<Rightarrow> string + 'w"
  new_arp_ping2 ::
    "int \<Rightarrow> int \<Rightarrow> int \<Rightarrow> int \<Rightarrow> string option \<Rightarrow> string option
       \<Rightarrow> NMTeamLinkWatcherArpPingFlags set \<Rightarrow> string + 'w"

definition NM_TEAM_LINK_WATCHER_ETHTOOL :: string where
  "NM_TEAM_LINK_WATCHER_ETHTOOL = ''ethtool''"

definition NM_TEAM_LINK_WATCHER_NSNA_PING :: string where
  "NM_TEAM_LINK_WATCHER_NSNA_PING = ''nsna_ping''"

definition NM_TEAM_LINK_WATCHER_ARP_PING :: string where
  "NM_TEAM_LINK_WATCHER_ARP_PING = ''arp_ping''"

definition watcher_result :: "string + 'w \<Rightarrow> error + 'w" where
  "watcher_result r = (case r of Inl msg \<Rightarrow> Inl (WatcherInvalid msg) | Inr x \<Rightarrow> Inr x)"

definition parse_team_link_watcher :: "'w team_link_watcher_new \<Rightarrow> string \<Rightarrow> error + 'w" where
  "parse_team_link_watcher C str =
     (case nm_utils_strsplit_set (nm_strstrip_avoid_copy str) [CHR '' '', CHR 0x09] of
        None \<Rightarrow> Inl (WatcherNotValid str)
      | Some watcherv \<Rightarrow>
          (case watcher_loop watcherv watcher_vars_init of
             Inl e \<Rightarrow> Inl e
           | Inr w \<Rightarrow>
               if w_name w = Some NM_TEAM_LINK_WATCHER_ETHTOOL
                 then watcher_result (new_ethtool C (val1 w) (val2 w))
               else if w_name w = Some NM_TEAM_LINK_WATCHER_NSNA_PING
                 then watcher_result (new_nsna_ping C (val1 w) (val2 w) (val3 w) (target_host w))
               else if w_name w = Some NM_TEAM_LINK_WATCHER_ARP_PING
                 then watcher_result
                        (new_arp_ping2 C (val1 w) (val2 w) (val3 w) (val4 w) (target_host w)
                           (source_host w) (w_flags w))
               else (case w_name w of
                       None \<Rightarrow> Inl WatcherNameMissing
                     | Some n \<Rightarrow> Inl (WatcherUnknownName n))))"

subsection \<open>The functions that validate an item and remove it\<close>

text \<open>
  The removers made with \<^verbatim>\<open>DEFINE_REMOVER_INDEX_OR_VALUE_VALIDATING\<close> and
  \<^verbatim>\<open>DEFINE_REMOVER_INDEX_OR_VALUE_COMPLEX\<close> (which is the same macro) hand the text
  to one of the following functions. Each validates or parses the text and calls the
  removal function of libnm-core for the property. The functions of libnm-core and
  of shared/nm-utils are not under src/ and are parameters: the test of the text
  (\<^verbatim>\<open>nm_utils_is_uuid\<close>, \<^verbatim>\<open>nm_utils_parse_inaddr\<close>, \<^verbatim>\<open>nm_utils_hwaddr_aton\<close>) or its
  parser (\<^verbatim>\<open>nm_utils_sriov_vf_from_str\<close>, \<^verbatim>\<open>nm_utils_tc_qdisc_from_str\<close>,
  \<^verbatim>\<open>nm_utils_tc_tfilter_from_str\<close>, with the error that it sets),
  \<^verbatim>\<open>nm_setting_ip_config_get_addr_family\<close>, \<^verbatim>\<open>nm_sriov_vf_get_index\<close>, and the removal
  function, whose \<^verbatim>\<open>gboolean\<close> result the callers do not read.
\<close>

definition validate_and_remove_connection_secondary ::
  "(string \<Rightarrow> bool) \<Rightarrow> (NMSetting \<Rightarrow> string \<Rightarrow> NMSetting) \<Rightarrow> NMSetting \<Rightarrow> string \<Rightarrow> set_result" where
  "validate_and_remove_connection_secondary nm_utils_is_uuid remove_secondary_by_value
       setting secondary_uuid =
     (if \<not> nm_utils_is_uuid secondary_uuid
      then (Some (NotAValidUUID secondary_uuid), setting)
      else (None, remove_secondary_by_value setting secondary_uuid))"

definition validate_and_remove_ip_dns ::
  "(NMSetting \<Rightarrow> family) \<Rightarrow> (family \<Rightarrow> string \<Rightarrow> bool) \<Rightarrow> (NMSetting \<Rightarrow> string \<Rightarrow> NMSetting)
     \<Rightarrow> NMSetting \<Rightarrow> string \<Rightarrow> set_result" where
  "validate_and_remove_ip_dns get_addr_family nm_utils_parse_inaddr remove_dns_by_value
       setting dns =
     (let addr_family = get_addr_family setting
      in if \<not> nm_utils_parse_inaddr addr_family dns
         then (Some (InvalidIPvAddress addr_family dns), setting)
         else (None, remove_dns_by_value setting dns))"

definition validate_and_remove_ip_address ::
  "libnm \<Rightarrow> (NMSetting \<Rightarrow> family) \<Rightarrow> (NMSetting \<Rightarrow> NMIPAddress \<Rightarrow> NMSetting)
     \<Rightarrow> NMSetting \<Rightarrow> string \<Rightarrow> set_result" where
  "validate_and_remove_ip_address L get_addr_family remove_address_by_value setting val =
     (let addr_family = get_addr_family setting
      in case parse_ip_address L addr_family val of
           Inl e \<Rightarrow> (Some e, setting)
         | Inr addr \<Rightarrow> (None, remove_address_by_value setting addr))"

definition validate_and_remove_ipv4_route ::
  "libnm \<Rightarrow> (NMSetting \<Rightarrow> NMIPRoute \<Rightarrow> NMSetting) \<Rightarrow> NMSetting \<Rightarrow> string \<Rightarrow> set_result" where
  "validate_and_remove_ipv4_route L remove_route_by_value setting val =
     (case parse_ip_route L AF_INET val of
        Inl e \<Rightarrow> (Some e, setting)
      | Inr route \<Rightarrow> (None, remove_route_by_value setting route))"

definition validate_and_remove_ipv6_route ::
  "libnm \<Rightarrow> (NMSetting \<Rightarrow> NMIPRoute \<Rightarrow> NMSetting) \<Rightarrow> NMSetting \<Rightarrow> string \<Rightarrow> set_result" where
  "validate_and_remove_ipv6_route L remove_route_by_value setting val =
     (case parse_ip_route L AF_INET6 val of
        Inl e \<Rightarrow> (Some e, setting)
      | Inr route \<Rightarrow> (None, remove_route_by_value setting route))"

definition validate_and_remove_sriov_vf ::
  "(string \<Rightarrow> error + 'vf) \<Rightarrow> ('vf \<Rightarrow> nat) \<Rightarrow> (NMSetting \<Rightarrow> nat \<Rightarrow> NMSetting)
     \<Rightarrow> NMSetting \<Rightarrow> string \<Rightarrow> set_result" where
  "validate_and_remove_sriov_vf nm_utils_sriov_vf_from_str nm_sriov_vf_get_index
       remove_vf_by_index setting val =
     (case nm_utils_sriov_vf_from_str val of
        Inl e \<Rightarrow> (Some e, setting)
      | Inr vf \<Rightarrow> (None, remove_vf_by_index setting (nm_sriov_vf_get_index vf)))"

definition validate_and_remove_tc_qdisc ::
  "(string \<Rightarrow> error + 'q) \<Rightarrow> (NMSetting \<Rightarrow> 'q \<Rightarrow> NMSetting) \<Rightarrow> NMSetting \<Rightarrow> string \<Rightarrow> set_result" where
  "validate_and_remove_tc_qdisc nm_utils_tc_qdisc_from_str remove_qdisc_by_value setting val =
     (case nm_utils_tc_qdisc_from_str val of
        Inl e \<Rightarrow> (Some e, setting)
      | Inr qdisc \<Rightarrow> (None, remove_qdisc_by_value setting qdisc))"

definition validate_and_remove_tc_tfilter ::
  "(string \<Rightarrow> error + 'f) \<Rightarrow> (NMSetting \<Rightarrow> 'f \<Rightarrow> NMSetting) \<Rightarrow> NMSetting \<Rightarrow> string \<Rightarrow> set_result" where
  "validate_and_remove_tc_tfilter nm_utils_tc_tfilter_from_str remove_tfilter_by_value
       setting val =
     (case nm_utils_tc_tfilter_from_str val of
        Inl e \<Rightarrow> (Some e, setting)
      | Inr tfilter \<Rightarrow> (None, remove_tfilter_by_value setting tfilter))"

definition validate_and_remove_team_link_watcher ::
  "'w team_link_watcher_new \<Rightarrow> (NMSetting \<Rightarrow> 'w \<Rightarrow> NMSetting) \<Rightarrow> NMSetting \<Rightarrow> string
     \<Rightarrow> set_result" where
  "validate_and_remove_team_link_watcher C remove_link_watcher_by_value setting val =
     (case parse_team_link_watcher C val of
        Inl e \<Rightarrow> (Some e, setting)
      | Inr watcher \<Rightarrow> (None, remove_link_watcher_by_value setting watcher))"

definition validate_and_remove_team_port_link_watcher ::
  "'w team_link_watcher_new \<Rightarrow> (NMSetting \<Rightarrow> 'w \<Rightarrow> NMSetting) \<Rightarrow> NMSetting \<Rightarrow> string
     \<Rightarrow> set_result" where
  "validate_and_remove_team_port_link_watcher C remove_link_watcher_by_value setting val =
     (case parse_team_link_watcher C val of
        Inl e \<Rightarrow> (Some e, setting)
      | Inr watcher \<Rightarrow> (None, remove_link_watcher_by_value setting watcher))"

definition validate_and_remove_wired_mac_blacklist_item ::
  "(string \<Rightarrow> bool) \<Rightarrow> (NMSetting \<Rightarrow> string \<Rightarrow> NMSetting) \<Rightarrow> NMSetting \<Rightarrow> string \<Rightarrow> set_result" where
  "validate_and_remove_wired_mac_blacklist_item hwaddr_ok remove_mac_blacklist_item_by_value
       setting mac =
     (if \<not> hwaddr_ok mac then (Some (NotAValidMACAddress mac), setting)
      else (None, remove_mac_blacklist_item_by_value setting mac))"

definition validate_and_remove_wifi_mac_blacklist_item ::
  "(string \<Rightarrow> bool) \<Rightarrow> (NMSetting \<Rightarrow> string \<Rightarrow> NMSetting) \<Rightarrow> NMSetting \<Rightarrow> string \<Rightarrow> set_result" where
  "validate_and_remove_wifi_mac_blacklist_item hwaddr_ok remove_mac_blacklist_item_by_value
       setting mac =
     (if \<not> hwaddr_ok mac then (Some (NotAValidMACAddress mac), setting)
      else (None, remove_mac_blacklist_item_by_value setting mac))"

subsection \<open>The VLAN priority maps\<close>

text \<open>
  \<^verbatim>\<open>g_strsplit (string, ",", 0)\<close> of GLib, for the delimiter of one character that
  the parser passes: empty tokens are kept, the empty string gives the empty vector.
\<close>

definition g_strsplit :: "string \<Rightarrow> char \<Rightarrow> string list" where
  "g_strsplit str delimiter = (if str = [] then [] else g_split_fields [delimiter] [] str)"

datatype NMVlanPriorityMap = NM_VLAN_INGRESS_MAP | NM_VLAN_EGRESS_MAP

text \<open>
  Modelled from the spec: \<^verbatim>\<open>NM_SETTING_VLAN_INGRESS_PRIORITY_MAP\<close> and
  \<^verbatim>\<open>NM_SETTING_VLAN_EGRESS_PRIORITY_MAP\<close> of libnm-core (not under src/), the names of
  the two properties. The functions of libnm-core on the maps of a setting are the
  fields of \<open>libnm_vlan\<close>: \<^verbatim>\<open>nm_utils_vlan_priority_map_parse_str\<close> (whether it accepts
  the item, for a map type and with or without the wildcard),
  \<^verbatim>\<open>nm_setting_vlan_get_num_priorities\<close>, \<^verbatim>\<open>nm_setting_vlan_add_priority_str\<close>,
  \<^verbatim>\<open>nm_setting_vlan_remove_priority\<close> and
  \<^verbatim>\<open>nm_setting_vlan_remove_priority_str_by_value\<close>.
\<close>

definition NM_SETTING_VLAN_INGRESS_PRIORITY_MAP :: string where
  "NM_SETTING_VLAN_INGRESS_PRIORITY_MAP = ''ingress-priority-map''"

definition NM_SETTING_VLAN_EGRESS_PRIORITY_MAP :: string where
  "NM_SETTING_VLAN_EGRESS_PRIORITY_MAP = ''egress-priority-map''"

record libnm_vlan =
  vlan_priority_map_parse_str :: "NMVlanPriorityMap \<Rightarrow> string \<Rightarrow> bool \<Rightarrow> bool"
  vlan_get_num_priorities :: "NMSetting \<Rightarrow> NMVlanPriorityMap \<Rightarrow> nat"
  vlan_add_priority_str :: "NMSetting \<Rightarrow> NMVlanPriorityMap \<Rightarrow> string \<Rightarrow> NMSetting"
  vlan_remove_priority :: "NMSetting \<Rightarrow> NMVlanPriorityMap \<Rightarrow> nat \<Rightarrow> NMSetting"
  vlan_remove_priority_str_by_value :: "NMSetting \<Rightarrow> NMVlanPriorityMap \<Rightarrow> string \<Rightarrow> NMSetting"

definition vlan_priority_map_type_from_property_info :: "string \<Rightarrow> NMVlanPriorityMap" where
  "vlan_priority_map_type_from_property_info property_name =
     (if property_name = NM_SETTING_VLAN_INGRESS_PRIORITY_MAP then NM_VLAN_INGRESS_MAP
      else NM_VLAN_EGRESS_MAP)"

definition parse_vlan_priority_maps ::
  "libnm_vlan \<Rightarrow> string \<Rightarrow> NMVlanPriorityMap \<Rightarrow> bool \<Rightarrow> error + string list" where
  "parse_vlan_priority_maps V priority_map map_type allow_wildcard_to =
     (let mapping = g_strsplit priority_map CHR '',''
      in case find (\<lambda>iter. \<not> vlan_priority_map_parse_str V map_type iter allow_wildcard_to)
                mapping of
           Some bad \<Rightarrow> Inl (InvalidPriorityMap bad)
         | None \<Rightarrow> Inr mapping)"

definition set_fcn_vlan_xgress_priority_map ::
  "libnm_vlan \<Rightarrow> string \<Rightarrow> NMSetting \<Rightarrow> string option \<Rightarrow> set_result" where
  "set_fcn_vlan_xgress_priority_map V property_name setting val =
     (let map_type = vlan_priority_map_type_from_property_info property_name
      in case val of
           None \<Rightarrow> gobject_property_reset_default setting property_name
         | Some v \<Rightarrow>
             (case parse_vlan_priority_maps V v map_type False of
                Inl e \<Rightarrow> (Some e, setting)
              | Inr prio_map \<Rightarrow>
                  (None, foldl (\<lambda>s p. vlan_add_priority_str V s map_type p) setting prio_map)))"

definition remove_fcn_vlan_xgress_priority_map ::
  "libnm_vlan \<Rightarrow> string \<Rightarrow> NMSetting \<Rightarrow> string \<Rightarrow> set_result" where
  "remove_fcn_vlan_xgress_priority_map V property_name setting val =
     (let map_type = vlan_priority_map_type_from_property_info property_name;
          idx = nm_utils_ascii_str_to_int64 val 0 G_MAXINT64 (- 1)
      in if idx \<noteq> - 1 then
           (let num = vlan_get_num_priorities V setting map_type
            in if idx < int num then (None, vlan_remove_priority V setting map_type (nat idx))
               else (None, setting))
         else
           (case parse_vlan_priority_maps V val map_type True of
              Inl e \<Rightarrow> (Some e, setting)
            | Inr prio_map \<Rightarrow>
                (None, foldl (\<lambda>s p. vlan_remove_priority_str_by_value V s map_type p)
                         setting prio_map)))"

subsection \<open>The setters of the team link watchers\<close>

text \<open>
  \<^verbatim>\<open>_set_fcn_team_link_watchers\<close> and \<^verbatim>\<open>_set_fcn_team_port_link_watchers\<close>: each item of
  the text is parsed by \<^verbatim>\<open>_parse_team_link_watcher\<close> and added by
  \<^verbatim>\<open>nm_setting_team_add_link_watcher\<close> or \<^verbatim>\<open>nm_setting_team_port_add_link_watcher\<close>,
  which are parameters.
\<close>

definition set_fcn_team_link_watchers ::
  "'w team_link_watcher_new \<Rightarrow> (NMSetting \<Rightarrow> 'w \<Rightarrow> NMSetting) \<Rightarrow> string \<Rightarrow> NMSetting
     \<Rightarrow> string option \<Rightarrow> set_result" where
  "set_fcn_team_link_watchers C add_link_watcher property_name setting val =
     (case val of
        None \<Rightarrow> gobject_property_reset_default setting property_name
      | Some v \<Rightarrow>
          parse_add_loop (parse_team_link_watcher C) add_link_watcher
            (strv_tokens (nm_utils_strsplit_set v [CHR '',''])) setting)"

definition set_fcn_team_port_link_watchers ::
  "'w team_link_watcher_new \<Rightarrow> (NMSetting \<Rightarrow> 'w \<Rightarrow> NMSetting) \<Rightarrow> string \<Rightarrow> NMSetting
     \<Rightarrow> string option \<Rightarrow> set_result" where
  "set_fcn_team_port_link_watchers C add_link_watcher property_name setting val =
     (case val of
        None \<Rightarrow> gobject_property_reset_default setting property_name
      | Some v \<Rightarrow>
          parse_add_loop (parse_team_link_watcher C) add_link_watcher
            (strv_tokens (nm_utils_strsplit_set v [CHR '',''])) setting)"

subsection \<open>Getters: \<^verbatim>\<open>_meta_type_property_info_get_fcn\<close> and \<^verbatim>\<open>_get_text_hidden\<close>\<close>

text \<open>
  Modelled from the spec: the enumerations \<^verbatim>\<open>NMMetaAccessorGetType\<close> and
  \<^verbatim>\<open>NMMetaAccessorGetFlags\<close> and the macro \<^verbatim>\<open>NM_META_TEXT_HIDDEN\<close> of
  nm-meta-setting-desc.h (not under src/): the two text modes and one other mode,
  the flags of a call as the set of the flags that are on, and the redaction token.
  The parameter \<open>tr\<close> of the getters is \<^verbatim>\<open>gettext\<close>, the \<^verbatim>\<open>_()\<close> of the C code.
\<close>

datatype NMMetaAccessorGetType =
    NM_META_ACCESSOR_GET_TYPE_PRETTY
  | NM_META_ACCESSOR_GET_TYPE_PARSABLE
  | NM_META_ACCESSOR_GET_TYPE_TERMFORMAT

datatype NMMetaAccessorGetFlags =
    NM_META_ACCESSOR_GET_FLAGS_ACCEPT_STRV
  | NM_META_ACCESSOR_GET_FLAGS_SHOW_SECRETS

definition NM_META_TEXT_HIDDEN :: string where
  "NM_META_TEXT_HIDDEN = ''<hidden>''"

definition get_text_hidden :: "(string \<Rightarrow> string) \<Rightarrow> NMMetaAccessorGetType \<Rightarrow> string" where
  "get_text_hidden tr get_type =
     (if get_type = NM_META_ACCESSOR_GET_TYPE_PRETTY then tr NM_META_TEXT_HIDDEN
      else NM_META_TEXT_HIDDEN)"

text \<open>
  A getter returns the text (\<open>None\<close> for \<^verbatim>\<open>NULL\<close>) and the value of
  \<^verbatim>\<open>*out_is_default\<close> after the call; its last argument is the value of
  \<^verbatim>\<open>*out_is_default\<close> before the call, which a getter that does not write it leaves.
\<close>

type_synonym get_result = "string option \<times> bool"

type_synonym get_fcn_t =
  "NMSetting \<Rightarrow> NMMetaAccessorGetType \<Rightarrow> NMMetaAccessorGetFlags set \<Rightarrow> bool \<Rightarrow> get_result"

record NMMetaPropertyInfo =
  property_name :: string
  is_secret :: bool
  get_fcn :: get_fcn_t

definition meta_type_property_info_get_fcn ::
  "(string \<Rightarrow> string) \<Rightarrow> NMMetaPropertyInfo \<Rightarrow> NMSetting \<Rightarrow> NMMetaAccessorGetType
     \<Rightarrow> NMMetaAccessorGetFlags set \<Rightarrow> bool \<Rightarrow> get_result" where
  "meta_type_property_info_get_fcn tr info target get_type get_flags is_default0 =
     (if get_type \<noteq> NM_META_ACCESSOR_GET_TYPE_PARSABLE
         \<and> get_type \<noteq> NM_META_ACCESSOR_GET_TYPE_PRETTY
      then (None, is_default0)
      else if is_secret info \<and> NM_META_ACCESSOR_GET_FLAGS_SHOW_SECRETS \<notin> get_flags
      then (Some (get_text_hidden tr get_type), True)
      else get_fcn info target get_type get_flags is_default0)"

text \<open>\<^verbatim>\<open>_get_fcn_gobject_impl\<close>, the getter of plain properties, for a property of
  type string or boolean (the other types go through value transformations that
  are registered elsewhere).\<close>

definition get_fcn_gobject_impl ::
  "(string \<Rightarrow> string) \<Rightarrow> string \<Rightarrow> get_fcn_t" where
  "get_fcn_gobject_impl tr prop_name setting get_type get_flags is_default0 =
     (if get_type \<noteq> NM_META_ACCESSOR_GET_TYPE_PARSABLE
         \<and> get_type \<noteq> NM_META_ACCESSOR_GET_TYPE_PRETTY
      then (None, is_default0)
      else (case g_object_get_property setting prop_name of
              GBoolean b \<Rightarrow>
                (Some (if get_type = NM_META_ACCESSOR_GET_TYPE_PRETTY
                       then (if b then tr ''yes'' else tr ''no'')
                       else (if b then ''yes'' else ''no'')),
                 gobject_property_is_default setting prop_name)
            | GString s \<Rightarrow> (s, gobject_property_is_default setting prop_name)
            | _ \<Rightarrow> (None, gobject_property_is_default setting prop_name)))"

subsection \<open>\<^verbatim>\<open>_get_fcn_gobject_enum\<close>\<close>

text \<open>
  Modelled from the spec: the flags \<^verbatim>\<open>NM_META_PROPERTY_TYP_FLAG_ENUM_GET_*\<close> of
  nm-meta-setting-desc.h (not under src/), which ask for a numeric, hexadecimal,
  textual or localized rendering in one of the two modes; a property's \<^verbatim>\<open>typ_flags\<close>
  is the set of the flags that are on.
  \<^verbatim>\<open>_nm_utils_enum_to_str_full (gtype, value, ", ", value_infos)\<close> of shared/nm-utils
  is the parameter \<open>enum_to_str\<close>.
\<close>

datatype NMMetaPropertyTypFlags =
    NM_META_PROPERTY_TYP_FLAG_ENUM_GET_PRETTY_NUMERIC
  | NM_META_PROPERTY_TYP_FLAG_ENUM_GET_PRETTY_NUMERIC_HEX
  | NM_META_PROPERTY_TYP_FLAG_ENUM_GET_PRETTY_TEXT
  | NM_META_PROPERTY_TYP_FLAG_ENUM_GET_PRETTY_TEXT_L10N
  | NM_META_PROPERTY_TYP_FLAG_ENUM_GET_PARSABLE_NUMERIC
  | NM_META_PROPERTY_TYP_FLAG_ENUM_GET_PARSABLE_NUMERIC_HEX
  | NM_META_PROPERTY_TYP_FLAG_ENUM_GET_PARSABLE_TEXT
  | NM_META_PROPERTY_TYP_FLAG_MULTILINE_TEXT

record gobject_enum_typ_data =
  typ_flags :: "NMMetaPropertyTypFlags set"
  get_gtype :: "gtype option"
  value_infos_get :: "(string \<times> int) list"

definition G_IS_ENUM_CLASS :: "gtype \<Rightarrow> bool" where
  "G_IS_ENUM_CLASS t = (case t of GEnumType n \<Rightarrow> True | _ \<Rightarrow> False)"

definition G_IS_FLAGS_CLASS :: "gtype \<Rightarrow> bool" where
  "G_IS_FLAGS_CLASS t = (case t of GFlagsType n \<Rightarrow> True | _ \<Rightarrow> False)"

text \<open>The \<^verbatim>\<open>g_value_get_*\<close> functions (0 for a value of another type).\<close>

definition g_value_get_int :: "gvalue \<Rightarrow> int" where
  "g_value_get_int gval = (case gval of GInt i \<Rightarrow> i | _ \<Rightarrow> 0)"

definition g_value_get_enum :: "gvalue \<Rightarrow> int" where
  "g_value_get_enum gval = (case gval of GEnum i \<Rightarrow> i | _ \<Rightarrow> 0)"

definition g_value_get_uint :: "gvalue \<Rightarrow> int" where
  "g_value_get_uint gval = (case gval of GUInt n \<Rightarrow> int n | _ \<Rightarrow> 0)"

definition g_value_get_flags :: "gvalue \<Rightarrow> int" where
  "g_value_get_flags gval = (case gval of GFlags n \<Rightarrow> int n | _ \<Rightarrow> 0)"

text \<open>The format flags that the getter derives from \<^verbatim>\<open>typ_flags\<close> and the mode:
  \<^verbatim>\<open>format_numeric\<close>, \<^verbatim>\<open>format_numeric_hex\<close>, \<^verbatim>\<open>format_numeric_hex_unknown\<close>,
  \<^verbatim>\<open>format_text\<close>, \<^verbatim>\<open>format_text_l10n\<close>.\<close>

record enum_format =
  format_numeric :: bool
  format_numeric_hex :: bool
  format_numeric_hex_unknown :: bool
  format_text :: bool
  format_text_l10n :: bool

definition enum_format_init :: enum_format where
  "enum_format_init =
     \<lparr>format_numeric = False, format_numeric_hex = False, format_numeric_hex_unknown = False,
      format_text = False, format_text_l10n = False\<rparr>"

definition enum_get_format ::
  "gobject_enum_typ_data option \<Rightarrow> NMMetaAccessorGetType \<Rightarrow> enum_format" where
  "enum_get_format typ_data get_type =
     (let flags = (case typ_data of None \<Rightarrow> {} | Some td \<Rightarrow> typ_flags td);
          has = (\<lambda>f. f \<in> flags)
      in if typ_data \<noteq> None \<and> get_type = NM_META_ACCESSOR_GET_TYPE_PRETTY
            \<and> (has NM_META_PROPERTY_TYP_FLAG_ENUM_GET_PRETTY_NUMERIC
               \<or> has NM_META_PROPERTY_TYP_FLAG_ENUM_GET_PRETTY_NUMERIC_HEX
               \<or> has NM_META_PROPERTY_TYP_FLAG_ENUM_GET_PRETTY_TEXT
               \<or> has NM_META_PROPERTY_TYP_FLAG_ENUM_GET_PRETTY_TEXT_L10N)
         then enum_format_init
                \<lparr>format_numeric := has NM_META_PROPERTY_TYP_FLAG_ENUM_GET_PRETTY_NUMERIC_HEX
                                      \<or> has NM_META_PROPERTY_TYP_FLAG_ENUM_GET_PRETTY_NUMERIC,
                 format_numeric_hex := has NM_META_PROPERTY_TYP_FLAG_ENUM_GET_PRETTY_NUMERIC_HEX,
                 format_text := has NM_META_PROPERTY_TYP_FLAG_ENUM_GET_PRETTY_TEXT_L10N
                                   \<or> has NM_META_PROPERTY_TYP_FLAG_ENUM_GET_PRETTY_TEXT,
                 format_text_l10n := has NM_META_PROPERTY_TYP_FLAG_ENUM_GET_PRETTY_TEXT_L10N\<rparr>
         else if typ_data \<noteq> None \<and> get_type \<noteq> NM_META_ACCESSOR_GET_TYPE_PRETTY
            \<and> (has NM_META_PROPERTY_TYP_FLAG_ENUM_GET_PARSABLE_NUMERIC
               \<or> has NM_META_PROPERTY_TYP_FLAG_ENUM_GET_PARSABLE_NUMERIC_HEX
               \<or> has NM_META_PROPERTY_TYP_FLAG_ENUM_GET_PARSABLE_TEXT)
         then enum_format_init
                \<lparr>format_numeric := False
                                      \<and> has NM_META_PROPERTY_TYP_FLAG_ENUM_GET_PARSABLE_NUMERIC,
                 format_numeric_hex := has NM_META_PROPERTY_TYP_FLAG_ENUM_GET_PARSABLE_NUMERIC_HEX,
                 format_text := has NM_META_PROPERTY_TYP_FLAG_ENUM_GET_PARSABLE_TEXT\<rparr>
         else if get_type = NM_META_ACCESSOR_GET_TYPE_PRETTY
         then enum_format_init
                \<lparr>format_numeric := True, format_numeric_hex_unknown := True,
                 format_text := True, format_text_l10n := True\<rparr>
         else enum_format_init
                \<lparr>format_numeric := True, format_numeric_hex_unknown := True\<rparr>)"

text \<open>\<^verbatim>\<open>"0x%" G_GINT64_FORMAT\<close> prints the two characters \<^verbatim>\<open>0x\<close> and then the
  number in decimal digits, which is what the model prints. The localized format
  \<^verbatim>\<open>_("%s (%s)")\<close> is modelled untranslated.\<close>

definition enum_numeric_text :: "enum_format \<Rightarrow> gtype \<Rightarrow> int \<Rightarrow> string" where
  "enum_numeric_text fmt gtype v =
     (if format_numeric_hex fmt \<or> (format_numeric_hex_unknown fmt \<and> \<not> G_IS_ENUM_CLASS gtype)
      then ''0x'' @ string_of_int v
      else string_of_int v)"

definition get_fcn_gobject_enum ::
  "(gtype \<Rightarrow> int \<Rightarrow> (string \<times> int) list \<Rightarrow> string) \<Rightarrow> gobject_enum_typ_data option \<Rightarrow> string
     \<Rightarrow> get_fcn_t" where
  "get_fcn_gobject_enum enum_to_str typ_data prop_name setting get_type get_flags is_default0 =
     (if get_type \<noteq> NM_META_ACCESSOR_GET_TYPE_PARSABLE
         \<and> get_type \<noteq> NM_META_ACCESSOR_GET_TYPE_PRETTY
      then (None, is_default0)
      else
        (let has_gtype = (case typ_data of None \<Rightarrow> False | Some td \<Rightarrow> get_gtype td \<noteq> None);
             fmt = enum_get_format typ_data get_type
         in case g_object_class_find_property setting prop_name of
              None \<Rightarrow> (None, is_default0)
            | Some pspec \<Rightarrow>
                (let gval = g_object_get_property setting prop_name;
                     is_default = g_param_value_defaults pspec gval;
                     vt = value_type pspec;
                     v_read =
                       (if vt = G_TYPE_INT \<or> G_IS_ENUM_CLASS vt then
                          (if vt = G_TYPE_INT
                           then (if \<not> has_gtype then None else Some (g_value_get_int gval))
                           else Some (g_value_get_enum gval))
                        else if vt = G_TYPE_UINT \<or> G_IS_FLAGS_CLASS vt then
                          (if vt = G_TYPE_UINT
                           then (if \<not> has_gtype then None else Some (g_value_get_uint gval))
                           else Some (g_value_get_flags gval))
                        else None)
                 in case v_read of
                      None \<Rightarrow> (None, is_default)
                    | Some v \<Rightarrow>
                      (let gtype = (case typ_data of
                                      None \<Rightarrow> vt
                                    | Some td \<Rightarrow> (case get_gtype td of None \<Rightarrow> vt | Some t \<Rightarrow> t));
                           s_numeric = enum_numeric_text fmt gtype v
                       in if format_numeric fmt \<and> \<not> format_text fmt then (Some s_numeric, is_default)
                          else
                            (let s = enum_to_str gtype (int_cast v)
                                       (case typ_data of None \<Rightarrow> [] | Some td \<Rightarrow> value_infos_get td)
                             in if \<not> format_numeric fmt then (Some s, is_default)
                                else if s = s_numeric then (Some s, is_default)
                                else (Some (s_numeric @ '' ('' @ s @ '')''), is_default))))))"

subsection \<open>The enum setter\<close>

text \<open>
  \<^verbatim>\<open>_gobject_property_get_gtype\<close> and \<^verbatim>\<open>_set_fcn_gobject_enum\<close>. The fields of
  \<^verbatim>\<open>gobject_enum\<close> that only the setter reads, \<^verbatim>\<open>value_infos\<close>, \<^verbatim>\<open>pre_set_notify\<close>,
  \<^verbatim>\<open>min\<close> and \<^verbatim>\<open>max\<close>, extend the record of the fields that the getter reads.
  \<^verbatim>\<open>pre_set_notify\<close> is given as the messages that it sends to the environment, which
  the setter returns beside its result. \<^verbatim>\<open>_nm_utils_enum_from_str_full\<close>,
  \<^verbatim>\<open>nm_utils_enum_get_values\<close> and \<^verbatim>\<open>nm_g_object_set_property\<close> are parameters.
  A property that the class does not have, and a type that is neither an enum nor a
  flags class, end the call at \<^verbatim>\<open>g_return_val_if_reached\<close>.
\<close>

record gobject_enum_typ_data_set = gobject_enum_typ_data +
  value_infos :: "(string \<times> int) list"
  pre_set_notify :: "(NMSetting \<Rightarrow> int \<Rightarrow> string list) option"
  enum_min :: int
  enum_max :: int

definition gobject_property_get_gtype :: "NMSetting \<Rightarrow> string \<Rightarrow> gtype option" where
  "gobject_property_get_gtype gobject prop_name =
     (case g_object_class_find_property gobject prop_name of
        Some param_spec \<Rightarrow> Some (value_type param_spec)
      | None \<Rightarrow> None)"

definition G_MININT :: int where "G_MININT = - (2 ^ 31)"

fun g_strjoinv :: "string \<Rightarrow> string list \<Rightarrow> string" where
  "g_strjoinv separator [] = []"
| "g_strjoinv separator [s] = s"
| "g_strjoinv separator (s # t # str_array) = s @ separator @ g_strjoinv separator (t # str_array)"

definition set_fcn_gobject_enum_fail ::
  "(gtype \<Rightarrow> int \<Rightarrow> int \<Rightarrow> string list) \<Rightarrow> gobject_enum_typ_data_set option \<Rightarrow> gtype \<Rightarrow> string
     \<Rightarrow> error" where
  "set_fcn_gobject_enum_fail nm_utils_enum_get_values typ_data gtype v =
     (let is_flags = G_IS_FLAGS_CLASS gtype;
          has_minmax = (case typ_data of
                          None \<Rightarrow> False
                        | Some td \<Rightarrow> enum_min td \<noteq> 0 \<or> enum_max td \<noteq> 0);
          min_max = (case typ_data of
                       None \<Rightarrow> (G_MININT, G_MAXINT32)
                     | Some td \<Rightarrow>
                         if enum_min td \<noteq> 0 \<or> enum_max td \<noteq> 0 then (enum_min td, enum_max td)
                         else (G_MININT, G_MAXINT32));
          min_max' = (if \<not> has_minmax \<and> is_flags then (0, int_cast G_MAXUINT32) else min_max);
          valid_str = g_strjoinv '','' (nm_utils_enum_get_values gtype (fst min_max') (snd min_max'))
      in if is_flags then InvalidOptionFlags v valid_str else InvalidOptionEnum v valid_str)"

definition set_fcn_gobject_enum ::
  "(gtype \<Rightarrow> string \<Rightarrow> (string \<times> int) list \<Rightarrow> int option) \<Rightarrow> (gtype \<Rightarrow> int \<Rightarrow> int \<Rightarrow> string list)
     \<Rightarrow> object_set_property \<Rightarrow> gobject_enum_typ_data_set option \<Rightarrow> string \<Rightarrow> NMSetting
     \<Rightarrow> string option \<Rightarrow> set_result \<times> string list" where
  "set_fcn_gobject_enum nm_utils_enum_from_str_full nm_utils_enum_get_values
       nm_g_object_set_property typ_data prop_name setting val =
     (case val of
        None \<Rightarrow> (gobject_property_reset_default setting prop_name, [])
      | Some v \<Rightarrow>
          (let gtype0 = (case typ_data of None \<Rightarrow> None | Some td \<Rightarrow> get_gtype td);
               gtype_prop = gobject_property_get_gtype setting prop_name;
               classed = (\<lambda>t. G_IS_FLAGS_CLASS t \<or> G_IS_ENUM_CLASS t);
               valid =
                 (case (gtype0, gtype_prop) of
                    (Some gtype, Some gp) \<Rightarrow>
                      if (gp = G_TYPE_INT \<or> gp = G_TYPE_UINT) \<and> classed gtype
                      then Some (gtype, gp) else None
                  | (None, Some gp) \<Rightarrow> if classed gp then Some (gp, gp) else None
                  | (_, None) \<Rightarrow> None)
           in case valid of
                None \<Rightarrow> ((Some ReturnValIfReached, setting), [])
              | Some (gtype, gp) \<Rightarrow>
                  (case nm_utils_enum_from_str_full gtype v
                          (case typ_data of None \<Rightarrow> [] | Some td \<Rightarrow> value_infos td) of
                     None \<Rightarrow>
                       ((Some (set_fcn_gobject_enum_fail nm_utils_enum_get_values typ_data gtype v),
                         setting), [])
                   | Some n \<Rightarrow>
                       (let warnings =
                              (case typ_data of
                                 None \<Rightarrow> []
                               | Some td \<Rightarrow>
                                   (case pre_set_notify td of
                                      None \<Rightarrow> []
                                    | Some notify \<Rightarrow> notify setting n));
                            gval =
                              (if gp = G_TYPE_INT then GInt n
                               else if gp = G_TYPE_UINT then GUInt (guint_cast n)
                               else if G_IS_FLAGS_CLASS gtype then GFlags (guint_cast n)
                               else GEnum n)
                        in case nm_g_object_set_property setting prop_name gval of
                             None \<Rightarrow>
                               ((Some (set_fcn_gobject_enum_fail nm_utils_enum_get_values
                                         typ_data gtype v),
                                 setting), warnings)
                           | Some setting' \<Rightarrow> ((None, setting'), warnings)))))"

subsection \<open>\<^verbatim>\<open>secret_flags_to_string\<close> and \<^verbatim>\<open>_get_fcn_gobject_secret_flags\<close>\<close>

text \<open>
  Modelled from the spec: \<^verbatim>\<open>NM_SETTING_SECRET_FLAG_AGENT_OWNED\<close>,
  \<^verbatim>\<open>NM_SETTING_SECRET_FLAG_NOT_SAVED\<close> and \<^verbatim>\<open>NM_SETTING_SECRET_FLAG_NOT_REQUIRED\<close> of
  libnm-core (not under src/): the bits 1, 2 and 4 of a secret-flags value.
\<close>

definition secret_flag_names :: "nat \<Rightarrow> string" where
  "secret_flag_names flags =
     (if odd flags then ''agent-owned, '' else [])
     @ (if odd (flags div 2) then ''not saved, '' else [])
     @ (if odd (flags div 4) then ''not required, '' else [])"

definition secret_flags_to_string ::
  "(string \<Rightarrow> string) \<Rightarrow> nat \<Rightarrow> NMMetaAccessorGetType \<Rightarrow> string" where
  "secret_flags_to_string tr flags get_type =
     (if get_type \<noteq> NM_META_ACCESSOR_GET_TYPE_PRETTY then string_of_nat flags
      else if flags = 0 then tr ''0 (none)''
      else (let names = secret_flag_names flags
            in string_of_nat flags @ '' (''
               @ (if names = [] then ''unknown'' else take (length names - 2) names)
               @ '')''))"

definition get_fcn_gobject_secret_flags :: "(string \<Rightarrow> string) \<Rightarrow> string \<Rightarrow> get_fcn_t" where
  "get_fcn_gobject_secret_flags tr prop_name setting get_type get_flags is_default0 =
     (if get_type \<noteq> NM_META_ACCESSOR_GET_TYPE_PARSABLE
         \<and> get_type \<noteq> NM_META_ACCESSOR_GET_TYPE_PRETTY
      then (None, is_default0)
      else (Some (secret_flags_to_string tr (flags_of_property setting prop_name) get_type),
            is_default0))"

subsection \<open>Instances of the list functions and of a setting\<close>

text \<open>
  Modelled from the spec: the element functions that libnm-core (not under src/)
  gives a list property, such as \<^verbatim>\<open>nm_setting_802_1x_get_num_eap_methods\<close>,
  \<^verbatim>\<open>nm_setting_802_1x_add_eap_method\<close>, \<^verbatim>\<open>nm_setting_802_1x_remove_eap_method\<close> and
  \<^verbatim>\<open>nm_setting_802_1x_remove_eap_method_by_value\<close>. The list is the value of the
  property; adding appends an item that is not in the list yet; removing by index
  deletes the element at the index; removing by value deletes the element equal to
  the value, if there is one.
\<close>

definition strv_elements :: "NMSetting \<Rightarrow> string \<Rightarrow> string list" where
  "strv_elements setting prop_name =
     (case props setting prop_name of GStrv (Some xs) \<Rightarrow> xs | _ \<Rightarrow> [])"

definition strv_store :: "NMSetting \<Rightarrow> string \<Rightarrow> string list \<Rightarrow> NMSetting" where
  "strv_store setting prop_name xs = g_object_set_property setting prop_name (GStrv (Some xs))"

definition strv_multilist :: "string \<Rightarrow> string list option \<Rightarrow> multilist_typ_data" where
  "strv_multilist prop_name allowed =
     \<lparr>values_static = allowed,
      get_num_fcn = (\<lambda>setting. length (strv_elements setting prop_name)),
      add_fcn = (\<lambda>setting item.
         if item \<in> set (strv_elements setting prop_name) then setting
         else strv_store setting prop_name (strv_elements setting prop_name @ [item])),
      remove_by_idx_fcn = (\<lambda>setting idx.
         strv_store setting prop_name
           (take idx (strv_elements setting prop_name)
            @ drop (Suc idx) (strv_elements setting prop_name))),
      remove_by_value_fcn = (\<lambda>setting v.
         strv_store setting prop_name (remove1 v (strv_elements setting prop_name)))\<rparr>"

text \<open>
  Modelled from the spec: \<^verbatim>\<open>nmc_string_is_valid\<close> of
  clients/common/nm-client-utils.c (not under src/), as the check of an item against
  a fixed set of values: an item of the set is accepted, any other refused.
\<close>

definition string_in_values :: string_is_valid where
  "string_in_values input allowed =
     (if input \<in> set allowed then Inr input else Inl (StringNotValid input))"

text \<open>\<^verbatim>\<open>g_object_new\<close>: an object of a class with the given properties, each at its
  default value.\<close>

definition new_setting :: "(string \<times> GParamSpec) list \<Rightarrow> NMSetting" where
  "new_setting class_properties =
     \<lparr>pspecs = map_of class_properties,
      props = (\<lambda>n. case map_of class_properties n of
                      Some pspec \<Rightarrow> default_value pspec
                    | None \<Rightarrow> GString None)\<rparr>"

definition setting_802_1x :: NMSetting where
  "setting_802_1x =
     new_setting [(''eap'', \<lparr>value_type = G_TYPE_STRV, default_value = GStrv None\<rparr>)]"

definition eap_typ_data :: multilist_typ_data where
  "eap_typ_data =
     strv_multilist ''eap''
       (Some [''leap'', ''md5'', ''tls'', ''peap'', ''ttls'', ''sim'', ''fast'', ''pwd''])"

definition setting_ip4_config :: NMSetting where
  "setting_ip4_config =
     new_setting
       [(''addresses'', \<lparr>value_type = G_TYPE_PTR_ARRAY, default_value = GPtrArray None\<rparr>),
        (''routes'', \<lparr>value_type = G_TYPE_PTR_ARRAY, default_value = GPtrArray None\<rparr>)]"

definition setting_connection :: NMSetting where
  "setting_connection =
     new_setting
       [(''uuid'', \<lparr>value_type = G_TYPE_STRING, default_value = GString None\<rparr>),
        (''type'', \<lparr>value_type = G_TYPE_STRING, default_value = GString None\<rparr>)]"

definition setting_flags :: NMSetting where
  "setting_flags =
     new_setting
       [(''phase1-auth-flags'', \<lparr>value_type = G_TYPE_UINT, default_value = GUInt 0\<rparr>),
        (''password-flags'', \<lparr>value_type = GFlagsType ''NMSettingSecretFlags'',
                              default_value = GFlags 0\<rparr>),
        (''password'', \<lparr>value_type = G_TYPE_STRING, default_value = GString None\<rparr>)]"

definition setting_ip_tunnel :: NMSetting where
  "setting_ip_tunnel =
     new_setting [(''flags'', \<lparr>value_type = G_TYPE_UINT, default_value = GUInt 0\<rparr>)]"

text \<open>
  The \<^verbatim>\<open>property_typ_data\<close> of the properties \<^verbatim>\<open>ip-tunnel.flags\<close> and
  \<^verbatim>\<open>802-1x.phase1-auth-flags\<close> in the property table: both give a flags type with
  \<^verbatim>\<open>get_gtype\<close>; the first has no \<^verbatim>\<open>typ_flags\<close>, the second asks for text in parsable
  mode only.
\<close>

definition ip_tunnel_flags_typ_data :: gobject_enum_typ_data where
  "ip_tunnel_flags_typ_data =
     \<lparr>typ_flags = {}, get_gtype = Some (GFlagsType ''NMIPTunnelFlags''), value_infos_get = []\<rparr>"

definition phase1_auth_flags_typ_data :: gobject_enum_typ_data where
  "phase1_auth_flags_typ_data =
     \<lparr>typ_flags = {NM_META_PROPERTY_TYP_FLAG_ENUM_GET_PARSABLE_TEXT},
      get_gtype = Some (GFlagsType ''NMSetting8021xAuthFlags''), value_infos_get = []\<rparr>"


text \<open>
  Modelled from the spec: the priority maps of a VLAN setting and the functions of
  libnm-core on them (not under src/). The maps of a type are the strings of the
  property; an item is a pair \<open>from:to\<close> of numbers, \<open>from\<close> at most 7 and \<open>to\<close> below
  \<open>2^32\<close> for the ingress map and the other way round for the egress map (the
  constants \<^verbatim>\<open>MAX_8021P_PRIO\<close> and \<^verbatim>\<open>MAX_SKB_PRIO\<close>), or \<open>from:*\<close> where the wildcard
  is allowed.
\<close>

definition setting_vlan :: NMSetting where
  "setting_vlan =
     new_setting
       [(''ingress-priority-map'', \<lparr>value_type = G_TYPE_STRV, default_value = GStrv None\<rparr>),
        (''egress-priority-map'', \<lparr>value_type = G_TYPE_STRV, default_value = GStrv None\<rparr>)]"

definition vlan_map_property :: "NMVlanPriorityMap \<Rightarrow> string" where
  "vlan_map_property map_type =
     (if map_type = NM_VLAN_INGRESS_MAP then NM_SETTING_VLAN_INGRESS_PRIORITY_MAP
      else NM_SETTING_VLAN_EGRESS_PRIORITY_MAP)"

definition vlan_map_item_ok :: "NMVlanPriorityMap \<Rightarrow> string \<Rightarrow> bool \<Rightarrow> bool" where
  "vlan_map_item_ok map_type item allow_wildcard_to =
     (case strchr_cut CHR '':'' item of
        None \<Rightarrow> False
      | Some (f, t) \<Rightarrow>
          f \<noteq> [] \<and> list_all g_ascii_isdigit f
          \<and> digits_value f \<le> (if map_type = NM_VLAN_INGRESS_MAP then 7 else G_MAXUINT32)
          \<and> ((allow_wildcard_to \<and> t = ''*'')
             \<or> (t \<noteq> [] \<and> list_all g_ascii_isdigit t
                \<and> digits_value t
                     \<le> (if map_type = NM_VLAN_INGRESS_MAP then G_MAXUINT32 else 7))))"

definition vlan_strv :: libnm_vlan where
  "vlan_strv =
     \<lparr>vlan_priority_map_parse_str = vlan_map_item_ok,
      vlan_get_num_priorities =
        (\<lambda>setting map_type. length (strv_elements setting (vlan_map_property map_type))),
      vlan_add_priority_str = (\<lambda>setting map_type item.
         strv_store setting (vlan_map_property map_type)
           (strv_elements setting (vlan_map_property map_type) @ [item])),
      vlan_remove_priority = (\<lambda>setting map_type idx.
         strv_store setting (vlan_map_property map_type)
           (take idx (strv_elements setting (vlan_map_property map_type))
            @ drop (Suc idx) (strv_elements setting (vlan_map_property map_type)))),
      vlan_remove_priority_str_by_value = (\<lambda>setting map_type v.
         strv_store setting (vlan_map_property map_type)
           (remove1 v (strv_elements setting (vlan_map_property map_type))))\<rparr>"

definition password_info :: "(string \<Rightarrow> string) \<Rightarrow> NMMetaPropertyInfo" where
  "password_info tr =
     \<lparr>property_name = ''password'', is_secret = True,
      get_fcn = get_fcn_gobject_impl tr ''password''\<rparr>"


subsection \<open>The claims' own words, for comparison with the code\<close>

text \<open>The default rendering policy of an enumeration property in a mode: no
  \<^verbatim>\<open>typ_flags\<close> that selects a rendering for that mode. The type whose names are
  printed: the one that \<^verbatim>\<open>get_gtype\<close> gives, else the type of the property.\<close>

definition enum_default_policy ::
  "gobject_enum_typ_data option \<Rightarrow> NMMetaAccessorGetType \<Rightarrow> bool" where
  "enum_default_policy typ_data get_type =
     (case typ_data of
        None \<Rightarrow> True
      | Some td \<Rightarrow>
          (if get_type = NM_META_ACCESSOR_GET_TYPE_PRETTY
           then typ_flags td \<inter>
                  {NM_META_PROPERTY_TYP_FLAG_ENUM_GET_PRETTY_NUMERIC,
                   NM_META_PROPERTY_TYP_FLAG_ENUM_GET_PRETTY_NUMERIC_HEX,
                   NM_META_PROPERTY_TYP_FLAG_ENUM_GET_PRETTY_TEXT,
                   NM_META_PROPERTY_TYP_FLAG_ENUM_GET_PRETTY_TEXT_L10N} = {}
           else typ_flags td \<inter>
                  {NM_META_PROPERTY_TYP_FLAG_ENUM_GET_PARSABLE_NUMERIC,
                   NM_META_PROPERTY_TYP_FLAG_ENUM_GET_PARSABLE_NUMERIC_HEX,
                   NM_META_PROPERTY_TYP_FLAG_ENUM_GET_PARSABLE_TEXT} = {}))"

definition enum_gtype :: "gobject_enum_typ_data option \<Rightarrow> gtype \<Rightarrow> gtype" where
  "enum_gtype typ_data vt =
     (case typ_data of
        None \<Rightarrow> vt
      | Some td \<Rightarrow> (case get_gtype td of None \<Rightarrow> vt | Some t \<Rightarrow> t))"

definition enum_value_infos :: "gobject_enum_typ_data option \<Rightarrow> (string \<times> int) list" where
  "enum_value_infos typ_data = (case typ_data of None \<Rightarrow> [] | Some td \<Rightarrow> value_infos_get td)"

text \<open>The classes of the tokens of a route after the destination.\<close>

definition route_token_is_next_hop :: "libnm \<Rightarrow> family \<Rightarrow> string \<Rightarrow> bool" where
  "route_token_is_next_hop L fam tok = nm_utils_ipaddr_valid L fam tok"

definition route_token_is_metric :: "libnm \<Rightarrow> family \<Rightarrow> string \<Rightarrow> bool" where
  "route_token_is_metric L fam tok =
     (\<not> nm_utils_ipaddr_valid L fam tok
      \<and> nm_utils_ascii_str_to_int64 tok 0 G_MAXUINT32 (- 1) \<noteq> - 1)"

definition route_token_is_attribute :: "libnm \<Rightarrow> family \<Rightarrow> string \<Rightarrow> bool" where
  "route_token_is_attribute L fam tok =
     (\<not> nm_utils_ipaddr_valid L fam tok
      \<and> nm_utils_ascii_str_to_int64 tok 0 G_MAXUINT32 (- 1) = - 1
      \<and> CHR ''='' \<in> set tok)"

text \<open>Removal from a list as the specification words it: a text that is an index
  below the element count removes by index, every other text removes by value.\<close>

definition claimed_remove_multilist ::
  "string_is_valid \<Rightarrow> multilist_typ_data \<Rightarrow> NMSetting \<Rightarrow> string \<Rightarrow> set_result" where
  "claimed_remove_multilist is_valid td setting val =
     (let by_value =
            (let v = nm_strstrip_avoid_copy val
             in case values_static td of
                  Some allowed \<Rightarrow>
                    (case is_valid v allowed of
                       Inl e \<Rightarrow> (Some e, setting)
                     | Inr v' \<Rightarrow> (None, remove_by_value_fcn td setting v'))
                | None \<Rightarrow> (None, remove_by_value_fcn td setting v))
      in case int_of_text val of
           Some i \<Rightarrow>
             if 0 \<le> i \<and> i < int (get_num_fcn td setting)
             then (None, remove_by_idx_fcn td setting (nat i))
             else by_value
         | None \<Rightarrow> by_value)"

section \<open>Theorems\<close>

subsection \<open>Reading integers\<close>

lemma str_to_int64_int_of_text:
  "nm_utils_ascii_str_to_int64 s lo hi fb =
     (case int_of_text s of None \<Rightarrow> fb | Some v \<Rightarrow> if v > hi \<or> v < lo then fb else v)"
  by (simp add: nm_utils_ascii_str_to_int64_def int_of_text_def Let_def
      split: option.splits prod.splits)

lemma int_of_text_bounds:
  assumes "int_of_text s = Some v"
  shows "G_MININT64 \<le> v \<and> v \<le> G_MAXINT64"
proof -
  obtain r where "g_ascii_strtoll (dropWhile g_ascii_isspace s) = Some (v, r)"
    using assms
    by (auto simp add: int_of_text_def Let_def split: if_splits option.splits prod.splits)
  then show ?thesis
    by (auto simp add: g_ascii_strtoll_def Let_def G_MININT64_def G_MAXINT64_def
        split: if_splits)
qed

subsection \<open>The address parser\<close>

lemma parse_ip_address_no_prefix:
  "strchr_cut CHR ''/'' (g_strstrip t) = None \<Longrightarrow>
   parse_ip_address L fam t =
     (if inet_pton_ok L fam (g_strstrip t)
      then Inr \<lparr>addr_family = fam, address = inet_ntop_form L fam (g_strstrip t),
                prefix = MAX_PREFIX fam\<rparr>
      else Inl (InvalidIPAddress (''Invalid IP address '' @ g_strstrip t)))"
  by (simp add: parse_ip_address_def nm_ip_address_new_def)

lemma parse_ip_address_with_prefix:
  "strchr_cut CHR ''/'' (g_strstrip t) = Some (ip, plen) \<Longrightarrow>
   parse_ip_address L fam t =
     (case int_of_text plen of
        None \<Rightarrow> Inl (InvalidPrefix plen (MAX_PREFIX fam))
      | Some v \<Rightarrow>
          if 1 \<le> v \<and> v \<le> int (MAX_PREFIX fam)
          then (if inet_pton_ok L fam ip
                then Inr \<lparr>addr_family = fam, address = inet_ntop_form L fam ip,
                          prefix = nat v\<rparr>
                else Inl (InvalidIPAddress (''Invalid IP address '' @ ip)))
          else Inl (InvalidPrefix plen (MAX_PREFIX fam)))"
  by (auto simp add: parse_ip_address_def nm_ip_address_new_def str_to_int64_int_of_text Let_def
      split: option.splits)

lemma parse_ip_address_v4_no_prefix:
  "parse_ip_address libnm_glibc AF_INET ''192.168.1.5'' =
     Inr \<lparr>addr_family = AF_INET, address = ''192.168.1.5'', prefix = 32\<rparr>"
  by code_simp

lemma parse_ip_address_v6_no_prefix:
  "parse_ip_address libnm_glibc AF_INET6 ''2001:db8::1'' =
     Inr \<lparr>addr_family = AF_INET6, address = ''2001:db8::1'', prefix = 128\<rparr>"
  by code_simp

lemma parse_ip_address_v4_prefix:
  "parse_ip_address libnm_glibc AF_INET ''10.0.0.0/24'' =
     Inr \<lparr>addr_family = AF_INET, address = ''10.0.0.0'', prefix = 24\<rparr>"
  by code_simp

text \<open>
  C9. The address parser reads \<open>ip[/prefix]\<close>. Without a prefix the address gets the
  maximum of its family, 32 for IPv4 and 128 for IPv6. With a prefix and a valid
  address, the text is accepted if and only if the prefix spells a number from 1 to
  that maximum, which is then the prefix of the result. A prefix outside this range
  gives the prefix error, an invalid address (with no prefix or a good one) gives
  the address error, and the two errors differ. The three examples of the
  specification are evaluated on the glibc instance.
\<close>

theorem parse_ip_address_prefix:
  "(strchr_cut CHR ''/'' (g_strstrip t) = None \<and> inet_pton_ok L fam (g_strstrip t) \<longrightarrow>
      parse_ip_address L fam t =
        Inr \<lparr>addr_family = fam, address = inet_ntop_form L fam (g_strstrip t),
             prefix = MAX_PREFIX fam\<rparr>)
   \<and> (strchr_cut CHR ''/'' (g_strstrip t) = Some (ip, plen) \<and> inet_pton_ok L fam ip \<longrightarrow>
        ((\<exists>a. parse_ip_address L fam t = Inr a) \<longleftrightarrow>
           (\<exists>v. int_of_text plen = Some v \<and> 1 \<le> v \<and> v \<le> int (MAX_PREFIX fam)))
        \<and> (\<forall>v. int_of_text plen = Some v \<and> 1 \<le> v \<and> v \<le> int (MAX_PREFIX fam) \<longrightarrow>
              parse_ip_address L fam t =
                Inr \<lparr>addr_family = fam, address = inet_ntop_form L fam ip, prefix = nat v\<rparr>))
   \<and> (strchr_cut CHR ''/'' (g_strstrip t) = Some (ip, plen)
        \<and> \<not> (\<exists>v. int_of_text plen = Some v \<and> 1 \<le> v \<and> v \<le> int (MAX_PREFIX fam)) \<longrightarrow>
        parse_ip_address L fam t = Inl (InvalidPrefix plen (MAX_PREFIX fam)))
   \<and> (strchr_cut CHR ''/'' (g_strstrip t) = None \<and> \<not> inet_pton_ok L fam (g_strstrip t) \<longrightarrow>
        (\<exists>msg. parse_ip_address L fam t = Inl (InvalidIPAddress msg)))
   \<and> (strchr_cut CHR ''/'' (g_strstrip t) = Some (ip, plen) \<and> \<not> inet_pton_ok L fam ip
        \<and> (\<exists>v. int_of_text plen = Some v \<and> 1 \<le> v \<and> v \<le> int (MAX_PREFIX fam)) \<longrightarrow>
        (\<exists>msg. parse_ip_address L fam t = Inl (InvalidIPAddress msg)))
   \<and> InvalidPrefix plen (MAX_PREFIX fam) \<noteq> InvalidIPAddress msg'
   \<and> MAX_PREFIX AF_INET = 32 \<and> MAX_PREFIX AF_INET6 = 128
   \<and> parse_ip_address libnm_glibc AF_INET ''192.168.1.5'' =
        Inr \<lparr>addr_family = AF_INET, address = ''192.168.1.5'', prefix = 32\<rparr>
   \<and> parse_ip_address libnm_glibc AF_INET6 ''2001:db8::1'' =
        Inr \<lparr>addr_family = AF_INET6, address = ''2001:db8::1'', prefix = 128\<rparr>
   \<and> parse_ip_address libnm_glibc AF_INET ''10.0.0.0/24'' =
        Inr \<lparr>addr_family = AF_INET, address = ''10.0.0.0'', prefix = 24\<rparr>"
proof -
  note ex = parse_ip_address_v4_no_prefix parse_ip_address_v6_no_prefix
    parse_ip_address_v4_prefix
  have no_slash: "strchr_cut CHR ''/'' (g_strstrip t) = None \<Longrightarrow> ?thesis"
    using ex by (simp add: parse_ip_address_no_prefix MAX_PREFIX_def)
  have slash: "strchr_cut CHR ''/'' (g_strstrip t) = Some (ip', plen') \<Longrightarrow> ?thesis"
    for ip' plen'
    using ex
    by (cases "int_of_text plen'")
      (auto simp add: parse_ip_address_with_prefix MAX_PREFIX_def split: if_splits)
  show ?thesis
  proof (cases "strchr_cut CHR ''/'' (g_strstrip t)")
    case None
    then show ?thesis by (rule no_slash)
  next
    case (Some q)
    then have "strchr_cut CHR ''/'' (g_strstrip t) = Some (fst q, snd q)" by simp
    then show ?thesis by (rule slash)
  qed
qed

theorem parse_ip_address_prefix_witness:
  "strchr_cut CHR ''/'' (g_strstrip '' 10.1.2.3/8 '') = Some (''10.1.2.3'', ''8'')
   \<and> inet_pton_ok libnm_glibc AF_INET ''10.1.2.3''
   \<and> int_of_text ''8'' = Some 8
   \<and> parse_ip_address libnm_glibc AF_INET '' 10.1.2.3/8 '' =
        Inr \<lparr>addr_family = AF_INET, address = ''10.1.2.3'', prefix = 8\<rparr>"
proof -
  have a: "strchr_cut CHR ''/'' (g_strstrip '' 10.1.2.3/8 '') = Some (''10.1.2.3'', ''8'')"
    by code_simp
  have b: "inet_pton_ok libnm_glibc AF_INET ''10.1.2.3''"
    by code_simp
  have c: "int_of_text ''8'' = Some 8"
    by code_simp
  have d: "inet_ntop_form libnm_glibc AF_INET ''10.1.2.3'' = ''10.1.2.3''"
    by code_simp
  from parse_ip_address_prefix [of " '' 10.1.2.3/8 ''" libnm_glibc AF_INET "''10.1.2.3''" "''8''"]
    a b c d
  show ?thesis by (simp add: MAX_PREFIX_def)
qed

subsection \<open>The route parser\<close>

lemma route_loop_order:
  "parse_ip_route_loop L fam toks (nh0, m0, at0) = Inr (nh, m, at) \<Longrightarrow>
   \<exists>hs ms as. toks = hs @ ms @ as
     \<and> (\<forall>t\<in>set hs. route_token_is_next_hop L fam t)
     \<and> (\<forall>t\<in>set ms. route_token_is_metric L fam t)
     \<and> (\<forall>t\<in>set as. route_token_is_attribute L fam t)
     \<and> (hs \<noteq> [] \<longrightarrow> m0 = - 1 \<and> at0 = None)
     \<and> (ms \<noteq> [] \<longrightarrow> at0 = None)
     \<and> nh = (if hs = [] then nh0 else Some (last hs))
     \<and> m = (if ms = [] then m0
            else nm_utils_ascii_str_to_int64 (last ms) 0 G_MAXUINT32 (- 1))
     \<and> (as = [] \<longrightarrow> at = at0) \<and> (as \<noteq> [] \<longrightarrow> at \<noteq> None)"
proof (induction toks arbitrary: nh0 m0 at0)
  case Nil
  then show ?case by simp
next
  case (Cons tok rest)
  let ?v = "nm_utils_ascii_str_to_int64 tok 0 G_MAXUINT32 (- 1)"
  show ?case
  proof (cases "nm_utils_ipaddr_valid L fam tok")
    case True
    with Cons.prems have st: "m0 = - 1" "at0 = None"
      and run: "parse_ip_route_loop L fam rest (Some tok, m0, at0) = Inr (nh, m, at)"
      by (auto split: if_splits)
    from Cons.IH [OF run] obtain hs ms as where r: "rest = hs @ ms @ as"
      and c: "\<forall>t\<in>set hs. route_token_is_next_hop L fam t"
        "\<forall>t\<in>set ms. route_token_is_metric L fam t"
        "\<forall>t\<in>set as. route_token_is_attribute L fam t"
      and o: "ms \<noteq> [] \<longrightarrow> at0 = None"
      and res: "nh = (if hs = [] then Some tok else Some (last hs))"
        "m = (if ms = [] then m0 else nm_utils_ascii_str_to_int64 (last ms) 0 G_MAXUINT32 (- 1))"
        "as = [] \<longrightarrow> at = at0" "as \<noteq> [] \<longrightarrow> at \<noteq> None"
      by blast
    have "tok # rest = (tok # hs) @ ms @ as" using r by simp
    moreover have "\<forall>t\<in>set (tok # hs). route_token_is_next_hop L fam t"
      using c True by (simp add: route_token_is_next_hop_def)
    moreover have "nh = (if tok # hs = [] then nh0 else Some (last (tok # hs)))"
      using res by simp
    ultimately show ?thesis using c o res st by blast
  next
    case False
    note not_hop = False
    show ?thesis
    proof (cases "?v \<noteq> - 1")
      case True
      with Cons.prems not_hop have st: "at0 = None"
        and run: "parse_ip_route_loop L fam rest (nh0, ?v, at0) = Inr (nh, m, at)"
        by (auto split: if_splits)
      from Cons.IH [OF run] obtain hs ms as where r: "rest = hs @ ms @ as"
        and c: "\<forall>t\<in>set hs. route_token_is_next_hop L fam t"
          "\<forall>t\<in>set ms. route_token_is_metric L fam t"
          "\<forall>t\<in>set as. route_token_is_attribute L fam t"
        and o: "hs \<noteq> [] \<longrightarrow> ?v = - 1 \<and> at0 = None"
        and res: "nh = (if hs = [] then nh0 else Some (last hs))"
          "m = (if ms = [] then ?v else nm_utils_ascii_str_to_int64 (last ms) 0 G_MAXUINT32 (- 1))"
          "as = [] \<longrightarrow> at = at0" "as \<noteq> [] \<longrightarrow> at \<noteq> None"
        by blast
      from o True have hs: "hs = []" by blast
      have "tok # rest = [] @ (tok # ms) @ as" using r hs by simp
      moreover have "\<forall>t\<in>set (tok # ms). route_token_is_metric L fam t"
        using c True not_hop by (simp add: route_token_is_metric_def)
      moreover have "m = (if tok # ms = [] then m0
          else nm_utils_ascii_str_to_int64 (last (tok # ms)) 0 G_MAXUINT32 (- 1))"
        using res by simp
      moreover have "nh = (if ([]::string list) = [] then nh0 else Some (last []))"
        using res hs by simp
      moreover have "\<forall>t\<in>set ([]::string list). route_token_is_next_hop L fam t" by simp
      ultimately show ?thesis using c res st by blast
    next
      case False
      then have v: "?v = - 1" by simp
      with Cons.prems not_hop obtain tmp attrs' where eq: "CHR ''='' \<in> set tok"
        and run: "parse_ip_route_loop L fam rest (nh0, m0, Some attrs') = Inr (nh, m, at)"
        by (auto split: if_splits sum.splits)
      from Cons.IH [OF run] obtain hs ms as where r: "rest = hs @ ms @ as"
        and c: "\<forall>t\<in>set as. route_token_is_attribute L fam t"
        and o: "hs \<noteq> [] \<longrightarrow> m0 = - 1 \<and> Some attrs' = None" "ms \<noteq> [] \<longrightarrow> Some attrs' = None"
        and res: "nh = (if hs = [] then nh0 else Some (last hs))"
          "m = (if ms = [] then m0 else nm_utils_ascii_str_to_int64 (last ms) 0 G_MAXUINT32 (- 1))"
          "as = [] \<longrightarrow> at = Some attrs'" "as \<noteq> [] \<longrightarrow> at \<noteq> None"
        by blast
      from o have e: "hs = []" "ms = []" by simp_all
      have "tok # rest = [] @ [] @ (tok # as)" using r e by simp
      moreover have "\<forall>t\<in>set (tok # as). route_token_is_attribute L fam t"
        using c v not_hop eq by (simp add: route_token_is_attribute_def)
      moreover have "nh = (if ([]::string list) = [] then nh0 else Some (last []))"
        "m = (if ([]::string list) = [] then m0
              else nm_utils_ascii_str_to_int64 (last []) 0 G_MAXUINT32 (- 1))"
        using res e by simp_all
      moreover have "tok # as \<noteq> [] \<longrightarrow> at \<noteq> None" using res by (cases as) auto
      moreover have "\<forall>t\<in>set ([]::string list). route_token_is_next_hop L fam t"
        "\<forall>t\<in>set ([]::string list). route_token_is_metric L fam t" by simp_all
      ultimately show ?thesis by blast
    qed
  qed
qed

lemma parse_ip_route_order:
  assumes "parse_ip_route L fam str = Inr r"
  shows "\<exists>dest0 hs ms as.
     nm_utils_strsplit_set (nm_strstrip_avoid_copy str) [CHR '' '', CHR 0x09]
       = Some (dest0 # hs @ ms @ as)
     \<and> (\<forall>t\<in>set hs. route_token_is_next_hop L fam t)
     \<and> (\<forall>t\<in>set ms. route_token_is_metric L fam t)
     \<and> (\<forall>t\<in>set as. route_token_is_attribute L fam t)
     \<and> next_hop r = (if hs = [] \<or> is_unspecified L fam (last hs) then None
                      else Some (inet_ntop_form L fam (last hs)))
     \<and> metric r = (if ms = [] then - 1
                    else nm_utils_ascii_str_to_int64 (last ms) 0 G_MAXUINT32 (- 1))"
proof -
  from assms obtain dest0 routev where
    sp: "nm_utils_strsplit_set (nm_strstrip_avoid_copy str) [CHR '' '', CHR 0x09]
           = Some (dest0 # routev)"
    by (auto simp add: parse_ip_route_def split: option.splits list.splits)
  from assms sp have "\<exists>nh m at dst pfx route.
      parse_ip_route_loop L fam routev (None, - 1, None) = Inr (nh, m, at)
      \<and> nm_ip_route_new L fam dst pfx nh m = Inr route
      \<and> r = route\<lparr>attributes := (case at of None \<Rightarrow> [] | Some a \<Rightarrow> a)\<rparr>"
    by (simp add: parse_ip_route_def Let_def
        split: option.splits list.splits sum.splits prod.splits if_splits) blast+
  then obtain nh m at dst pfx route where
    run: "parse_ip_route_loop L fam routev (None, - 1, None) = Inr (nh, m, at)"
    and route: "nm_ip_route_new L fam dst pfx nh m = Inr route"
    and r: "r = route\<lparr>attributes := (case at of None \<Rightarrow> [] | Some a \<Rightarrow> a)\<rparr>"
    by blast
  from route have nhr: "next_hop route =
      (case nh of None \<Rightarrow> None
       | Some h \<Rightarrow> if is_unspecified L fam h then None else Some (inet_ntop_form L fam h))"
    and mr: "metric route = m"
    by (auto simp add: nm_ip_route_new_def split: if_splits)
  from route_loop_order [OF run] obtain hs ms as where o: "routev = hs @ ms @ as"
    and c: "\<forall>t\<in>set hs. route_token_is_next_hop L fam t"
      "\<forall>t\<in>set ms. route_token_is_metric L fam t"
      "\<forall>t\<in>set as. route_token_is_attribute L fam t"
    and res: "nh = (if hs = [] then None else Some (last hs))"
      "m = (if ms = [] then - 1 else nm_utils_ascii_str_to_int64 (last ms) 0 G_MAXUINT32 (- 1))"
    by blast
  have "next_hop r = (if hs = [] \<or> is_unspecified L fam (last hs) then None
                      else Some (inet_ntop_form L fam (last hs)))"
    using r nhr res by simp
  moreover have "metric r = (if ms = [] then - 1
                    else nm_utils_ascii_str_to_int64 (last ms) 0 G_MAXUINT32 (- 1))"
    using r mr res by simp
  ultimately show ?thesis using sp o c by blast
qed

lemma parse_ip_route_hop_metric:
  "parse_ip_route libnm_glibc AF_INET ''192.168.2.0/24 192.168.2.1 3'' =
     Inr \<lparr>route_family = AF_INET, dest = ''192.168.2.0'', route_prefix = 24,
          next_hop = Some ''192.168.2.1'', metric = 3, attributes = []\<rparr>"
  by code_simp

lemma parse_ip_route_dest_only:
  "parse_ip_route libnm_glibc AF_INET ''10.1.2.0/24'' =
     Inr \<lparr>route_family = AF_INET, dest = ''10.1.2.0'', route_prefix = 24,
          next_hop = None, metric = - 1, attributes = []\<rparr>"
  by code_simp

lemma parse_ip_route_hop_after_metric:
  "parse_ip_route libnm_glibc AF_INET ''192.168.2.0/24 3 192.168.2.1'' =
     Inl (NextHopMustBeFirst ''192.168.2.1'')"
  by code_simp

lemma parse_ip_route_two_hops:
  "parse_ip_route libnm_glibc AF_INET ''10.0.0.0/8 10.0.0.1 10.0.0.2'' =
     Inr \<lparr>route_family = AF_INET, dest = ''10.0.0.0'', route_prefix = 8,
          next_hop = Some ''10.0.0.2'', metric = - 1, attributes = []\<rparr>"
  by code_simp

lemma route_two_hops_tokens:
  "nm_utils_strsplit_set (nm_strstrip_avoid_copy ''10.0.0.0/8 10.0.0.1 10.0.0.2'')
     [CHR '' '', CHR 0x09] = Some [''10.0.0.0/8'', ''10.0.0.1'', ''10.0.0.2'']"
  by code_simp

lemma route_two_hops_first:
  "find (nm_utils_ipaddr_valid libnm_glibc AF_INET) [''10.0.0.1'', ''10.0.0.2''] = Some ''10.0.0.1''"
  by code_simp

text \<open>
  C5, as the specification states it, makes the next hop the first token after the
  destination that is a valid address. The code keeps the last one of several:
  \<open>10.0.0.0/8 10.0.0.1 10.0.0.2\<close> is accepted with next hop \<open>10.0.0.2\<close>.
\<close>

theorem parse_ip_route_first_hop_counterexample:
  "\<not> (\<forall>str r dest0 toks.
        parse_ip_route libnm_glibc AF_INET str = Inr r
        \<and> nm_utils_strsplit_set (nm_strstrip_avoid_copy str) [CHR '' '', CHR 0x09]
            = Some (dest0 # toks)
        \<longrightarrow> next_hop r = find (nm_utils_ipaddr_valid libnm_glibc AF_INET) toks)"
proof
  assume a: "\<forall>str r dest0 toks.
        parse_ip_route libnm_glibc AF_INET str = Inr r
        \<and> nm_utils_strsplit_set (nm_strstrip_avoid_copy str) [CHR '' '', CHR 0x09]
            = Some (dest0 # toks)
        \<longrightarrow> next_hop r = find (nm_utils_ipaddr_valid libnm_glibc AF_INET) toks"
  have "next_hop \<lparr>route_family = AF_INET, dest = ''10.0.0.0'', route_prefix = 8,
          next_hop = Some ''10.0.0.2'', metric = - 1, attributes = []\<rparr>
        = find (nm_utils_ipaddr_valid libnm_glibc AF_INET) [''10.0.0.1'', ''10.0.0.2'']"
    using a parse_ip_route_two_hops route_two_hops_tokens by blast
  then have "next_hop \<lparr>route_family = AF_INET, dest = ''10.0.0.0'', route_prefix = 8,
          next_hop = Some ''10.0.0.2'', metric = - 1, attributes = []\<rparr> = Some ''10.0.0.1''"
    by (simp only: route_two_hops_first)
  then show False
    by simp
qed

text \<open>
  C5, amended. When the route parser accepts a text, the tokens after the destination
  are, in this order, any number of valid addresses of the family, then any number
  of integers from 0 to 4294967295, then tokens that contain \<open>=\<close> (the attributes); so a
  next hop or a metric after an attribute, and a next hop after a metric, is a parse
  error. The next hop of the route is the last address token (unset when there is
  none), its metric the last integer token (-1 when there is none). The three
  examples of the specification are evaluated on the glibc instance.
\<close>

theorem parse_ip_route_token_order:
  "(parse_ip_route L fam str = Inr r \<longrightarrow>
      (\<exists>dest0 hs ms as.
         nm_utils_strsplit_set (nm_strstrip_avoid_copy str) [CHR '' '', CHR 0x09]
           = Some (dest0 # hs @ ms @ as)
         \<and> (\<forall>t\<in>set hs. route_token_is_next_hop L fam t)
         \<and> (\<forall>t\<in>set ms. route_token_is_metric L fam t)
         \<and> (\<forall>t\<in>set as. route_token_is_attribute L fam t)
         \<and> next_hop r = (if hs = [] \<or> is_unspecified L fam (last hs) then None
                          else Some (inet_ntop_form L fam (last hs)))
         \<and> metric r = (if ms = [] then - 1
                        else nm_utils_ascii_str_to_int64 (last ms) 0 G_MAXUINT32 (- 1))))
   \<and> parse_ip_route libnm_glibc AF_INET ''192.168.2.0/24 192.168.2.1 3'' =
       Inr \<lparr>route_family = AF_INET, dest = ''192.168.2.0'', route_prefix = 24,
            next_hop = Some ''192.168.2.1'', metric = 3, attributes = []\<rparr>
   \<and> parse_ip_route libnm_glibc AF_INET ''10.1.2.0/24'' =
       Inr \<lparr>route_family = AF_INET, dest = ''10.1.2.0'', route_prefix = 24,
            next_hop = None, metric = - 1, attributes = []\<rparr>
   \<and> parse_ip_route libnm_glibc AF_INET ''192.168.2.0/24 3 192.168.2.1'' =
       Inl (NextHopMustBeFirst ''192.168.2.1'')"
  using parse_ip_route_order [of L fam str r] parse_ip_route_hop_metric
    parse_ip_route_dest_only parse_ip_route_hop_after_metric
  by blast

theorem parse_ip_route_token_order_witness:
  "parse_ip_route libnm_glibc AF_INET ''10.0.0.0/8 10.0.0.1 10.0.0.2''
     = Inr \<lparr>route_family = AF_INET, dest = ''10.0.0.0'', route_prefix = 8,
            next_hop = Some ''10.0.0.2'', metric = - 1, attributes = []\<rparr>
   \<and> (\<exists>dest0 hs ms as.
         nm_utils_strsplit_set (nm_strstrip_avoid_copy ''10.0.0.0/8 10.0.0.1 10.0.0.2'')
           [CHR '' '', CHR 0x09] = Some (dest0 # hs @ ms @ as)
         \<and> Some ''10.0.0.2'' = (if hs = [] \<or> is_unspecified libnm_glibc AF_INET (last hs)
                                  then None
                                  else Some (inet_ntop_form libnm_glibc AF_INET (last hs))))"
proof -
  have p: "parse_ip_route libnm_glibc AF_INET ''10.0.0.0/8 10.0.0.1 10.0.0.2''
     = Inr \<lparr>route_family = AF_INET, dest = ''10.0.0.0'', route_prefix = 8,
            next_hop = Some ''10.0.0.2'', metric = - 1, attributes = []\<rparr>"
    by (rule parse_ip_route_two_hops)
  from parse_ip_route_token_order [of libnm_glibc AF_INET "''10.0.0.0/8 10.0.0.1 10.0.0.2''"
      "\<lparr>route_family = AF_INET, dest = ''10.0.0.0'', route_prefix = 8,
            next_hop = Some ''10.0.0.2'', metric = - 1, attributes = []\<rparr>"] p
  obtain dest0 hs ms as where
    "nm_utils_strsplit_set (nm_strstrip_avoid_copy ''10.0.0.0/8 10.0.0.1 10.0.0.2'')
           [CHR '' '', CHR 0x09] = Some (dest0 # hs @ ms @ as)"
    "Some ''10.0.0.2'' = (if hs = [] \<or> is_unspecified libnm_glibc AF_INET (last hs)
                                  then None
                                  else Some (inet_ntop_form libnm_glibc AF_INET (last hs)))"
    by auto
  with p show ?thesis by blast
qed

subsection \<open>The DCB array\<close>













subsection \<open>Removing from a list\<close>

lemma str_to_int64_index:
  assumes "int_of_text val = Some i" "0 \<le> i"
  shows "nm_utils_ascii_str_to_int64 val 0 G_MAXINT64 (- 1) = i"
proof -
  have "i \<le> G_MAXINT64" using int_of_text_bounds [OF assms(1)] by simp
  then show ?thesis using assms by (simp add: str_to_int64_int_of_text)
qed

lemma str_to_int64_no_index:
  assumes "int_of_text val = None \<or> (\<exists>j. int_of_text val = Some j \<and> j < 0)"
  shows "nm_utils_ascii_str_to_int64 val 0 G_MAXINT64 (- 1) = - 1"
  using assms by (auto simp add: str_to_int64_int_of_text)

lemma remove_fcn_multilist_index:
  assumes "int_of_text val = Some i" "0 \<le> i"
  shows "remove_fcn_multilist iv td setting val =
     (if i < int (get_num_fcn td setting) then (None, remove_by_idx_fcn td setting (nat i))
      else (None, setting))"
  using str_to_int64_index [OF assms] assms(2) by (simp add: remove_fcn_multilist_def Let_def)

lemma remove_fcn_multilist_value:
  assumes "int_of_text val = None \<or> (\<exists>j. int_of_text val = Some j \<and> j < 0)"
  shows "remove_fcn_multilist iv td setting val =
     (case values_static td of
        None \<Rightarrow> (None, remove_by_value_fcn td setting (nm_strstrip_avoid_copy val))
      | Some allowed \<Rightarrow>
          (case iv (nm_strstrip_avoid_copy val) allowed of
             Inl e \<Rightarrow> (Some e, setting)
           | Inr v' \<Rightarrow> (None, remove_by_value_fcn td setting v')))"
  using str_to_int64_no_index [OF assms]
  by (simp add: remove_fcn_multilist_def Let_def split: option.splits)

lemma remover_index_or_value_index:
  assumes "int_of_text val = Some i" "0 \<le> i"
  shows "remover_index_or_value num ridx cmd setting val =
     (if i < int (num setting) then (None, ridx setting (nat i)) else (None, setting))"
  using str_to_int64_index [OF assms] assms(2) by (simp add: remover_index_or_value_def Let_def)

lemma remover_index_or_value_value:
  assumes "int_of_text val = None \<or> (\<exists>j. int_of_text val = Some j \<and> j < 0)"
  shows "remover_index_or_value num ridx cmd setting val = cmd setting val"
  using str_to_int64_no_index [OF assms] by (simp add: remover_index_or_value_def Let_def)

lemma remover_validating_value:
  assumes "int_of_text val = None \<or> (\<exists>j. int_of_text val = Some j \<and> j < 0)"
  shows "remover_index_or_value_validating num ridx rval setting val
           = rval setting (nm_strstrip_avoid_copy val)"
  by (simp add: remover_index_or_value_validating_def remover_index_or_value_value [OF assms])

lemma remover_direct_value:
  assumes "int_of_text val = None \<or> (\<exists>j. int_of_text val = Some j \<and> j < 0)"
  shows "remover_index_or_value_direct iv vs num ridx rdir setting val =
     (case vs of
        None \<Rightarrow> (None, rdir setting (nm_strstrip_avoid_copy val))
      | Some allowed \<Rightarrow>
          (case iv (nm_strstrip_avoid_copy val) allowed of
             Inl e \<Rightarrow> (Some e, setting)
           | Inr v' \<Rightarrow> (None, rdir setting v')))"
  by (simp add: remover_index_or_value_direct_def remover_index_or_value_value [OF assms]
      Let_def split: option.splits)

lemma remove_fcn_vlan_index:
  assumes "int_of_text val = Some i" "0 \<le> i"
  shows "remove_fcn_vlan_xgress_priority_map V pn setting val =
     (if i < int (vlan_get_num_priorities V setting (vlan_priority_map_type_from_property_info pn))
      then (None, vlan_remove_priority V setting
                    (vlan_priority_map_type_from_property_info pn) (nat i))
      else (None, setting))"
  using str_to_int64_index [OF assms] assms(2)
  by (simp add: remove_fcn_vlan_xgress_priority_map_def Let_def)

lemma remove_fcn_vlan_value:
  assumes "int_of_text val = None \<or> (\<exists>j. int_of_text val = Some j \<and> j < 0)"
  shows "remove_fcn_vlan_xgress_priority_map V pn setting val =
     (case parse_vlan_priority_maps V val (vlan_priority_map_type_from_property_info pn) True of
        Inl e \<Rightarrow> (Some e, setting)
      | Inr prio_map \<Rightarrow>
          (None, foldl (\<lambda>s p. vlan_remove_priority_str_by_value V s
                                 (vlan_priority_map_type_from_property_info pn) p)
                   setting prio_map))"
  using str_to_int64_no_index [OF assms]
  by (simp add: remove_fcn_vlan_xgress_priority_map_def Let_def)

lemma remove_by_index_example:
  "fst (remove_fcn_multilist string_in_values (strv_multilist ''eap'' None)
          (strv_store setting_802_1x ''eap'' [''a'', ''b'', ''c'']) ''1'') = None
   \<and> strv_elements
        (snd (remove_fcn_multilist string_in_values (strv_multilist ''eap'' None)
                (strv_store setting_802_1x ''eap'' [''a'', ''b'', ''c'']) ''1'')) ''eap''
       = [''a'', ''c'']"
  by code_simp

lemma remove_by_value_example:
  "fst (remove_fcn_multilist string_in_values (strv_multilist ''eap'' None)
          (strv_store setting_802_1x ''eap'' [''a'', ''b'', ''c'']) ''z'') = None
   \<and> strv_elements
        (snd (remove_fcn_multilist string_in_values (strv_multilist ''eap'' None)
                (strv_store setting_802_1x ''eap'' [''a'', ''b'', ''c'']) ''z'')) ''eap''
       = [''a'', ''b'', ''c'']"
  by code_simp

lemma remove_number_example:
  "strv_elements
     (snd (remove_fcn_multilist string_in_values (strv_multilist ''eap'' None)
             (strv_store setting_802_1x ''eap'' [''a'', ''7'', ''c'']) ''7'')) ''eap''
     = [''a'', ''7'', ''c'']
   \<and> strv_elements
       (snd (claimed_remove_multilist string_in_values (strv_multilist ''eap'' None)
               (strv_store setting_802_1x ''eap'' [''a'', ''7'', ''c'']) ''7'')) ''eap''
     = [''a'', ''c'']"
  by code_simp

lemma remove_vlan_maps_example:
  "fst (remove_fcn_vlan_xgress_priority_map vlan_strv ''ingress-priority-map''
          (strv_store setting_vlan ''ingress-priority-map'' [''1:2'', ''3:4'', ''5:6''])
          ''1:2,3:4'') = None
   \<and> strv_elements
       (snd (remove_fcn_vlan_xgress_priority_map vlan_strv ''ingress-priority-map''
               (strv_store setting_vlan ''ingress-priority-map'' [''1:2'', ''3:4'', ''5:6''])
               ''1:2,3:4'')) ''ingress-priority-map''
     = [''5:6'']"
  by code_simp

lemma remove_vlan_maps_claimed_example:
  "strv_elements
     (snd (claimed_remove_multilist string_in_values
             (strv_multilist ''ingress-priority-map'' None)
             (strv_store setting_vlan ''ingress-priority-map'' [''1:2'', ''3:4'', ''5:6''])
             ''1:2,3:4'')) ''ingress-priority-map''
     = [''1:2'', ''3:4'', ''5:6'']"
  by code_simp

text \<open>
  C4, as the specification states it, removes by value for every text that is not
  an index below the element count, and removes the one element equal to the text.
  The code takes every text that spells a non-negative integer as an index, and
  removes nothing when the index is not below the count: on the list \<open>a, 7, c\<close> the
  text \<open>7\<close> leaves the list as it is, where the claim removes the element \<open>7\<close>. The
  remover of the VLAN priority maps reads any other text as a list of maps: on the
  maps \<open>1:2, 3:4, 5:6\<close> the text \<open>1:2,3:4\<close> removes two maps, where the claim finds no
  element equal to the text.
\<close>

theorem remove_fcn_multilist_number_counterexample:
  "strv_elements
     (snd (remove_fcn_multilist string_in_values (strv_multilist ''eap'' None)
             (strv_store setting_802_1x ''eap'' [''a'', ''7'', ''c'']) ''7'')) ''eap''
     = [''a'', ''7'', ''c'']
   \<and> strv_elements
       (snd (claimed_remove_multilist string_in_values (strv_multilist ''eap'' None)
               (strv_store setting_802_1x ''eap'' [''a'', ''7'', ''c'']) ''7'')) ''eap''
     = [''a'', ''c'']
   \<and> strv_elements
       (snd (remove_fcn_vlan_xgress_priority_map vlan_strv ''ingress-priority-map''
               (strv_store setting_vlan ''ingress-priority-map'' [''1:2'', ''3:4'', ''5:6''])
               ''1:2,3:4'')) ''ingress-priority-map''
     = [''5:6'']
   \<and> strv_elements
       (snd (claimed_remove_multilist string_in_values
               (strv_multilist ''ingress-priority-map'' None)
               (strv_store setting_vlan ''ingress-priority-map'' [''1:2'', ''3:4'', ''5:6''])
               ''1:2,3:4'')) ''ingress-priority-map''
     = [''1:2'', ''3:4'', ''5:6'']"
  using remove_number_example remove_vlan_maps_example remove_vlan_maps_claimed_example
  by (intro conjI) blast+

text \<open>
  C4, amended. For every list property (the remover \<^verbatim>\<open>_remove_fcn_multilist\<close>, every
  remover made with \<^verbatim>\<open>_DEFINE_REMOVER_INDEX_OR_VALUE\<close>, and the remover of the VLAN
  priority maps), a text that spells a non-negative integer is an index: below the
  element count it removes the element at that index, otherwise nothing is removed,
  and both succeed. Any other text is handled by value.
  \<^item> \<^verbatim>\<open>_remove_fcn_multilist\<close> and the \<^verbatim>\<open>DIRECT\<close> removers strip the text of surrounding
    white space, check it against the fixed values of the property when it has them
    (a text outside them is an error and removes nothing), and call the removal by
    value of the property.
  \<^item> The \<^verbatim>\<open>VALIDATING\<close> and \<^verbatim>\<open>COMPLEX\<close> removers strip the text and hand it to the
    function of the property that validates and removes: a text that the validation
    or the parser of the property refuses is an error and removes nothing, any other
    is removed by value (an SR-IOV VF by the index of the parsed VF).
  \<^item> The remover of the VLAN priority maps splits the text at the commas and
    validates every item, allowing the wildcard: an invalid item is an error and
    removes nothing, otherwise every item is removed by value.

  A removal by value succeeds whether or not an element matches. On \<open>a, b, c\<close> the
  text \<open>1\<close> leaves \<open>a, c\<close> and the text \<open>z\<close> leaves the list as it is.
\<close>

theorem remove_fcn_index_or_value:
  "(int_of_text val = Some i \<and> 0 \<le> i \<longrightarrow>
      remove_fcn_multilist iv td setting val =
        (if i < int (get_num_fcn td setting) then (None, remove_by_idx_fcn td setting (nat i))
         else (None, setting))
      \<and> remover_index_or_value num ridx cmd setting val =
          (if i < int (num setting) then (None, ridx setting (nat i)) else (None, setting))
      \<and> remover_index_or_value_validating num ridx rval setting val =
          (if i < int (num setting) then (None, ridx setting (nat i)) else (None, setting))
      \<and> remover_index_or_value_direct iv vs num ridx rdir setting val =
          (if i < int (num setting) then (None, ridx setting (nat i)) else (None, setting))
      \<and> remove_fcn_vlan_xgress_priority_map V pn setting val =
          (if i < int (vlan_get_num_priorities V setting
                         (vlan_priority_map_type_from_property_info pn))
           then (None, vlan_remove_priority V setting
                         (vlan_priority_map_type_from_property_info pn) (nat i))
           else (None, setting)))
   \<and> (int_of_text val = None \<or> (\<exists>j. int_of_text val = Some j \<and> j < 0) \<longrightarrow>
        remove_fcn_multilist iv td setting val =
          (case values_static td of
             None \<Rightarrow> (None, remove_by_value_fcn td setting (nm_strstrip_avoid_copy val))
           | Some allowed \<Rightarrow>
               (case iv (nm_strstrip_avoid_copy val) allowed of
                  Inl e \<Rightarrow> (Some e, setting)
                | Inr v' \<Rightarrow> (None, remove_by_value_fcn td setting v')))
        \<and> remover_index_or_value_direct iv vs num ridx rdir setting val =
            (case vs of
               None \<Rightarrow> (None, rdir setting (nm_strstrip_avoid_copy val))
             | Some allowed \<Rightarrow>
                 (case iv (nm_strstrip_avoid_copy val) allowed of
                    Inl e \<Rightarrow> (Some e, setting)
                  | Inr v' \<Rightarrow> (None, rdir setting v')))
        \<and> remover_index_or_value_validating num ridx rval setting val
            = rval setting (nm_strstrip_avoid_copy val)
        \<and> remover_index_or_value_validating num ridx
              (validate_and_remove_connection_secondary is_uuid rem_text) setting val =
            (if is_uuid (nm_strstrip_avoid_copy val)
             then (None, rem_text setting (nm_strstrip_avoid_copy val))
             else (Some (NotAValidUUID (nm_strstrip_avoid_copy val)), setting))
        \<and> remover_index_or_value_validating num ridx
              (validate_and_remove_ip_dns get_family parse_inaddr rem_text) setting val =
            (if parse_inaddr (get_family setting) (nm_strstrip_avoid_copy val)
             then (None, rem_text setting (nm_strstrip_avoid_copy val))
             else (Some (InvalidIPvAddress (get_family setting) (nm_strstrip_avoid_copy val)),
                   setting))
        \<and> remover_index_or_value_validating num ridx
              (validate_and_remove_wired_mac_blacklist_item hwaddr_ok rem_text) setting val =
            (if hwaddr_ok (nm_strstrip_avoid_copy val)
             then (None, rem_text setting (nm_strstrip_avoid_copy val))
             else (Some (NotAValidMACAddress (nm_strstrip_avoid_copy val)), setting))
        \<and> remover_index_or_value_validating num ridx
              (validate_and_remove_wifi_mac_blacklist_item hwaddr_ok rem_text) setting val =
            (if hwaddr_ok (nm_strstrip_avoid_copy val)
             then (None, rem_text setting (nm_strstrip_avoid_copy val))
             else (Some (NotAValidMACAddress (nm_strstrip_avoid_copy val)), setting))
        \<and> remover_index_or_value_validating num ridx
              (validate_and_remove_ip_address L get_family rem_address) setting val =
            (case parse_ip_address L (get_family setting) (nm_strstrip_avoid_copy val) of
               Inl e \<Rightarrow> (Some e, setting)
             | Inr addr \<Rightarrow> (None, rem_address setting addr))
        \<and> remover_index_or_value_validating num ridx
              (validate_and_remove_ipv4_route L rem_route) setting val =
            (case parse_ip_route L AF_INET (nm_strstrip_avoid_copy val) of
               Inl e \<Rightarrow> (Some e, setting)
             | Inr route \<Rightarrow> (None, rem_route setting route))
        \<and> remover_index_or_value_validating num ridx
              (validate_and_remove_ipv6_route L rem_route) setting val =
            (case parse_ip_route L AF_INET6 (nm_strstrip_avoid_copy val) of
               Inl e \<Rightarrow> (Some e, setting)
             | Inr route \<Rightarrow> (None, rem_route setting route))
        \<and> remover_index_or_value_validating num ridx
              (validate_and_remove_sriov_vf vf_from_str vf_get_index rem_vf_by_index)
              setting val =
            (case vf_from_str (nm_strstrip_avoid_copy val) of
               Inl e \<Rightarrow> (Some e, setting)
             | Inr vf \<Rightarrow> (None, rem_vf_by_index setting (vf_get_index vf)))
        \<and> remover_index_or_value_validating num ridx
              (validate_and_remove_tc_qdisc qdisc_from_str rem_qdisc) setting val =
            (case qdisc_from_str (nm_strstrip_avoid_copy val) of
               Inl e \<Rightarrow> (Some e, setting)
             | Inr qdisc \<Rightarrow> (None, rem_qdisc setting qdisc))
        \<and> remover_index_or_value_validating num ridx
              (validate_and_remove_tc_tfilter tfilter_from_str rem_tfilter) setting val =
            (case tfilter_from_str (nm_strstrip_avoid_copy val) of
               Inl e \<Rightarrow> (Some e, setting)
             | Inr tfilter \<Rightarrow> (None, rem_tfilter setting tfilter))
        \<and> remover_index_or_value_validating num ridx
              (validate_and_remove_team_link_watcher C rem_watcher) setting val =
            (case parse_team_link_watcher C (nm_strstrip_avoid_copy val) of
               Inl e \<Rightarrow> (Some e, setting)
             | Inr watcher \<Rightarrow> (None, rem_watcher setting watcher))
        \<and> remover_index_or_value_validating num ridx
              (validate_and_remove_team_port_link_watcher C rem_watcher) setting val =
            (case parse_team_link_watcher C (nm_strstrip_avoid_copy val) of
               Inl e \<Rightarrow> (Some e, setting)
             | Inr watcher \<Rightarrow> (None, rem_watcher setting watcher))
        \<and> remove_fcn_vlan_xgress_priority_map V pn setting val =
            (case parse_vlan_priority_maps V val
                    (vlan_priority_map_type_from_property_info pn) True of
               Inl e \<Rightarrow> (Some e, setting)
             | Inr prio_map \<Rightarrow>
                 (None, foldl (\<lambda>s p. vlan_remove_priority_str_by_value V s
                                        (vlan_priority_map_type_from_property_info pn) p)
                          setting prio_map)))
   \<and> fst (remove_fcn_multilist string_in_values (strv_multilist ''eap'' None)
          (strv_store setting_802_1x ''eap'' [''a'', ''b'', ''c'']) ''1'') = None
   \<and> strv_elements
        (snd (remove_fcn_multilist string_in_values (strv_multilist ''eap'' None)
                (strv_store setting_802_1x ''eap'' [''a'', ''b'', ''c'']) ''1'')) ''eap''
       = [''a'', ''c'']
   \<and> fst (remove_fcn_multilist string_in_values (strv_multilist ''eap'' None)
          (strv_store setting_802_1x ''eap'' [''a'', ''b'', ''c'']) ''z'') = None
   \<and> strv_elements
        (snd (remove_fcn_multilist string_in_values (strv_multilist ''eap'' None)
                (strv_store setting_802_1x ''eap'' [''a'', ''b'', ''c'']) ''z'')) ''eap''
       = [''a'', ''b'', ''c'']"
proof -
  have a: "int_of_text val = Some i \<and> 0 \<le> i \<longrightarrow>
      remove_fcn_multilist iv td setting val =
        (if i < int (get_num_fcn td setting) then (None, remove_by_idx_fcn td setting (nat i))
         else (None, setting))
      \<and> remover_index_or_value num ridx cmd setting val =
          (if i < int (num setting) then (None, ridx setting (nat i)) else (None, setting))
      \<and> remover_index_or_value_validating num ridx rval setting val =
          (if i < int (num setting) then (None, ridx setting (nat i)) else (None, setting))
      \<and> remover_index_or_value_direct iv vs num ridx rdir setting val =
          (if i < int (num setting) then (None, ridx setting (nat i)) else (None, setting))
      \<and> remove_fcn_vlan_xgress_priority_map V pn setting val =
          (if i < int (vlan_get_num_priorities V setting
                         (vlan_priority_map_type_from_property_info pn))
           then (None, vlan_remove_priority V setting
                         (vlan_priority_map_type_from_property_info pn) (nat i))
           else (None, setting))"
    by (simp add: remove_fcn_multilist_index remover_index_or_value_index
        remove_fcn_vlan_index remover_index_or_value_validating_def
        remover_index_or_value_direct_def)
  have b: "int_of_text val = None \<or> (\<exists>j. int_of_text val = Some j \<and> j < 0) \<longrightarrow>
        remove_fcn_multilist iv td setting val =
          (case values_static td of
             None \<Rightarrow> (None, remove_by_value_fcn td setting (nm_strstrip_avoid_copy val))
           | Some allowed \<Rightarrow>
               (case iv (nm_strstrip_avoid_copy val) allowed of
                  Inl e \<Rightarrow> (Some e, setting)
                | Inr v' \<Rightarrow> (None, remove_by_value_fcn td setting v')))
        \<and> remover_index_or_value_direct iv vs num ridx rdir setting val =
            (case vs of
               None \<Rightarrow> (None, rdir setting (nm_strstrip_avoid_copy val))
             | Some allowed \<Rightarrow>
                 (case iv (nm_strstrip_avoid_copy val) allowed of
                    Inl e \<Rightarrow> (Some e, setting)
                  | Inr v' \<Rightarrow> (None, rdir setting v')))
        \<and> remover_index_or_value_validating num ridx rval setting val
            = rval setting (nm_strstrip_avoid_copy val)
        \<and> remove_fcn_vlan_xgress_priority_map V pn setting val =
            (case parse_vlan_priority_maps V val
                    (vlan_priority_map_type_from_property_info pn) True of
               Inl e \<Rightarrow> (Some e, setting)
             | Inr prio_map \<Rightarrow>
                 (None, foldl (\<lambda>s p. vlan_remove_priority_str_by_value V s
                                        (vlan_priority_map_type_from_property_info pn) p)
                          setting prio_map))"
    using remove_fcn_multilist_value [of val iv td setting]
      remover_direct_value [of val iv vs num ridx rdir setting]
      remover_validating_value [of val num ridx rval setting]
      remove_fcn_vlan_value [of val V pn setting]
    by blast
  have c: "int_of_text val = None \<or> (\<exists>j. int_of_text val = Some j \<and> j < 0) \<longrightarrow>
        remover_index_or_value_validating num ridx
              (validate_and_remove_connection_secondary is_uuid rem_text) setting val =
            (if is_uuid (nm_strstrip_avoid_copy val)
             then (None, rem_text setting (nm_strstrip_avoid_copy val))
             else (Some (NotAValidUUID (nm_strstrip_avoid_copy val)), setting))
        \<and> remover_index_or_value_validating num ridx
              (validate_and_remove_ip_dns get_family parse_inaddr rem_text) setting val =
            (if parse_inaddr (get_family setting) (nm_strstrip_avoid_copy val)
             then (None, rem_text setting (nm_strstrip_avoid_copy val))
             else (Some (InvalidIPvAddress (get_family setting) (nm_strstrip_avoid_copy val)),
                   setting))
        \<and> remover_index_or_value_validating num ridx
              (validate_and_remove_wired_mac_blacklist_item hwaddr_ok rem_text) setting val =
            (if hwaddr_ok (nm_strstrip_avoid_copy val)
             then (None, rem_text setting (nm_strstrip_avoid_copy val))
             else (Some (NotAValidMACAddress (nm_strstrip_avoid_copy val)), setting))
        \<and> remover_index_or_value_validating num ridx
              (validate_and_remove_wifi_mac_blacklist_item hwaddr_ok rem_text) setting val =
            (if hwaddr_ok (nm_strstrip_avoid_copy val)
             then (None, rem_text setting (nm_strstrip_avoid_copy val))
             else (Some (NotAValidMACAddress (nm_strstrip_avoid_copy val)), setting))"
    by (simp add: remover_validating_value validate_and_remove_connection_secondary_def
        validate_and_remove_ip_dns_def validate_and_remove_wired_mac_blacklist_item_def
        validate_and_remove_wifi_mac_blacklist_item_def Let_def)
  have d: "int_of_text val = None \<or> (\<exists>j. int_of_text val = Some j \<and> j < 0) \<longrightarrow>
        remover_index_or_value_validating num ridx
              (validate_and_remove_ip_address L get_family rem_address) setting val =
            (case parse_ip_address L (get_family setting) (nm_strstrip_avoid_copy val) of
               Inl e \<Rightarrow> (Some e, setting)
             | Inr addr \<Rightarrow> (None, rem_address setting addr))
        \<and> remover_index_or_value_validating num ridx
              (validate_and_remove_ipv4_route L rem_route) setting val =
            (case parse_ip_route L AF_INET (nm_strstrip_avoid_copy val) of
               Inl e \<Rightarrow> (Some e, setting)
             | Inr route \<Rightarrow> (None, rem_route setting route))
        \<and> remover_index_or_value_validating num ridx
              (validate_and_remove_ipv6_route L rem_route) setting val =
            (case parse_ip_route L AF_INET6 (nm_strstrip_avoid_copy val) of
               Inl e \<Rightarrow> (Some e, setting)
             | Inr route \<Rightarrow> (None, rem_route setting route))
        \<and> remover_index_or_value_validating num ridx
              (validate_and_remove_sriov_vf vf_from_str vf_get_index rem_vf_by_index)
              setting val =
            (case vf_from_str (nm_strstrip_avoid_copy val) of
               Inl e \<Rightarrow> (Some e, setting)
             | Inr vf \<Rightarrow> (None, rem_vf_by_index setting (vf_get_index vf)))"
    by (simp add: remover_validating_value validate_and_remove_ip_address_def
        validate_and_remove_ipv4_route_def validate_and_remove_ipv6_route_def
        validate_and_remove_sriov_vf_def Let_def)
  have e: "int_of_text val = None \<or> (\<exists>j. int_of_text val = Some j \<and> j < 0) \<longrightarrow>
        remover_index_or_value_validating num ridx
              (validate_and_remove_tc_qdisc qdisc_from_str rem_qdisc) setting val =
            (case qdisc_from_str (nm_strstrip_avoid_copy val) of
               Inl e \<Rightarrow> (Some e, setting)
             | Inr qdisc \<Rightarrow> (None, rem_qdisc setting qdisc))
        \<and> remover_index_or_value_validating num ridx
              (validate_and_remove_tc_tfilter tfilter_from_str rem_tfilter) setting val =
            (case tfilter_from_str (nm_strstrip_avoid_copy val) of
               Inl e \<Rightarrow> (Some e, setting)
             | Inr tfilter \<Rightarrow> (None, rem_tfilter setting tfilter))
        \<and> remover_index_or_value_validating num ridx
              (validate_and_remove_team_link_watcher C rem_watcher) setting val =
            (case parse_team_link_watcher C (nm_strstrip_avoid_copy val) of
               Inl e \<Rightarrow> (Some e, setting)
             | Inr watcher \<Rightarrow> (None, rem_watcher setting watcher))
        \<and> remover_index_or_value_validating num ridx
              (validate_and_remove_team_port_link_watcher C rem_watcher) setting val =
            (case parse_team_link_watcher C (nm_strstrip_avoid_copy val) of
               Inl e \<Rightarrow> (Some e, setting)
             | Inr watcher \<Rightarrow> (None, rem_watcher setting watcher))"
    by (simp add: remover_validating_value validate_and_remove_tc_qdisc_def
        validate_and_remove_tc_tfilter_def validate_and_remove_team_link_watcher_def
        validate_and_remove_team_port_link_watcher_def)
  show ?thesis
    using a b c d e remove_by_index_example remove_by_value_example
    by blast
qed

theorem remove_fcn_index_or_value_witness:
  "int_of_text '' 2 '' = Some 2
   \<and> get_num_fcn (strv_multilist ''eap'' None)
        (strv_store setting_802_1x ''eap'' [''a'', ''b'', ''c'']) = 3
   \<and> remove_fcn_multilist string_in_values (strv_multilist ''eap'' None)
        (strv_store setting_802_1x ''eap'' [''a'', ''b'', ''c'']) '' 2 ''
       = (None, remove_by_idx_fcn (strv_multilist ''eap'' None)
                  (strv_store setting_802_1x ''eap'' [''a'', ''b'', ''c'']) 2)
   \<and> int_of_text ''9'' = Some 9
   \<and> remove_fcn_multilist string_in_values (strv_multilist ''eap'' None)
        (strv_store setting_802_1x ''eap'' [''a'', ''b'', ''c'']) ''9''
       = (None, strv_store setting_802_1x ''eap'' [''a'', ''b'', ''c''])
   \<and> remover_index_or_value_direct string_in_values None
        (get_num_fcn (strv_multilist ''eap'' None))
        (remove_by_idx_fcn (strv_multilist ''eap'' None))
        (remove_by_value_fcn (strv_multilist ''eap'' None))
        (strv_store setting_802_1x ''eap'' [''a'', ''b'', ''c'']) ''9''
       = (None, strv_store setting_802_1x ''eap'' [''a'', ''b'', ''c''])
   \<and> int_of_text ''b'' = None
   \<and> remove_fcn_multilist string_in_values (strv_multilist ''eap'' None)
        (strv_store setting_802_1x ''eap'' [''a'', ''b'', ''c'']) ''b''
       = (None, remove_by_value_fcn (strv_multilist ''eap'' None)
                  (strv_store setting_802_1x ''eap'' [''a'', ''b'', ''c''])
                  (nm_strstrip_avoid_copy ''b''))
   \<and> int_of_text ''no uuid'' = None
   \<and> remover_index_or_value_validating
        (get_num_fcn (strv_multilist ''eap'' None))
        (remove_by_idx_fcn (strv_multilist ''eap'' None))
        (validate_and_remove_connection_secondary (\<lambda>u. length u = 36)
           (remove_by_value_fcn (strv_multilist ''eap'' None)))
        (strv_store setting_802_1x ''eap'' [''a'', ''b'', ''c'']) ''no uuid''
       = (Some (NotAValidUUID ''no uuid''),
          strv_store setting_802_1x ''eap'' [''a'', ''b'', ''c''])
   \<and> int_of_text ''0'' = Some 0
   \<and> vlan_get_num_priorities vlan_strv
        (strv_store setting_vlan ''ingress-priority-map'' [''1:2'', ''3:4'', ''5:6''])
        NM_VLAN_INGRESS_MAP = 3
   \<and> remove_fcn_vlan_xgress_priority_map vlan_strv ''ingress-priority-map''
        (strv_store setting_vlan ''ingress-priority-map'' [''1:2'', ''3:4'', ''5:6'']) ''0''
       = (None, vlan_remove_priority vlan_strv
                  (strv_store setting_vlan ''ingress-priority-map'' [''1:2'', ''3:4'', ''5:6''])
                  NM_VLAN_INGRESS_MAP 0)"
proof -
  let ?td = "strv_multilist ''eap'' None"
  let ?st = "strv_store setting_802_1x ''eap'' [''a'', ''b'', ''c'']"
  let ?vst = "strv_store setting_vlan ''ingress-priority-map'' [''1:2'', ''3:4'', ''5:6'']"
  have i: "int_of_text '' 2 '' = Some 2" "int_of_text ''9'' = Some 9" "int_of_text ''b'' = None"
    "int_of_text ''no uuid'' = None" "int_of_text ''0'' = Some 0"
    by code_simp+
  have n: "get_num_fcn ?td ?st = 3"
    by code_simp
  have vn: "vlan_get_num_priorities vlan_strv ?vst NM_VLAN_INGRESS_MAP = 3"
    by code_simp
  have v: "values_static ?td = None"
    by (simp add: strv_multilist_def)
  have s: "nm_strstrip_avoid_copy ''no uuid'' = ''no uuid''"
    by code_simp
  have mt: "vlan_priority_map_type_from_property_info ''ingress-priority-map''
      = NM_VLAN_INGRESS_MAP"
    by (simp add: vlan_priority_map_type_from_property_info_def
        NM_SETTING_VLAN_INGRESS_PRIORITY_MAP_def)
  have a: "remove_fcn_multilist string_in_values ?td ?st '' 2 ''
       = (None, remove_by_idx_fcn ?td ?st 2)"
    using remove_fcn_index_or_value [where val = "'' 2 ''" and i = 2 and td = ?td
      and setting = ?st and iv = string_in_values, THEN conjunct1, THEN mp, THEN conjunct1]
      i n
    by simp
  have b: "remove_fcn_multilist string_in_values ?td ?st ''9'' = (None, ?st)"
    using remove_fcn_index_or_value [where val = "''9''" and i = 9 and td = ?td
      and setting = ?st and iv = string_in_values, THEN conjunct1, THEN mp, THEN conjunct1]
      i n
    by simp
  have b': "remover_index_or_value_direct string_in_values None (get_num_fcn ?td)
        (remove_by_idx_fcn ?td) (remove_by_value_fcn ?td) ?st ''9'' = (None, ?st)"
    using remove_fcn_index_or_value [where val = "''9''" and i = 9
      and setting = ?st and iv = string_in_values and vs = None
      and num = "get_num_fcn ?td" and ridx = "remove_by_idx_fcn ?td"
      and rdir = "remove_by_value_fcn ?td", THEN conjunct1, THEN mp,
      THEN conjunct2, THEN conjunct2, THEN conjunct2, THEN conjunct1]
      i n
    by simp
  have c: "remove_fcn_multilist string_in_values ?td ?st ''b''
       = (None, remove_by_value_fcn ?td ?st (nm_strstrip_avoid_copy ''b''))"
    using remove_fcn_index_or_value [where val = "''b''" and td = ?td
      and setting = ?st and iv = string_in_values,
      THEN conjunct2, THEN conjunct1, THEN mp, THEN conjunct1]
      i v
    by simp
  have d: "remover_index_or_value_validating (get_num_fcn ?td) (remove_by_idx_fcn ?td)
        (validate_and_remove_connection_secondary (\<lambda>u. length u = 36)
           (remove_by_value_fcn ?td)) ?st ''no uuid''
       = (Some (NotAValidUUID ''no uuid''), ?st)"
    using remove_fcn_index_or_value [where val = "''no uuid''" and setting = ?st
      and num = "get_num_fcn ?td" and ridx = "remove_by_idx_fcn ?td"
      and is_uuid = "\<lambda>u. length u = 36" and rem_text = "remove_by_value_fcn ?td",
      THEN conjunct2, THEN conjunct1, THEN mp,
      THEN conjunct2, THEN conjunct2, THEN conjunct2, THEN conjunct1]
      i s
    by simp
  have e: "remove_fcn_vlan_xgress_priority_map vlan_strv ''ingress-priority-map'' ?vst ''0''
       = (None, vlan_remove_priority vlan_strv ?vst NM_VLAN_INGRESS_MAP 0)"
    using remove_fcn_index_or_value [where val = "''0''" and i = 0 and setting = ?vst
      and V = vlan_strv and pn = "''ingress-priority-map''", THEN conjunct1, THEN mp,
      THEN conjunct2, THEN conjunct2, THEN conjunct2, THEN conjunct2]
      i vn mt
    by simp
  show ?thesis using i n a b b' c d vn e by (intro conjI)
qed

subsection \<open>Setting a list of several items\<close>

lemma setter_mac_blacklist_all_or_nothing:
  "fst (setter_mac_blacklist hwaddr_ok add_func pn setting (Some v)) = Some e \<Longrightarrow>
     snd (setter_mac_blacklist hwaddr_ok add_func pn setting (Some v)) = setting"
  by (auto simp add: setter_mac_blacklist_def split: option.splits)

lemma set_fcn_multilist_second_item_bad:
  "fst (set_fcn_multilist string_in_values eap_typ_data ''eap'' setting_802_1x
          (Some ''tls,bogus'')) = Some (StringNotValid ''bogus'')
   \<and> strv_elements
        (snd (set_fcn_multilist string_in_values eap_typ_data ''eap'' setting_802_1x
                (Some ''tls,bogus''))) ''eap'' = [''tls'']
   \<and> strv_elements setting_802_1x ''eap'' = []"
  by code_simp

lemma set_fcn_ip4_addresses_second_item_bad:
  "fst (set_fcn_ip4_config_addresses libnm_glibc ''addresses'' setting_ip4_config
          (Some ''10.0.0.1/24,bogus''))
     = Some (InvalidIPAddress ''Invalid IP address bogus'')
   \<and> ptr_array_elements
        (snd (set_fcn_ip4_config_addresses libnm_glibc ''addresses'' setting_ip4_config
                (Some ''10.0.0.1/24,bogus''))) ''addresses''
     = [BoxedAddress \<lparr>addr_family = AF_INET, address = ''10.0.0.1'', prefix = 24\<rparr>]
   \<and> ptr_array_elements setting_ip4_config ''addresses'' = []"
  by code_simp

text \<open>
  C1 does not hold of the code. The list setter checks and adds one item after the
  other: with the allowed values of \<open>802-1x.eap\<close>, the text \<open>tls,bogus\<close> returns the
  error of \<open>bogus\<close> after \<open>tls\<close> has been added to the empty list; the address setter
  does the same with \<open>10.0.0.1/24,bogus\<close>. The error returned is the one of the first
  bad item from the left.
\<close>

theorem set_fcn_multi_item_partial_application:
  "fst (set_fcn_multilist string_in_values eap_typ_data ''eap'' setting_802_1x
          (Some ''tls,bogus'')) = Some (StringNotValid ''bogus'')
   \<and> strv_elements
        (snd (set_fcn_multilist string_in_values eap_typ_data ''eap'' setting_802_1x
                (Some ''tls,bogus''))) ''eap'' = [''tls'']
   \<and> strv_elements setting_802_1x ''eap'' = []
   \<and> fst (set_fcn_ip4_config_addresses libnm_glibc ''addresses'' setting_ip4_config
          (Some ''10.0.0.1/24,bogus''))
     = Some (InvalidIPAddress ''Invalid IP address bogus'')
   \<and> ptr_array_elements
        (snd (set_fcn_ip4_config_addresses libnm_glibc ''addresses'' setting_ip4_config
                (Some ''10.0.0.1/24,bogus''))) ''addresses''
     = [BoxedAddress \<lparr>addr_family = AF_INET, address = ''10.0.0.1'', prefix = 24\<rparr>]
   \<and> ptr_array_elements setting_ip4_config ''addresses'' = []"
  using set_fcn_multilist_second_item_bad set_fcn_ip4_addresses_second_item_bad
  by blast

subsection \<open>The flags of a link watcher\<close>

lemma strsplit_tokens_no_delim:
  "\<forall>c\<in>set v. c \<notin> set d \<Longrightarrow>
     strsplit_tokens d cur v = (if cur @ v = [] then [] else [cur @ v])"
  by (induction v arbitrary: cur) auto

lemma strsplit_tokens_key:
  "\<forall>c\<in>set k. c \<notin> set d \<Longrightarrow> x \<in> set d \<Longrightarrow>
     strsplit_tokens d cur (k @ x # rest) =
       (if cur @ k = [] then strsplit_tokens d [] rest
        else (cur @ k) # strsplit_tokens d [] rest)"
  by (induction k arbitrary: cur) auto

lemma strsplit_key_value:
  assumes "CHR ''='' \<notin> set key" "key \<noteq> []" "CHR ''='' \<notin> set v" "v \<noteq> []"
  shows "nm_utils_strsplit_set (key @ ''='' @ v) [CHR ''=''] = Some [key, v]"
proof -
  have "strsplit_tokens [CHR ''=''] [] (key @ CHR ''='' # v)
          = key # strsplit_tokens [CHR ''=''] [] v"
    using assms(1,2) by (subst strsplit_tokens_key) auto
  moreover have "strsplit_tokens [CHR ''=''] [] v = [v]"
    using assms(3,4) by (subst strsplit_tokens_no_delim) auto
  ultimately show ?thesis by (simp add: nm_utils_strsplit_set_def)
qed

lemma watcher_token_ok:
  "watcher_token w tok = Inr w' \<Longrightarrow> watcher_vars_ok w'"
  by (auto simp add: watcher_token_def watcher_vars_ok_def
      split: option.splits list.splits sum.splits if_splits)

lemma watcher_loop_ok:
  "watcher_loop toks w = Inr w' \<Longrightarrow> watcher_vars_ok w \<Longrightarrow> watcher_vars_ok w'"
proof (induction toks arbitrary: w)
  case Nil
  then show ?case by simp
next
  case (Cons tok toks)
  then show ?case
    by (auto split: sum.splits dest: watcher_token_ok)
qed

lemma watcher_loop_append:
  "watcher_loop (xs @ ys) w =
     (case watcher_loop xs w of Inl e \<Rightarrow> Inl e | Inr w' \<Rightarrow> watcher_loop ys w')"
  by (induction xs arbitrary: w) (auto split: sum.splits)

lemma watcher_token_flag:
  assumes "watcher_vars_ok w" "CHR ''='' \<notin> set v" "v \<noteq> []"
  shows "watcher_token w (''validate-active='' @ v) =
           Inr (if v = ''true''
                then w\<lparr>w_flags := insert NM_TEAM_LINK_WATCHER_ARP_PING_FLAG_VALIDATE_ACTIVE (w_flags w)\<rparr>
                else w)"
    and "watcher_token w (''validate-inactive='' @ v) =
           Inr (if v = ''true''
                then w\<lparr>w_flags := insert NM_TEAM_LINK_WATCHER_ARP_PING_FLAG_VALIDATE_INACTIVE (w_flags w)\<rparr>
                else w)"
    and "watcher_token w (''send-always='' @ v) =
           Inr (if v = ''true''
                then w\<lparr>w_flags := insert NM_TEAM_LINK_WATCHER_ARP_PING_FLAG_SEND_ALWAYS (w_flags w)\<rparr>
                else w)"
proof -
  have a: "nm_utils_strsplit_set (''validate-active='' @ v) [CHR ''='']
             = Some [''validate-active'', v]"
    using strsplit_key_value [of "''validate-active''" v] assms(2,3) by simp
  have b: "nm_utils_strsplit_set (''validate-inactive='' @ v) [CHR ''='']
             = Some [''validate-inactive'', v]"
    using strsplit_key_value [of "''validate-inactive''" v] assms(2,3) by simp
  have c: "nm_utils_strsplit_set (''send-always='' @ v) [CHR ''='']
             = Some [''send-always'', v]"
    using strsplit_key_value [of "''send-always''" v] assms(2,3) by simp
  show "watcher_token w (''validate-active='' @ v) =
           Inr (if v = ''true''
                then w\<lparr>w_flags := insert NM_TEAM_LINK_WATCHER_ARP_PING_FLAG_VALIDATE_ACTIVE (w_flags w)\<rparr>
                else w)"
    using assms(1) unfolding watcher_token_def a
    by (simp add: watcher_assign_def watcher_vars_ok_def)
  show "watcher_token w (''validate-inactive='' @ v) =
           Inr (if v = ''true''
                then w\<lparr>w_flags := insert NM_TEAM_LINK_WATCHER_ARP_PING_FLAG_VALIDATE_INACTIVE (w_flags w)\<rparr>
                else w)"
    using assms(1) unfolding watcher_token_def b
    by (simp add: watcher_assign_def watcher_vars_ok_def)
  show "watcher_token w (''send-always='' @ v) =
           Inr (if v = ''true''
                then w\<lparr>w_flags := insert NM_TEAM_LINK_WATCHER_ARP_PING_FLAG_SEND_ALWAYS (w_flags w)\<rparr>
                else w)"
    using assms(1) unfolding watcher_token_def c
    by (simp add: watcher_assign_def watcher_vars_ok_def)
qed

lemma watcher_flag_value_with_equals:
  "watcher_token watcher_vars_init ''validate-active=a=b''
     = Inl (WatcherTokenNotValid ''validate-active=a=b'' NotKeyValue)"
  by code_simp

lemma watcher_flag_value_empty:
  "watcher_token watcher_vars_init ''send-always=''
     = Inl (WatcherTokenNotValid ''send-always='' MissingKeyValue)"
  by code_simp

text \<open>
  C10, as stated, accepts every value of a flag key. The parser splits a token at
  every \<open>=\<close> and wants exactly two parts, so a value that contains \<open>=\<close> and an empty
  value are errors.
\<close>

theorem watcher_flag_value_counterexample:
  "watcher_token watcher_vars_init ''validate-active=a=b''
     = Inl (WatcherTokenNotValid ''validate-active=a=b'' NotKeyValue)
   \<and> watcher_token watcher_vars_init ''send-always=''
     = Inl (WatcherTokenNotValid ''send-always='' MissingKeyValue)"
  using watcher_flag_value_with_equals watcher_flag_value_empty by blast

text \<open>
  C10, amended. After any tokens that the link-watcher parser has accepted, a token
  \<open>validate-active=v\<close>, \<open>validate-inactive=v\<close> or \<open>send-always=v\<close> whose value \<open>v\<close> is
  not empty and has no \<open>=\<close> is accepted without error. It turns the flag of its key on
  if and only if \<open>v\<close> is exactly \<open>true\<close>; with any other such value (\<open>TRUE\<close>, \<open>yes\<close>,
  \<open>false\<close>, ...) it changes nothing, so a flag that was off stays off.
\<close>

theorem watcher_flag_exactly_true:
  "watcher_loop toks watcher_vars_init = Inr w \<and> v \<noteq> [] \<and> CHR ''='' \<notin> set v \<longrightarrow>
     watcher_loop (toks @ [''validate-active='' @ v]) watcher_vars_init
       = Inr (if v = ''true''
              then w\<lparr>w_flags := insert NM_TEAM_LINK_WATCHER_ARP_PING_FLAG_VALIDATE_ACTIVE (w_flags w)\<rparr>
              else w)
     \<and> watcher_loop (toks @ [''validate-inactive='' @ v]) watcher_vars_init
       = Inr (if v = ''true''
              then w\<lparr>w_flags := insert NM_TEAM_LINK_WATCHER_ARP_PING_FLAG_VALIDATE_INACTIVE (w_flags w)\<rparr>
              else w)
     \<and> watcher_loop (toks @ [''send-always='' @ v]) watcher_vars_init
       = Inr (if v = ''true''
              then w\<lparr>w_flags := insert NM_TEAM_LINK_WATCHER_ARP_PING_FLAG_SEND_ALWAYS (w_flags w)\<rparr>
              else w)"
proof
  assume a: "watcher_loop toks watcher_vars_init = Inr w \<and> v \<noteq> [] \<and> CHR ''='' \<notin> set v"
  have "watcher_vars_ok watcher_vars_init"
    by (simp add: watcher_vars_ok_def watcher_vars_init_def)
  with a have ok: "watcher_vars_ok w"
    using watcher_loop_ok by blast
  from a ok watcher_token_flag [of w v]
  show "watcher_loop (toks @ [''validate-active='' @ v]) watcher_vars_init
       = Inr (if v = ''true''
              then w\<lparr>w_flags := insert NM_TEAM_LINK_WATCHER_ARP_PING_FLAG_VALIDATE_ACTIVE (w_flags w)\<rparr>
              else w)
     \<and> watcher_loop (toks @ [''validate-inactive='' @ v]) watcher_vars_init
       = Inr (if v = ''true''
              then w\<lparr>w_flags := insert NM_TEAM_LINK_WATCHER_ARP_PING_FLAG_VALIDATE_INACTIVE (w_flags w)\<rparr>
              else w)
     \<and> watcher_loop (toks @ [''send-always='' @ v]) watcher_vars_init
       = Inr (if v = ''true''
              then w\<lparr>w_flags := insert NM_TEAM_LINK_WATCHER_ARP_PING_FLAG_SEND_ALWAYS (w_flags w)\<rparr>
              else w)"
    by (simp add: watcher_loop_append)
qed

lemma watcher_loop_name_target:
  "watcher_loop [''name=arp_ping'', ''target-host=10.0.0.1''] watcher_vars_init
     = Inr (watcher_vars_init\<lparr>w_name := Some ''arp_ping'', target_host := Some ''10.0.0.1''\<rparr>)"
  by (simp add: watcher_token_def watcher_assign_def watcher_vars_init_def
      nm_utils_strsplit_set_def)

theorem watcher_flag_exactly_true_witness:
  "watcher_loop [''name=arp_ping'', ''target-host=10.0.0.1''] watcher_vars_init
     = Inr (watcher_vars_init\<lparr>w_name := Some ''arp_ping'', target_host := Some ''10.0.0.1''\<rparr>)
   \<and> watcher_loop ([''name=arp_ping'', ''target-host=10.0.0.1''] @ [''validate-active='' @ ''TRUE''])
       watcher_vars_init
     = Inr (watcher_vars_init\<lparr>w_name := Some ''arp_ping'', target_host := Some ''10.0.0.1''\<rparr>)
   \<and> watcher_loop ([''name=arp_ping'', ''target-host=10.0.0.1''] @ [''send-always='' @ ''true''])
       watcher_vars_init
     = Inr (watcher_vars_init\<lparr>w_name := Some ''arp_ping'', target_host := Some ''10.0.0.1'',
              w_flags := {NM_TEAM_LINK_WATCHER_ARP_PING_FLAG_SEND_ALWAYS}\<rparr>)"
proof -
  let ?toks = "[''name=arp_ping'', ''target-host=10.0.0.1'']"
  let ?w = "watcher_vars_init\<lparr>w_name := Some ''arp_ping'', target_host := Some ''10.0.0.1''\<rparr>"
  have l: "watcher_loop ?toks watcher_vars_init = Inr ?w"
    by (rule watcher_loop_name_target)
  have v: "''TRUE'' \<noteq> []" "CHR ''='' \<notin> set ''TRUE''" "''true'' \<noteq> []" "CHR ''='' \<notin> set ''true''"
    "''TRUE'' \<noteq> ''true''"
    by simp_all
  from watcher_flag_exactly_true [of ?toks ?w "''TRUE''"] l v
  have a: "watcher_loop (?toks @ [''validate-active='' @ ''TRUE'']) watcher_vars_init = Inr ?w"
    by simp
  from watcher_flag_exactly_true [of ?toks ?w "''true''"] l v
  have b: "watcher_loop (?toks @ [''send-always='' @ ''true'']) watcher_vars_init
     = Inr (?w\<lparr>w_flags := insert NM_TEAM_LINK_WATCHER_ARP_PING_FLAG_SEND_ALWAYS (w_flags ?w)\<rparr>)"
    by simp
  have "w_flags ?w = {}" by (simp add: watcher_vars_init_def)
  with b have b': "watcher_loop (?toks @ [''send-always='' @ ''true'']) watcher_vars_init
     = Inr (?w\<lparr>w_flags := {NM_TEAM_LINK_WATCHER_ARP_PING_FLAG_SEND_ALWAYS}\<rparr>)"
    by simp
  show ?thesis using l a b' by simp
qed

subsection \<open>Secrets\<close>

text \<open>
  C3. For a property marked \<open>is_secret\<close>, a get in one of the two text modes without
  the flag that shows secrets returns the redaction token (its translation in pretty
  mode) and reports the value as default, whatever the object holds and whatever the
  property's own getter would return; so the result is the same for any two objects.
\<close>

theorem secret_get_hidden:
  "is_secret info \<and> NM_META_ACCESSOR_GET_FLAGS_SHOW_SECRETS \<notin> get_flags \<longrightarrow>
     meta_type_property_info_get_fcn tr info target NM_META_ACCESSOR_GET_TYPE_PARSABLE
         get_flags d0 = (Some NM_META_TEXT_HIDDEN, True)
     \<and> meta_type_property_info_get_fcn tr info target NM_META_ACCESSOR_GET_TYPE_PRETTY
         get_flags d0 = (Some (tr NM_META_TEXT_HIDDEN), True)
     \<and> meta_type_property_info_get_fcn tr info target get_type get_flags d0
         = meta_type_property_info_get_fcn tr info target' get_type get_flags d0"
  by (simp add: meta_type_property_info_get_fcn_def get_text_hidden_def)

lemma secret_shown_example:
  "meta_type_property_info_get_fcn (\<lambda>s. s) (password_info (\<lambda>s. s))
        (g_object_set_property setting_flags ''password'' (GString (Some ''s3cret'')))
        NM_META_ACCESSOR_GET_TYPE_PARSABLE
        {NM_META_ACCESSOR_GET_FLAGS_SHOW_SECRETS} False
       = (Some ''s3cret'', False)"
  by code_simp

theorem secret_get_hidden_witness:
  "is_secret (password_info (\<lambda>s. s))
   \<and> NM_META_ACCESSOR_GET_FLAGS_SHOW_SECRETS \<notin> {NM_META_ACCESSOR_GET_FLAGS_ACCEPT_STRV}
   \<and> meta_type_property_info_get_fcn (\<lambda>s. s) (password_info (\<lambda>s. s))
        (g_object_set_property setting_flags ''password'' (GString (Some ''s3cret'')))
        NM_META_ACCESSOR_GET_TYPE_PARSABLE {NM_META_ACCESSOR_GET_FLAGS_ACCEPT_STRV} False
       = (Some NM_META_TEXT_HIDDEN, True)
   \<and> meta_type_property_info_get_fcn (\<lambda>s. s) (password_info (\<lambda>s. s))
        (g_object_set_property setting_flags ''password'' (GString (Some [])))
        NM_META_ACCESSOR_GET_TYPE_PARSABLE {NM_META_ACCESSOR_GET_FLAGS_ACCEPT_STRV} False
       = (Some NM_META_TEXT_HIDDEN, True)
   \<and> NM_META_TEXT_HIDDEN = ''<hidden>''
   \<and> meta_type_property_info_get_fcn (\<lambda>s. s) (password_info (\<lambda>s. s))
        (g_object_set_property setting_flags ''password'' (GString (Some ''s3cret'')))
        NM_META_ACCESSOR_GET_TYPE_PARSABLE
        {NM_META_ACCESSOR_GET_FLAGS_SHOW_SECRETS} False
       = (Some ''s3cret'', False)"
proof -
  let ?fl = "{NM_META_ACCESSOR_GET_FLAGS_ACCEPT_STRV}"
  have s: "is_secret (password_info (\<lambda>s. s))"
    by (simp add: password_info_def)
  have f: "NM_META_ACCESSOR_GET_FLAGS_SHOW_SECRETS \<notin> ?fl"
    by simp
  have h: "is_secret (password_info (\<lambda>s. s)) \<and> NM_META_ACCESSOR_GET_FLAGS_SHOW_SECRETS \<notin> ?fl"
    using s f by (rule conjI)
  have a: "meta_type_property_info_get_fcn (\<lambda>s. s) (password_info (\<lambda>s. s))
        (g_object_set_property setting_flags ''password'' (GString (Some ''s3cret'')))
        NM_META_ACCESSOR_GET_TYPE_PARSABLE ?fl False = (Some NM_META_TEXT_HIDDEN, True)"
    using secret_get_hidden [of "password_info (\<lambda>s. s)" ?fl "\<lambda>s. s"
        "g_object_set_property setting_flags ''password'' (GString (Some ''s3cret''))" False] h
    by blast
  have b: "meta_type_property_info_get_fcn (\<lambda>s. s) (password_info (\<lambda>s. s))
        (g_object_set_property setting_flags ''password'' (GString (Some [])))
        NM_META_ACCESSOR_GET_TYPE_PARSABLE ?fl False = (Some NM_META_TEXT_HIDDEN, True)"
    using secret_get_hidden [of "password_info (\<lambda>s. s)" ?fl "\<lambda>s. s"
        "g_object_set_property setting_flags ''password'' (GString (Some []))" False] h
    by blast
  have t: "NM_META_TEXT_HIDDEN = ''<hidden>''"
    by (rule NM_META_TEXT_HIDDEN_def)
  show ?thesis
    using s f a b t secret_shown_example by (intro conjI)
qed

subsection \<open>Flags values\<close>

lemma char_of_48: "char_of (48::nat) = CHR ''0''"
  by code_simp

lemma string_of_nat_0 [simp]: "string_of_nat 0 = ''0''"
  by (simp add: string_of_nat.simps char_of_48)

lemma string_of_int_0 [simp]: "string_of_int 0 = ''0''"
  by (simp add: string_of_int_def)

lemma int_cast_0 [simp]: "int_cast 0 = 0"
  by (simp add: int_cast_def)

lemma enum_get_format_default_pretty:
  assumes "enum_default_policy typ_data NM_META_ACCESSOR_GET_TYPE_PRETTY"
  shows "enum_get_format typ_data NM_META_ACCESSOR_GET_TYPE_PRETTY =
       enum_format_init\<lparr>format_numeric := True, format_numeric_hex_unknown := True,
               format_text := True, format_text_l10n := True\<rparr>"
proof (cases typ_data)
  case None
  then show ?thesis by (simp add: enum_get_format_def)
next
  case (Some td)
  with assms have
    "NM_META_PROPERTY_TYP_FLAG_ENUM_GET_PRETTY_NUMERIC \<notin> typ_flags td"
    "NM_META_PROPERTY_TYP_FLAG_ENUM_GET_PRETTY_NUMERIC_HEX \<notin> typ_flags td"
    "NM_META_PROPERTY_TYP_FLAG_ENUM_GET_PRETTY_TEXT \<notin> typ_flags td"
    "NM_META_PROPERTY_TYP_FLAG_ENUM_GET_PRETTY_TEXT_L10N \<notin> typ_flags td"
    by (simp_all add: enum_default_policy_def)
  with Some show ?thesis by (simp add: enum_get_format_def)
qed

lemma enum_get_format_default_parsable:
  assumes "enum_default_policy typ_data NM_META_ACCESSOR_GET_TYPE_PARSABLE"
  shows "enum_get_format typ_data NM_META_ACCESSOR_GET_TYPE_PARSABLE =
       enum_format_init\<lparr>format_numeric := True, format_numeric_hex_unknown := True\<rparr>"
proof (cases typ_data)
  case None
  then show ?thesis by (simp add: enum_get_format_def)
next
  case (Some td)
  with assms have
    "NM_META_PROPERTY_TYP_FLAG_ENUM_GET_PARSABLE_NUMERIC \<notin> typ_flags td"
    "NM_META_PROPERTY_TYP_FLAG_ENUM_GET_PARSABLE_NUMERIC_HEX \<notin> typ_flags td"
    "NM_META_PROPERTY_TYP_FLAG_ENUM_GET_PARSABLE_TEXT \<notin> typ_flags td"
    by (simp_all add: enum_default_policy_def)
  with Some show ?thesis by (simp add: enum_get_format_def)
qed

text \<open>The getter once the value has been read.\<close>

lemma get_fcn_gobject_enum_value:
  assumes gt: "get_type = NM_META_ACCESSOR_GET_TYPE_PARSABLE \<or> get_type = NM_META_ACCESSOR_GET_TYPE_PRETTY"
    and ps: "g_object_class_find_property setting pn = Some pspec"
    and rd: "(if value_type pspec = G_TYPE_INT \<or> G_IS_ENUM_CLASS (value_type pspec) then
                (if value_type pspec = G_TYPE_INT
                 then (if \<not> (case typ_data of None \<Rightarrow> False | Some td \<Rightarrow> get_gtype td \<noteq> None)
                       then None else Some (g_value_get_int (g_object_get_property setting pn)))
                 else Some (g_value_get_enum (g_object_get_property setting pn)))
              else if value_type pspec = G_TYPE_UINT \<or> G_IS_FLAGS_CLASS (value_type pspec) then
                (if value_type pspec = G_TYPE_UINT
                 then (if \<not> (case typ_data of None \<Rightarrow> False | Some td \<Rightarrow> get_gtype td \<noteq> None)
                       then None else Some (g_value_get_uint (g_object_get_property setting pn)))
                 else Some (g_value_get_flags (g_object_get_property setting pn)))
              else None) = Some v"
  shows "fst (get_fcn_gobject_enum enum_to_str typ_data pn setting get_type get_flags d0) =
     (let fmt = enum_get_format typ_data get_type;
          gtype = enum_gtype typ_data (value_type pspec);
          s_numeric = enum_numeric_text fmt gtype v;
          s = enum_to_str gtype (int_cast v) (enum_value_infos typ_data)
      in if format_numeric fmt \<and> \<not> format_text fmt then Some s_numeric
         else if \<not> format_numeric fmt then Some s
         else if s = s_numeric then Some s
         else Some (s_numeric @ '' ('' @ s @ '')''))"
  using gt
  unfolding get_fcn_gobject_enum_def Let_def ps option.case rd enum_gtype_def enum_value_infos_def
  by auto

lemma flags_layout_read:
  assumes lay: "(value_type pspec = GFlagsType n \<and> g_object_get_property setting pn = GFlags 0)
       \<or> (value_type pspec = G_TYPE_UINT \<and> g_object_get_property setting pn = GUInt 0
           \<and> (\<exists>td. typ_data = Some td \<and> get_gtype td \<noteq> None))"
  shows "(if value_type pspec = G_TYPE_INT \<or> G_IS_ENUM_CLASS (value_type pspec) then
                (if value_type pspec = G_TYPE_INT
                 then (if \<not> (case typ_data of None \<Rightarrow> False | Some td \<Rightarrow> get_gtype td \<noteq> None)
                       then None else Some (g_value_get_int (g_object_get_property setting pn)))
                 else Some (g_value_get_enum (g_object_get_property setting pn)))
              else if value_type pspec = G_TYPE_UINT \<or> G_IS_FLAGS_CLASS (value_type pspec) then
                (if value_type pspec = G_TYPE_UINT
                 then (if \<not> (case typ_data of None \<Rightarrow> False | Some td \<Rightarrow> get_gtype td \<noteq> None)
                       then None else Some (g_value_get_uint (g_object_get_property setting pn)))
                 else Some (g_value_get_flags (g_object_get_property setting pn)))
              else None) = Some 0"
  using lay
proof
  assume "value_type pspec = GFlagsType n \<and> g_object_get_property setting pn = GFlags 0"
  then show ?thesis
    by (simp add: G_IS_ENUM_CLASS_def G_IS_FLAGS_CLASS_def g_value_get_flags_def)
next
  assume "value_type pspec = G_TYPE_UINT \<and> g_object_get_property setting pn = GUInt 0
           \<and> (\<exists>td. typ_data = Some td \<and> get_gtype td \<noteq> None)"
  then show ?thesis
    by (auto simp add: G_IS_ENUM_CLASS_def G_IS_FLAGS_CLASS_def g_value_get_uint_def)
qed

lemma flags_class_not_enum:
  "G_IS_FLAGS_CLASS t \<Longrightarrow> \<not> G_IS_ENUM_CLASS t"
  by (cases t) (simp_all add: G_IS_FLAGS_CLASS_def G_IS_ENUM_CLASS_def)

lemma get_fcn_gobject_enum_flags_zero_parsable:
  assumes pol: "enum_default_policy typ_data NM_META_ACCESSOR_GET_TYPE_PARSABLE"
    and ps: "g_object_class_find_property setting pn = Some pspec"
    and lay: "(value_type pspec = GFlagsType n \<and> g_object_get_property setting pn = GFlags 0)
       \<or> (value_type pspec = G_TYPE_UINT \<and> g_object_get_property setting pn = GUInt 0
           \<and> (\<exists>td. typ_data = Some td \<and> get_gtype td \<noteq> None))"
    and fl: "G_IS_FLAGS_CLASS (enum_gtype typ_data (value_type pspec))"
  shows "fst (get_fcn_gobject_enum enum_to_str typ_data pn setting
                NM_META_ACCESSOR_GET_TYPE_PARSABLE get_flags d0) = Some ''0x0''"
  by (subst get_fcn_gobject_enum_value [OF _ ps flags_layout_read [OF lay]])
    (simp_all add: enum_get_format_default_parsable [OF pol] Let_def enum_format_init_def
      enum_numeric_text_def flags_class_not_enum [OF fl])

lemma get_fcn_gobject_enum_flags_zero_pretty:
  assumes pol: "enum_default_policy typ_data NM_META_ACCESSOR_GET_TYPE_PRETTY"
    and ps: "g_object_class_find_property setting pn = Some pspec"
    and lay: "(value_type pspec = GFlagsType n \<and> g_object_get_property setting pn = GFlags 0)
       \<or> (value_type pspec = G_TYPE_UINT \<and> g_object_get_property setting pn = GUInt 0
           \<and> (\<exists>td. typ_data = Some td \<and> get_gtype td \<noteq> None))"
    and fl: "G_IS_FLAGS_CLASS (enum_gtype typ_data (value_type pspec))"
  shows "fst (get_fcn_gobject_enum enum_to_str typ_data pn setting
                NM_META_ACCESSOR_GET_TYPE_PRETTY get_flags d0) =
           Some (if enum_to_str (enum_gtype typ_data (value_type pspec)) 0
                      (enum_value_infos typ_data) = ''0x0''
                 then ''0x0''
                 else ''0x0 ('' @ enum_to_str (enum_gtype typ_data (value_type pspec)) 0
                                   (enum_value_infos typ_data) @ '')'')"
  by (subst get_fcn_gobject_enum_value [OF _ ps flags_layout_read [OF lay]])
    (simp_all add: enum_get_format_default_pretty [OF pol] Let_def enum_format_init_def
      enum_numeric_text_def flags_class_not_enum [OF fl])

lemma secret_flags_zero:
  "flags_of_property setting pn = 0 \<Longrightarrow>
     get_fcn_gobject_secret_flags tr pn setting NM_META_ACCESSOR_GET_TYPE_PRETTY get_flags d0
       = (Some (tr ''0 (none)''), d0)
     \<and> get_fcn_gobject_secret_flags tr pn setting NM_META_ACCESSOR_GET_TYPE_PARSABLE get_flags d0
       = (Some ''0'', d0)"
  by (simp add: get_fcn_gobject_secret_flags_def secret_flags_to_string_def)

lemma ip_tunnel_flags_zero:
  "get_fcn_gobject_enum (\<lambda>gtype v infos. ''none'') (Some ip_tunnel_flags_typ_data) ''flags''
     setting_ip_tunnel NM_META_ACCESSOR_GET_TYPE_PRETTY {} False = (Some ''0x0 (none)'', True)"
  "get_fcn_gobject_enum (\<lambda>gtype v infos. ''none'') (Some ip_tunnel_flags_typ_data) ''flags''
     setting_ip_tunnel NM_META_ACCESSOR_GET_TYPE_PARSABLE {} False = (Some ''0x0'', True)"
  by code_simp+

lemma phase1_auth_flags_zero:
  "get_fcn_gobject_enum (\<lambda>gtype v infos. ''none'') (Some phase1_auth_flags_typ_data)
     ''phase1-auth-flags'' setting_flags NM_META_ACCESSOR_GET_TYPE_PRETTY {} False
     = (Some ''0x0 (none)'', True)"
  by code_simp

text \<open>
  C7, as stated, renders a flags value 0 as \<open>0 (none)\<close> and \<open>0\<close>. The getter of
  enumeration properties puts \<open>0x\<close> before the number of a flags type. The property
  \<open>ip-tunnel.flags\<close> has no rendering option in the property table: its value 0, with
  the zero of the flags type named \<open>none\<close>, is \<open>0x0 (none)\<close> in pretty mode and \<open>0x0\<close>
  in parsable mode. The property \<open>802-1x.phase1-auth-flags\<close> has a rendering option for
  parsable mode only, and is \<open>0x0 (none)\<close> in pretty mode.
\<close>

theorem enum_flags_zero_counterexample:
  "fst (get_fcn_gobject_enum (\<lambda>gtype v infos. ''none'') (Some ip_tunnel_flags_typ_data)
          ''flags'' setting_ip_tunnel NM_META_ACCESSOR_GET_TYPE_PRETTY {} False)
     = Some ''0x0 (none)''
   \<and> ''0x0 (none)'' \<noteq> ''0 (none)''
   \<and> fst (get_fcn_gobject_enum (\<lambda>gtype v infos. ''none'') (Some ip_tunnel_flags_typ_data)
            ''flags'' setting_ip_tunnel NM_META_ACCESSOR_GET_TYPE_PARSABLE {} False)
       = Some ''0x0''
   \<and> ''0x0'' \<noteq> ''0''
   \<and> fst (get_fcn_gobject_enum (\<lambda>gtype v infos. ''none'') (Some phase1_auth_flags_typ_data)
            ''phase1-auth-flags'' setting_flags NM_META_ACCESSOR_GET_TYPE_PRETTY {} False)
       = Some ''0x0 (none)''"
  by (simp add: ip_tunnel_flags_zero phase1_auth_flags_zero)

text \<open>
  C7, amended. For every flags property that the getter of enumeration properties
  renders with the default policy of the mode (no rendering option for that mode
  among the \<^verbatim>\<open>typ_flags\<close> of the property), a stored value of 0 is formatted as \<open>0x0\<close>
  in parsable mode and, in pretty mode, as \<open>0x0 (names)\<close>, where \<open>names\<close> is the text
  that the conversion of the flags type gives the value 0 (only \<open>0x0\<close> when that
  text is \<open>0x0\<close> itself). The getter of secret-flags properties, which has a
  formatting of its own, renders 0 as \<open>0 (none)\<close> in pretty mode and as \<open>0\<close> in
  parsable mode.
\<close>

theorem enum_flags_zero_format:
  "(enum_default_policy typ_data NM_META_ACCESSOR_GET_TYPE_PARSABLE
    \<and> g_object_class_find_property setting pn = Some pspec
    \<and> ((value_type pspec = GFlagsType n \<and> g_object_get_property setting pn = GFlags 0)
       \<or> (value_type pspec = G_TYPE_UINT \<and> g_object_get_property setting pn = GUInt 0
           \<and> (\<exists>td. typ_data = Some td \<and> get_gtype td \<noteq> None)))
    \<and> G_IS_FLAGS_CLASS (enum_gtype typ_data (value_type pspec)) \<longrightarrow>
      fst (get_fcn_gobject_enum enum_to_str typ_data pn setting
             NM_META_ACCESSOR_GET_TYPE_PARSABLE get_flags d0) = Some ''0x0'')
   \<and> (enum_default_policy typ_data NM_META_ACCESSOR_GET_TYPE_PRETTY
    \<and> g_object_class_find_property setting pn = Some pspec
    \<and> ((value_type pspec = GFlagsType n \<and> g_object_get_property setting pn = GFlags 0)
       \<or> (value_type pspec = G_TYPE_UINT \<and> g_object_get_property setting pn = GUInt 0
           \<and> (\<exists>td. typ_data = Some td \<and> get_gtype td \<noteq> None)))
    \<and> G_IS_FLAGS_CLASS (enum_gtype typ_data (value_type pspec)) \<longrightarrow>
      fst (get_fcn_gobject_enum enum_to_str typ_data pn setting
                NM_META_ACCESSOR_GET_TYPE_PRETTY get_flags d0) =
           Some (if enum_to_str (enum_gtype typ_data (value_type pspec)) 0
                      (enum_value_infos typ_data) = ''0x0''
                 then ''0x0''
                 else ''0x0 ('' @ enum_to_str (enum_gtype typ_data (value_type pspec)) 0
                                   (enum_value_infos typ_data) @ '')''))
   \<and> (flags_of_property setting pn = 0 \<longrightarrow>
        get_fcn_gobject_secret_flags tr pn setting NM_META_ACCESSOR_GET_TYPE_PRETTY get_flags d0
          = (Some (tr ''0 (none)''), d0)
        \<and> get_fcn_gobject_secret_flags tr pn setting NM_META_ACCESSOR_GET_TYPE_PARSABLE
            get_flags d0 = (Some ''0'', d0))"
  using get_fcn_gobject_enum_flags_zero_parsable
           [of typ_data setting pn pspec n enum_to_str get_flags d0]
    get_fcn_gobject_enum_flags_zero_pretty
           [of typ_data setting pn pspec n enum_to_str get_flags d0]
    secret_flags_zero [of setting pn tr get_flags d0]
  by blast

theorem enum_flags_zero_format_witness:
  "enum_default_policy (Some ip_tunnel_flags_typ_data) NM_META_ACCESSOR_GET_TYPE_PARSABLE
   \<and> enum_default_policy (Some phase1_auth_flags_typ_data) NM_META_ACCESSOR_GET_TYPE_PRETTY
   \<and> g_object_class_find_property setting_ip_tunnel ''flags''
       = Some \<lparr>value_type = G_TYPE_UINT, default_value = GUInt 0\<rparr>
   \<and> g_object_get_property setting_ip_tunnel ''flags'' = GUInt 0
   \<and> G_IS_FLAGS_CLASS (enum_gtype (Some ip_tunnel_flags_typ_data) G_TYPE_UINT)
   \<and> fst (get_fcn_gobject_enum (\<lambda>gtype v infos. ''none'') (Some ip_tunnel_flags_typ_data)
            ''flags'' setting_ip_tunnel NM_META_ACCESSOR_GET_TYPE_PARSABLE {} False)
       = Some ''0x0''
   \<and> fst (get_fcn_gobject_enum (\<lambda>gtype v infos. ''none'') (Some phase1_auth_flags_typ_data)
            ''phase1-auth-flags'' setting_flags NM_META_ACCESSOR_GET_TYPE_PRETTY {} False)
       = Some ''0x0 (none)''
   \<and> flags_of_property setting_flags ''password-flags'' = 0
   \<and> get_fcn_gobject_secret_flags (\<lambda>s. s) ''password-flags'' setting_flags
        NM_META_ACCESSOR_GET_TYPE_PRETTY {} False = (Some ''0 (none)'', False)
   \<and> get_fcn_gobject_secret_flags (\<lambda>s. s) ''password-flags'' setting_flags
        NM_META_ACCESSOR_GET_TYPE_PARSABLE {} False = (Some ''0'', False)"
proof -
  let ?ps = "\<lparr>value_type = G_TYPE_UINT, default_value = GUInt 0\<rparr>"
  let ?e = "\<lambda>(gtype::gtype) (v::int) (infos::(string \<times> int) list). ''none''"
  have a: "enum_default_policy (Some ip_tunnel_flags_typ_data) NM_META_ACCESSOR_GET_TYPE_PARSABLE"
    "enum_default_policy (Some phase1_auth_flags_typ_data) NM_META_ACCESSOR_GET_TYPE_PRETTY"
    by (simp_all add: enum_default_policy_def ip_tunnel_flags_typ_data_def
        phase1_auth_flags_typ_data_def)
  have b: "g_object_class_find_property setting_ip_tunnel ''flags'' = Some ?ps"
    "g_object_class_find_property setting_flags ''phase1-auth-flags'' = Some ?ps"
    by code_simp+
  have c: "g_object_get_property setting_ip_tunnel ''flags'' = GUInt 0"
    "g_object_get_property setting_flags ''phase1-auth-flags'' = GUInt 0"
    by code_simp+
  have d: "G_IS_FLAGS_CLASS (enum_gtype (Some ip_tunnel_flags_typ_data) G_TYPE_UINT)"
    "G_IS_FLAGS_CLASS (enum_gtype (Some phase1_auth_flags_typ_data) G_TYPE_UINT)"
    by (simp_all add: G_IS_FLAGS_CLASS_def enum_gtype_def ip_tunnel_flags_typ_data_def
        phase1_auth_flags_typ_data_def)
  have t: "get_gtype ip_tunnel_flags_typ_data \<noteq> None" "get_gtype phase1_auth_flags_typ_data \<noteq> None"
    by (simp_all add: ip_tunnel_flags_typ_data_def phase1_auth_flags_typ_data_def)
  have e: "flags_of_property setting_flags ''password-flags'' = 0"
    by code_simp
  have vt: "value_type ?ps = G_TYPE_UINT"
    by simp
  have f: "fst (get_fcn_gobject_enum ?e (Some ip_tunnel_flags_typ_data)
            ''flags'' setting_ip_tunnel NM_META_ACCESSOR_GET_TYPE_PARSABLE {} False)
       = Some ''0x0''"
    using enum_flags_zero_format [of "Some ip_tunnel_flags_typ_data" setting_ip_tunnel
        "''flags''" ?ps "[]" ?e "{}" False "\<lambda>s. s"] a(1) b(1) c(1) d(1) t(1) vt
    by simp
  have p: "fst (get_fcn_gobject_enum ?e (Some phase1_auth_flags_typ_data)
            ''phase1-auth-flags'' setting_flags NM_META_ACCESSOR_GET_TYPE_PRETTY {} False)
       = Some ''0x0 (none)''"
    using enum_flags_zero_format [of "Some phase1_auth_flags_typ_data" setting_flags
        "''phase1-auth-flags''" ?ps "[]" ?e "{}" False "\<lambda>s. s"] a(2) b(2) c(2) d(2) t(2) vt
    by simp
  have g: "get_fcn_gobject_secret_flags (\<lambda>s. s) ''password-flags'' setting_flags
        NM_META_ACCESSOR_GET_TYPE_PRETTY {} False = (Some ''0 (none)'', False)
      \<and> get_fcn_gobject_secret_flags (\<lambda>s. s) ''password-flags'' setting_flags
        NM_META_ACCESSOR_GET_TYPE_PARSABLE {} False = (Some ''0'', False)"
    using enum_flags_zero_format [of "Some ip_tunnel_flags_typ_data" setting_flags
        "''password-flags''" ?ps "[]" ?e "{}" False "\<lambda>s. s"] e
    by blast
  show ?thesis
    using a b(1) c(1) d(1) f p e g by (intro conjI) blast+
qed

subsection \<open>The connection type\<close>

lemma connection_type_fresh_reset:
  "fst (set_fcn_connection_type ''c5f2e1a0'' ''type'' setting_connection None) = None
   \<and> nm_setting_connection_get_uuid
        (snd (set_fcn_connection_type ''c5f2e1a0'' ''type'' setting_connection None)) = None
   \<and> nm_setting_connection_get_uuid setting_connection = None"
  by code_simp

text \<open>
  C8, as stated, gives every successful set of the type on a fresh connection a new
  identifier. A set with the null value succeeds on a fresh connection and assigns
  none.
\<close>

theorem connection_type_reset_counterexample:
  "fst (set_fcn_connection_type ''c5f2e1a0'' ''type'' setting_connection None) = None
   \<and> nm_setting_connection_get_uuid
        (snd (set_fcn_connection_type ''c5f2e1a0'' ''type'' setting_connection None)) = None
   \<and> nm_setting_connection_get_uuid setting_connection = None"
  by (rule connection_type_fresh_reset)

text \<open>
  C8, amended. Setting the connection type fails with the error that the type can
  not change whenever the connection has a UUID, whatever the text is, and leaves
  the setting as it was. On a connection without UUID a set with a text succeeds,
  stores the identifier that the generator returned as the UUID, and stores the
  text as the type; a set with the null value succeeds, stores no type and assigns
  no identifier.
\<close>

theorem connection_type_immutable:
  "(nm_setting_connection_get_uuid setting \<noteq> None \<longrightarrow>
      set_fcn_connection_type uuid pn setting val = (Some CanNotChangeConnectionType, setting))
   \<and> (nm_setting_connection_get_uuid setting = None \<and> pn \<noteq> NM_SETTING_CONNECTION_UUID \<longrightarrow>
        fst (set_fcn_connection_type uuid pn setting (Some v)) = None
        \<and> nm_setting_connection_get_uuid
             (snd (set_fcn_connection_type uuid pn setting (Some v))) = Some uuid
        \<and> props (snd (set_fcn_connection_type uuid pn setting (Some v))) pn = GString (Some v))
   \<and> (nm_setting_connection_get_uuid setting = None \<longrightarrow>
        set_fcn_connection_type uuid pn setting None
          = (None, g_object_set_property setting pn (GString None)))"
  by (simp add: set_fcn_connection_type_def nm_setting_connection_get_uuid_def
      g_object_set_property_def Let_def)

theorem connection_type_immutable_witness:
  "nm_setting_connection_get_uuid
     (g_object_set_property setting_connection ''uuid'' (GString (Some ''1b4e28ba''))) \<noteq> None
   \<and> set_fcn_connection_type ''c5f2e1a0'' ''type''
        (g_object_set_property setting_connection ''uuid'' (GString (Some ''1b4e28ba'')))
        (Some ''bond'')
      = (Some CanNotChangeConnectionType,
         g_object_set_property setting_connection ''uuid'' (GString (Some ''1b4e28ba'')))
   \<and> nm_setting_connection_get_uuid setting_connection = None
   \<and> ''type'' \<noteq> NM_SETTING_CONNECTION_UUID
   \<and> fst (set_fcn_connection_type ''c5f2e1a0'' ''type'' setting_connection (Some ''bond'')) = None
   \<and> nm_setting_connection_get_uuid
        (snd (set_fcn_connection_type ''c5f2e1a0'' ''type'' setting_connection (Some ''bond'')))
      = Some ''c5f2e1a0''
   \<and> props (snd (set_fcn_connection_type ''c5f2e1a0'' ''type'' setting_connection (Some ''bond'')))
        ''type'' = GString (Some ''bond'')"
proof -
  let ?old = "g_object_set_property setting_connection ''uuid'' (GString (Some ''1b4e28ba''))"
  have a: "nm_setting_connection_get_uuid ?old \<noteq> None"
    by code_simp
  have b: "nm_setting_connection_get_uuid setting_connection = None"
    by code_simp
  have c: "''type'' \<noteq> NM_SETTING_CONNECTION_UUID"
    by (simp add: NM_SETTING_CONNECTION_UUID_def)
  have d: "set_fcn_connection_type ''c5f2e1a0'' ''type'' ?old (Some ''bond'')
      = (Some CanNotChangeConnectionType, ?old)"
    using connection_type_immutable [of ?old "''c5f2e1a0''" "''type''" "Some ''bond''"] a
    by blast
  have e: "fst (set_fcn_connection_type ''c5f2e1a0'' ''type'' setting_connection (Some ''bond'')) = None
   \<and> nm_setting_connection_get_uuid
        (snd (set_fcn_connection_type ''c5f2e1a0'' ''type'' setting_connection (Some ''bond'')))
      = Some ''c5f2e1a0''
   \<and> props (snd (set_fcn_connection_type ''c5f2e1a0'' ''type'' setting_connection (Some ''bond'')))
        ''type'' = GString (Some ''bond'')"
    using connection_type_immutable [of setting_connection "''c5f2e1a0''" "''type''" None "''bond''"]
      b c
    by blast
  show ?thesis
    using a d b c e by (intro conjI) blast+
qed

subsection \<open>Setting the null value\<close>

lemma reset_default_succeeds:
  assumes "g_object_class_find_property setting pn = Some pspec"
  shows "fst (gobject_property_reset_default setting pn) = None"
  using assms by (simp add: gobject_property_reset_default_def Let_def)

lemma reset_default_list_is_default:
  assumes f: "g_object_class_find_property setting pn = Some pspec"
    and t: "value_type pspec = G_TYPE_STRV \<or> value_type pspec = G_TYPE_HASH_TABLE"
  shows "gobject_property_is_default (snd (gobject_property_reset_default setting pn)) pn"
  using f t
  by (auto simp add: gobject_property_reset_default_def gobject_property_is_default_def
      g_object_class_find_property_def g_object_get_property_def g_object_set_property_def
      Let_def)

lemma set_null_reset_setters_a:
  "set_fcn_gobject_string is_valid_string typ_data_string pn setting None
      = gobject_property_reset_default setting pn
  \<and> set_fcn_gobject_bool nmc_string_to_bool pn setting None
      = gobject_property_reset_default setting pn
  \<and> set_fcn_gobject_int param_spec_range ascii_str_to_int64 ascii_str_to_uint64 nm_g_object_set_property typ_data_int pn setting None
      = gobject_property_reset_default setting pn
  \<and> set_fcn_gobject_mtu nm_g_object_set_property pn setting None
      = gobject_property_reset_default setting pn
  \<and> set_fcn_gobject_mac nm_utils_hwaddr_valid cloned_mac_is_special typ_data_mac pn setting None
      = gobject_property_reset_default setting pn
  \<and> set_fcn_gobject_enum nm_utils_enum_from_str_full nm_utils_enum_get_values nm_g_object_set_property typ_data_enum pn setting None
      = (gobject_property_reset_default setting pn, [])
  \<and> set_fcn_gobject_flags nmc_string_to_uint g_param_value_validate flags_class_values pn setting None
      = gobject_property_reset_default setting pn
  \<and> set_fcn_gobject_ssid pn setting None
      = gobject_property_reset_default setting pn
  \<and> set_fcn_gobject_ifname nm_utils_is_valid_iface_name pn setting None
      = gobject_property_reset_default setting pn
  \<and> set_fcn_vpn_service_type find_service_type pn setting None
      = gobject_property_reset_default setting pn
  \<and> set_fcn_gobject_bytes nm_utils_hexstr2bin ascii_str_to_int64 legacy_format pn setting None
      = gobject_property_reset_default setting pn
  \<and> setter_options is_valid_option add_option valid_func1 valid_func2 pn setting None
      = gobject_property_reset_default setting pn
  \<and> setter_mac_blacklist hwaddr_ok add_mac pn setting None
      = gobject_property_reset_default setting pn
  \<and> setter_cert prefix_pkcs11 prefix_path set_cert pn setting None
      = gobject_property_reset_default setting pn
  \<and> setter_priv_key prefix_pkcs11 prefix_path nm_str_skip_leading_spaces nm_utils_is_separator pwd_func set_priv_key pn setting None
      = gobject_property_reset_default setting pn
  \<and> set_fcn_connection_permissions add_permission pn setting None
      = gobject_property_reset_default setting pn
  \<and> set_fcn_connection_secondaries add_secondary pn setting None
      = gobject_property_reset_default setting pn
  \<and> set_fcn_connection_metered nmc_string_to_ternary metered_value pn setting None
      = gobject_property_reset_default setting pn
  \<and> set_fcn_dcb_flags ascii_str_to_int64 enable advertise willing g_param_value_validate flags_class_values pn setting None
      = gobject_property_reset_default setting pn
  \<and> set_fcn_dcb typ_data_dcb pn setting None
      = (gobject_property_reset_default setting pn, [])
  \<and> set_fcn_dcb_bool typ_data_dcb_bool pn setting None
      = (gobject_property_reset_default setting pn, [])
  \<and> set_fcn_gsm_sim_operator_id pn setting None
      = gobject_property_reset_default setting pn"
  by (simp add: set_fcn_gobject_string_def set_fcn_gobject_bool_def set_fcn_gobject_int_def
      set_fcn_gobject_mtu_def set_fcn_gobject_mac_def set_fcn_gobject_enum_def
      set_fcn_gobject_flags_def set_fcn_gobject_ssid_def set_fcn_gobject_ifname_def
      set_fcn_vpn_service_type_def set_fcn_gobject_bytes_def setter_options_def
      setter_mac_blacklist_def setter_cert_def setter_priv_key_def
      set_fcn_connection_permissions_def set_fcn_connection_secondaries_def
      set_fcn_connection_metered_def set_fcn_dcb_flags_def set_fcn_dcb_def
      set_fcn_dcb_bool_def set_fcn_gsm_sim_operator_id_def)

lemma set_null_reset_setters_b:
  "set_fcn_multilist is_valid_multilist typ_data_multilist pn setting None
      = gobject_property_reset_default setting pn
  \<and> set_fcn_infiniband_p_key ascii_str_to_int64 pn setting None
      = gobject_property_reset_default setting pn
  \<and> set_fcn_ip_config_method matches get_addr_family is_valid_method vals_static pn setting None
      = gobject_property_reset_default setting pn
  \<and> set_fcn_ip_config_dns get_addr_family nm_utils_parse_inaddr add_dns pn setting None
      = gobject_property_reset_default setting pn
  \<and> set_fcn_ip_config_dns_search add_dns_search pn setting None
      = gobject_property_reset_default setting pn
  \<and> set_fcn_ip_config_dns_options remove_dns_option_by_value add_dns_option pn setting None
      = gobject_property_reset_default setting pn
  \<and> set_fcn_ip4_config_addresses L pn setting None
      = gobject_property_reset_default setting pn
  \<and> set_fcn_ip4_config_gateway L pn setting None
      = gobject_property_reset_default setting pn
  \<and> set_fcn_ip6_config_addresses L pn setting None
      = gobject_property_reset_default setting pn
  \<and> set_fcn_ip6_config_gateway L pn setting None
      = gobject_property_reset_default setting pn
  \<and> set_fcn_ip6_config_routes L pn setting None
      = gobject_property_reset_default setting pn
  \<and> set_fcn_match_interface_name strsplit_set_escaped nm_utils_unescape_spaces add_interface_name pn setting None
      = gobject_property_reset_default setting pn
  \<and> set_fcn_olpc_mesh_channel nmc_string_to_uint pn setting None
      = gobject_property_reset_default setting pn
  \<and> set_fcn_sriov_vfs nm_utils_sriov_vf_from_str add_vf pn setting None
      = gobject_property_reset_default setting pn
  \<and> set_fcn_tc_config_qdiscs nm_utils_tc_qdisc_from_str add_qdisc pn setting None
      = gobject_property_reset_default setting pn
  \<and> set_fcn_tc_config_tfilters nm_utils_tc_tfilter_from_str add_tfilter pn setting None
      = gobject_property_reset_default setting pn
  \<and> set_fcn_team_runner_tx_hash get_num remove_idx add_tx_hash pn setting None
      = Some (gobject_property_reset_default setting pn)
  \<and> set_fcn_team_link_watchers C add_team_watcher pn setting None
      = gobject_property_reset_default setting pn
  \<and> set_fcn_team_port_link_watchers C add_team_port_watcher pn setting None
      = gobject_property_reset_default setting pn
  \<and> set_fcn_vlan_xgress_priority_map V pn setting None
      = gobject_property_reset_default setting pn
  \<and> set_fcn_wired_s390_subchannels pn setting None
      = gobject_property_reset_default setting pn
  \<and> set_fcn_wireless_channel nmc_string_to_uint nm_utils_wifi_is_channel_valid pn setting None
      = gobject_property_reset_default setting pn"
  by (simp add: set_fcn_multilist_def set_fcn_infiniband_p_key_def
      set_fcn_ip_config_method_def set_fcn_ip_config_dns_def
      set_fcn_ip_config_dns_search_def set_fcn_ip_config_dns_options_def
      set_fcn_ip4_config_addresses_def set_fcn_ip4_config_gateway_def
      set_fcn_ip6_config_addresses_def set_fcn_ip6_config_gateway_def
      set_fcn_ip6_config_routes_def set_fcn_match_interface_name_def
      set_fcn_olpc_mesh_channel_def set_fcn_sriov_vfs_def set_fcn_tc_config_qdiscs_def
      set_fcn_tc_config_tfilters_def set_fcn_team_runner_tx_hash_def
      set_fcn_team_link_watchers_def set_fcn_team_port_link_watchers_def
      set_fcn_vlan_xgress_priority_map_def set_fcn_wired_s390_subchannels_def
      set_fcn_wireless_channel_def)

lemma set_null_own_reset:
  "set_fcn_connection_master nm_utils_is_valid_iface_name nm_utils_is_uuid pn setting None
      = (None, g_object_set_property setting pn (GString None))
  \<and> set_fcn_wireless_wep_key W pn setting None
      = ((None, g_object_set_property setting pn (GString None)), [])
  \<and> set_fcn_ip4_config_routes L pn setting None
      = (None, nm_setting_ip_config_clear_routes setting)
  \<and> set_fcn_ethtool nm_setting_ethtool_set_feature optname setting None
      = (None, nm_setting_ethtool_set_feature setting optname NM_TERNARY_DEFAULT)"
  by (simp add: set_fcn_connection_master_def set_fcn_wireless_wep_key_def
      set_fcn_ip4_config_routes_def set_fcn_ethtool_def)

lemma set_null_connection_type:
  "(nm_setting_connection_get_uuid setting = None \<longrightarrow>
       set_fcn_connection_type uuid pn setting None
         = (None, g_object_set_property setting pn (GString None)))
  \<and> (nm_setting_connection_get_uuid setting \<noteq> None \<longrightarrow>
       set_fcn_connection_type uuid pn setting None = (Some CanNotChangeConnectionType, setting))"
  by (simp_all add: set_fcn_connection_type_def)

lemma connection_type_reset_with_uuid:
  "fst (set_fcn_connection_type ''c5f2e1a0'' ''type''
          (g_object_set_property
             (g_object_set_property setting_connection ''uuid'' (GString (Some ''1b4e28ba'')))
             ''type'' (GString (Some ''bond''))) None)
     = Some CanNotChangeConnectionType
   \<and> \<not> gobject_property_is_default
         (snd (set_fcn_connection_type ''c5f2e1a0'' ''type''
                 (g_object_set_property
                    (g_object_set_property setting_connection ''uuid'' (GString (Some ''1b4e28ba'')))
                    ''type'' (GString (Some ''bond''))) None)) ''type''"
  by code_simp

text \<open>
  C2, as stated, has every setter handle the null value before any other check.
  The setter of the connection type looks at the UUID first: on a connection with a
  UUID the null value returns the error that the type can not change, and the type
  keeps its value, which is not the default.
\<close>

theorem set_null_connection_type_counterexample:
  "fst (set_fcn_connection_type ''c5f2e1a0'' ''type''
          (g_object_set_property
             (g_object_set_property setting_connection ''uuid'' (GString (Some ''1b4e28ba'')))
             ''type'' (GString (Some ''bond''))) None)
     = Some CanNotChangeConnectionType
   \<and> \<not> gobject_property_is_default
         (snd (set_fcn_connection_type ''c5f2e1a0'' ''type''
                 (g_object_set_property
                    (g_object_set_property setting_connection ''uuid'' (GString (Some ''1b4e28ba'')))
                    ''type'' (GString (Some ''bond''))) None)) ''type''"
  by (rule connection_type_reset_with_uuid)

text \<open>
  C2, amended. Every setter except the one of the connection type handles the null
  value before any other check, whatever its parser, its validators and its allowed
  values are. Forty-four of the forty-nine setters hand the property to
  \<^verbatim>\<open>_gobject_property_reset_default\<close> and return what it returns; the setters of
  \<^verbatim>\<open>connection.master\<close> and of the WEP keys store \<^verbatim>\<open>NULL\<close>, the setter of the IPv4
  routes clears the routes, and the setter of the ethtool features sets the feature
  to the default value of the ternary; these four succeed. The reset of a property of
  the object's class succeeds, and a property that holds a string list or a hash
  table is at its default afterwards. The setter of the connection type looks at
  the UUID first: without a UUID the null value stores no type and succeeds, with a
  UUID it fails with the error that the type can not change.
\<close>

theorem set_null_resets:
  "(g_object_class_find_property setting pn = Some pspec \<longrightarrow>
       fst (gobject_property_reset_default setting pn) = None
       \<and> (value_type pspec = G_TYPE_STRV \<or> value_type pspec = G_TYPE_HASH_TABLE \<longrightarrow>
            gobject_property_is_default (snd (gobject_property_reset_default setting pn)) pn))
  \<and> (nm_setting_connection_get_uuid setting = None \<longrightarrow>
       set_fcn_connection_type uuid pn setting None
         = (None, g_object_set_property setting pn (GString None)))
  \<and> (nm_setting_connection_get_uuid setting \<noteq> None \<longrightarrow>
       set_fcn_connection_type uuid pn setting None = (Some CanNotChangeConnectionType, setting))
  \<and> set_fcn_multilist is_valid_multilist typ_data_multilist pn setting None
      = gobject_property_reset_default setting pn
  \<and> set_fcn_gobject_string is_valid_string typ_data_string pn setting None
      = gobject_property_reset_default setting pn
  \<and> set_fcn_gobject_bool nmc_string_to_bool pn setting None
      = gobject_property_reset_default setting pn
  \<and> set_fcn_gobject_int param_spec_range ascii_str_to_int64 ascii_str_to_uint64 nm_g_object_set_property typ_data_int pn setting None
      = gobject_property_reset_default setting pn
  \<and> set_fcn_gobject_mtu nm_g_object_set_property pn setting None
      = gobject_property_reset_default setting pn
  \<and> set_fcn_gobject_mac nm_utils_hwaddr_valid cloned_mac_is_special typ_data_mac pn setting None
      = gobject_property_reset_default setting pn
  \<and> set_fcn_gobject_enum nm_utils_enum_from_str_full nm_utils_enum_get_values nm_g_object_set_property typ_data_enum pn setting None
      = (gobject_property_reset_default setting pn, [])
  \<and> set_fcn_gobject_flags nmc_string_to_uint g_param_value_validate flags_class_values pn setting None
      = gobject_property_reset_default setting pn
  \<and> set_fcn_gobject_ssid pn setting None
      = gobject_property_reset_default setting pn
  \<and> set_fcn_gobject_ifname nm_utils_is_valid_iface_name pn setting None
      = gobject_property_reset_default setting pn
  \<and> set_fcn_vpn_service_type find_service_type pn setting None
      = gobject_property_reset_default setting pn
  \<and> set_fcn_gobject_bytes nm_utils_hexstr2bin ascii_str_to_int64 legacy_format pn setting None
      = gobject_property_reset_default setting pn
  \<and> setter_options is_valid_option add_option valid_func1 valid_func2 pn setting None
      = gobject_property_reset_default setting pn
  \<and> setter_mac_blacklist hwaddr_ok add_mac pn setting None
      = gobject_property_reset_default setting pn
  \<and> setter_cert prefix_pkcs11 prefix_path set_cert pn setting None
      = gobject_property_reset_default setting pn
  \<and> setter_priv_key prefix_pkcs11 prefix_path nm_str_skip_leading_spaces nm_utils_is_separator pwd_func set_priv_key pn setting None
      = gobject_property_reset_default setting pn
  \<and> set_fcn_connection_permissions add_permission pn setting None
      = gobject_property_reset_default setting pn
  \<and> set_fcn_connection_secondaries add_secondary pn setting None
      = gobject_property_reset_default setting pn
  \<and> set_fcn_connection_metered nmc_string_to_ternary metered_value pn setting None
      = gobject_property_reset_default setting pn
  \<and> set_fcn_dcb_flags ascii_str_to_int64 enable advertise willing g_param_value_validate flags_class_values pn setting None
      = gobject_property_reset_default setting pn
  \<and> set_fcn_dcb typ_data_dcb pn setting None
      = (gobject_property_reset_default setting pn, [])
  \<and> set_fcn_dcb_bool typ_data_dcb_bool pn setting None
      = (gobject_property_reset_default setting pn, [])
  \<and> set_fcn_gsm_sim_operator_id pn setting None
      = gobject_property_reset_default setting pn
  \<and> set_fcn_infiniband_p_key ascii_str_to_int64 pn setting None
      = gobject_property_reset_default setting pn
  \<and> set_fcn_ip_config_method matches get_addr_family is_valid_method vals_static pn setting None
      = gobject_property_reset_default setting pn
  \<and> set_fcn_ip_config_dns get_addr_family nm_utils_parse_inaddr add_dns pn setting None
      = gobject_property_reset_default setting pn
  \<and> set_fcn_ip_config_dns_search add_dns_search pn setting None
      = gobject_property_reset_default setting pn
  \<and> set_fcn_ip_config_dns_options remove_dns_option_by_value add_dns_option pn setting None
      = gobject_property_reset_default setting pn
  \<and> set_fcn_ip4_config_addresses L pn setting None
      = gobject_property_reset_default setting pn
  \<and> set_fcn_ip4_config_gateway L pn setting None
      = gobject_property_reset_default setting pn
  \<and> set_fcn_ip6_config_addresses L pn setting None
      = gobject_property_reset_default setting pn
  \<and> set_fcn_ip6_config_gateway L pn setting None
      = gobject_property_reset_default setting pn
  \<and> set_fcn_ip6_config_routes L pn setting None
      = gobject_property_reset_default setting pn
  \<and> set_fcn_match_interface_name strsplit_set_escaped nm_utils_unescape_spaces add_interface_name pn setting None
      = gobject_property_reset_default setting pn
  \<and> set_fcn_olpc_mesh_channel nmc_string_to_uint pn setting None
      = gobject_property_reset_default setting pn
  \<and> set_fcn_sriov_vfs nm_utils_sriov_vf_from_str add_vf pn setting None
      = gobject_property_reset_default setting pn
  \<and> set_fcn_tc_config_qdiscs nm_utils_tc_qdisc_from_str add_qdisc pn setting None
      = gobject_property_reset_default setting pn
  \<and> set_fcn_tc_config_tfilters nm_utils_tc_tfilter_from_str add_tfilter pn setting None
      = gobject_property_reset_default setting pn
  \<and> set_fcn_team_runner_tx_hash get_num remove_idx add_tx_hash pn setting None
      = Some (gobject_property_reset_default setting pn)
  \<and> set_fcn_team_link_watchers C add_team_watcher pn setting None
      = gobject_property_reset_default setting pn
  \<and> set_fcn_team_port_link_watchers C add_team_port_watcher pn setting None
      = gobject_property_reset_default setting pn
  \<and> set_fcn_vlan_xgress_priority_map V pn setting None
      = gobject_property_reset_default setting pn
  \<and> set_fcn_wired_s390_subchannels pn setting None
      = gobject_property_reset_default setting pn
  \<and> set_fcn_wireless_channel nmc_string_to_uint nm_utils_wifi_is_channel_valid pn setting None
      = gobject_property_reset_default setting pn
  \<and> set_fcn_connection_master nm_utils_is_valid_iface_name nm_utils_is_uuid pn setting None
      = (None, g_object_set_property setting pn (GString None))
  \<and> set_fcn_wireless_wep_key W pn setting None
      = ((None, g_object_set_property setting pn (GString None)), [])
  \<and> set_fcn_ip4_config_routes L pn setting None
      = (None, nm_setting_ip_config_clear_routes setting)
  \<and> set_fcn_ethtool nm_setting_ethtool_set_feature optname setting None
      = (None, nm_setting_ethtool_set_feature setting optname NM_TERNARY_DEFAULT)"
proof -
  have a:
  "set_fcn_gobject_string is_valid_string typ_data_string pn setting None
      = gobject_property_reset_default setting pn
  \<and> set_fcn_gobject_bool nmc_string_to_bool pn setting None
      = gobject_property_reset_default setting pn
  \<and> set_fcn_gobject_int param_spec_range ascii_str_to_int64 ascii_str_to_uint64 nm_g_object_set_property typ_data_int pn setting None
      = gobject_property_reset_default setting pn
  \<and> set_fcn_gobject_mtu nm_g_object_set_property pn setting None
      = gobject_property_reset_default setting pn
  \<and> set_fcn_gobject_mac nm_utils_hwaddr_valid cloned_mac_is_special typ_data_mac pn setting None
      = gobject_property_reset_default setting pn
  \<and> set_fcn_gobject_enum nm_utils_enum_from_str_full nm_utils_enum_get_values nm_g_object_set_property typ_data_enum pn setting None
      = (gobject_property_reset_default setting pn, [])
  \<and> set_fcn_gobject_flags nmc_string_to_uint g_param_value_validate flags_class_values pn setting None
      = gobject_property_reset_default setting pn
  \<and> set_fcn_gobject_ssid pn setting None
      = gobject_property_reset_default setting pn
  \<and> set_fcn_gobject_ifname nm_utils_is_valid_iface_name pn setting None
      = gobject_property_reset_default setting pn
  \<and> set_fcn_vpn_service_type find_service_type pn setting None
      = gobject_property_reset_default setting pn
  \<and> set_fcn_gobject_bytes nm_utils_hexstr2bin ascii_str_to_int64 legacy_format pn setting None
      = gobject_property_reset_default setting pn
  \<and> setter_options is_valid_option add_option valid_func1 valid_func2 pn setting None
      = gobject_property_reset_default setting pn
  \<and> setter_mac_blacklist hwaddr_ok add_mac pn setting None
      = gobject_property_reset_default setting pn
  \<and> setter_cert prefix_pkcs11 prefix_path set_cert pn setting None
      = gobject_property_reset_default setting pn
  \<and> setter_priv_key prefix_pkcs11 prefix_path nm_str_skip_leading_spaces nm_utils_is_separator pwd_func set_priv_key pn setting None
      = gobject_property_reset_default setting pn
  \<and> set_fcn_connection_permissions add_permission pn setting None
      = gobject_property_reset_default setting pn
  \<and> set_fcn_connection_secondaries add_secondary pn setting None
      = gobject_property_reset_default setting pn
  \<and> set_fcn_connection_metered nmc_string_to_ternary metered_value pn setting None
      = gobject_property_reset_default setting pn
  \<and> set_fcn_dcb_flags ascii_str_to_int64 enable advertise willing g_param_value_validate flags_class_values pn setting None
      = gobject_property_reset_default setting pn
  \<and> set_fcn_dcb typ_data_dcb pn setting None
      = (gobject_property_reset_default setting pn, [])
  \<and> set_fcn_dcb_bool typ_data_dcb_bool pn setting None
      = (gobject_property_reset_default setting pn, [])
  \<and> set_fcn_gsm_sim_operator_id pn setting None
      = gobject_property_reset_default setting pn"
    by (rule set_null_reset_setters_a)
  have b:
  "set_fcn_multilist is_valid_multilist typ_data_multilist pn setting None
      = gobject_property_reset_default setting pn
  \<and> set_fcn_infiniband_p_key ascii_str_to_int64 pn setting None
      = gobject_property_reset_default setting pn
  \<and> set_fcn_ip_config_method matches get_addr_family is_valid_method vals_static pn setting None
      = gobject_property_reset_default setting pn
  \<and> set_fcn_ip_config_dns get_addr_family nm_utils_parse_inaddr add_dns pn setting None
      = gobject_property_reset_default setting pn
  \<and> set_fcn_ip_config_dns_search add_dns_search pn setting None
      = gobject_property_reset_default setting pn
  \<and> set_fcn_ip_config_dns_options remove_dns_option_by_value add_dns_option pn setting None
      = gobject_property_reset_default setting pn
  \<and> set_fcn_ip4_config_addresses L pn setting None
      = gobject_property_reset_default setting pn
  \<and> set_fcn_ip4_config_gateway L pn setting None
      = gobject_property_reset_default setting pn
  \<and> set_fcn_ip6_config_addresses L pn setting None
      = gobject_property_reset_default setting pn
  \<and> set_fcn_ip6_config_gateway L pn setting None
      = gobject_property_reset_default setting pn
  \<and> set_fcn_ip6_config_routes L pn setting None
      = gobject_property_reset_default setting pn
  \<and> set_fcn_match_interface_name strsplit_set_escaped nm_utils_unescape_spaces add_interface_name pn setting None
      = gobject_property_reset_default setting pn
  \<and> set_fcn_olpc_mesh_channel nmc_string_to_uint pn setting None
      = gobject_property_reset_default setting pn
  \<and> set_fcn_sriov_vfs nm_utils_sriov_vf_from_str add_vf pn setting None
      = gobject_property_reset_default setting pn
  \<and> set_fcn_tc_config_qdiscs nm_utils_tc_qdisc_from_str add_qdisc pn setting None
      = gobject_property_reset_default setting pn
  \<and> set_fcn_tc_config_tfilters nm_utils_tc_tfilter_from_str add_tfilter pn setting None
      = gobject_property_reset_default setting pn
  \<and> set_fcn_team_runner_tx_hash get_num remove_idx add_tx_hash pn setting None
      = Some (gobject_property_reset_default setting pn)
  \<and> set_fcn_team_link_watchers C add_team_watcher pn setting None
      = gobject_property_reset_default setting pn
  \<and> set_fcn_team_port_link_watchers C add_team_port_watcher pn setting None
      = gobject_property_reset_default setting pn
  \<and> set_fcn_vlan_xgress_priority_map V pn setting None
      = gobject_property_reset_default setting pn
  \<and> set_fcn_wired_s390_subchannels pn setting None
      = gobject_property_reset_default setting pn
  \<and> set_fcn_wireless_channel nmc_string_to_uint nm_utils_wifi_is_channel_valid pn setting None
      = gobject_property_reset_default setting pn"
    by (rule set_null_reset_setters_b)
  have c:
  "set_fcn_connection_master nm_utils_is_valid_iface_name nm_utils_is_uuid pn setting None
      = (None, g_object_set_property setting pn (GString None))
  \<and> set_fcn_wireless_wep_key W pn setting None
      = ((None, g_object_set_property setting pn (GString None)), [])
  \<and> set_fcn_ip4_config_routes L pn setting None
      = (None, nm_setting_ip_config_clear_routes setting)
  \<and> set_fcn_ethtool nm_setting_ethtool_set_feature optname setting None
      = (None, nm_setting_ethtool_set_feature setting optname NM_TERNARY_DEFAULT)"
    by (rule set_null_own_reset)
  show ?thesis
    using a b c set_null_connection_type [of setting uuid pn]
      reset_default_succeeds [of setting pn pspec]
      reset_default_list_is_default [of setting pn pspec]
    by (intro conjI impI) blast+
qed

theorem set_null_resets_witness:
  "g_object_class_find_property
       (strv_store setting_802_1x ''eap'' [''tls'', ''peap'']) ''eap''
     = Some \<lparr>value_type = G_TYPE_STRV, default_value = GStrv None\<rparr>
   \<and> \<not> gobject_property_is_default
         (strv_store setting_802_1x ''eap'' [''tls'', ''peap'']) ''eap''
   \<and> fst (set_fcn_multilist (\<lambda>item allowed. Inl (StringNotValid item)) eap_typ_data ''eap''
            (strv_store setting_802_1x ''eap'' [''tls'', ''peap'']) None) = None
   \<and> gobject_property_is_default
        (snd (set_fcn_multilist (\<lambda>item allowed. Inl (StringNotValid item)) eap_typ_data ''eap''
                (strv_store setting_802_1x ''eap'' [''tls'', ''peap'']) None)) ''eap''
   \<and> nm_setting_connection_get_uuid setting_connection = None
   \<and> set_fcn_connection_type ''c5f2e1a0'' ''type'' setting_connection None
      = (None, g_object_set_property setting_connection ''type'' (GString None))
   \<and> nm_setting_connection_get_uuid
        (g_object_set_property setting_connection ''uuid'' (GString (Some ''1b4e28ba''))) \<noteq> None
   \<and> set_fcn_connection_type ''c5f2e1a0'' ''type''
        (g_object_set_property setting_connection ''uuid'' (GString (Some ''1b4e28ba''))) None
      = (Some CanNotChangeConnectionType,
         g_object_set_property setting_connection ''uuid'' (GString (Some ''1b4e28ba'')))"
proof -
  let ?st = "strv_store setting_802_1x ''eap'' [''tls'', ''peap'']"
  let ?ps = "\<lparr>value_type = G_TYPE_STRV, default_value = GStrv None\<rparr>"
  let ?old = "g_object_set_property setting_connection ''uuid'' (GString (Some ''1b4e28ba''))"
  let ?iv = "\<lambda>item allowed. Inl (StringNotValid item) :: error + string"
  have a: "g_object_class_find_property ?st ''eap'' = Some ?ps"
    by code_simp
  have n: "\<not> gobject_property_is_default ?st ''eap''"
    by code_simp
  have z: "value_type ?ps = G_TYPE_STRV"
    by simp
  have u: "nm_setting_connection_get_uuid setting_connection = None"
    "nm_setting_connection_get_uuid ?old \<noteq> None"
    by code_simp+
  have r: "set_fcn_multilist ?iv eap_typ_data ''eap'' ?st None
      = gobject_property_reset_default ?st ''eap''"
    using set_null_resets [where pn = "''eap''" and setting = ?st and is_valid_multilist = ?iv
        and typ_data_multilist = eap_typ_data,
        THEN conjunct2, THEN conjunct2, THEN conjunct2, THEN conjunct1]
    by simp
  have b: "fst (gobject_property_reset_default ?st ''eap'') = None
      \<and> gobject_property_is_default (snd (gobject_property_reset_default ?st ''eap'')) ''eap''"
    using set_null_resets [where pn = "''eap''" and setting = ?st and pspec = ?ps,
        THEN conjunct1] a z
    by simp
  have d: "set_fcn_connection_type ''c5f2e1a0'' ''type'' setting_connection None
      = (None, g_object_set_property setting_connection ''type'' (GString None))"
    using set_null_resets [where pn = "''type''" and setting = setting_connection
        and uuid = "''c5f2e1a0''", THEN conjunct2, THEN conjunct1] u(1)
    by simp
  have e: "set_fcn_connection_type ''c5f2e1a0'' ''type'' ?old None
      = (Some CanNotChangeConnectionType, ?old)"
    using set_null_resets [where pn = "''type''" and setting = ?old
        and uuid = "''c5f2e1a0''", THEN conjunct2, THEN conjunct2, THEN conjunct1] u(2)
    by simp
  show ?thesis
    using a n b u(1) d u(2) e unfolding r by (intro conjI) blast+
qed

end
